theory Spec2Isabelle
  imports Complex_Main
begin

section \<open>Numbers and vectors\<close>

text \<open>
  The particle engine computes with JavaScript numbers.  They are modelled as
  real numbers: arithmetic is exact, there is no rounding and no overflow.
  (The needle updates are embedded once more over numbers that overflow to
  \<open>Infinity\<close> and know \<open>NaN\<close>, in the sections on JavaScript numbers below.)
  \<open>Math.abs\<close>, \<open>Math.sign\<close>, \<open>Math.sqrt\<close>, \<open>Math.cos\<close>, \<open>Math.sin\<close>,
  \<open>Math.max\<close> and \<open>Math.min\<close> are \<open>abs\<close>, \<open>sgn\<close>, \<open>sqrt\<close>, \<open>cos\<close>, \<open>sin\<close>,
  \<open>max\<close> and \<open>min\<close>.

  \<open>THREE.Vector3\<close> is the vector class of the three.js library.  Its methods
  mutate the receiver and return it; here each method is a function returning
  the new value.  \<open>normalize()\<close> is \<open>divideScalar(length() || 1)\<close> and
  \<open>divideScalar(s)\<close> is \<open>multiplyScalar(1 / s)\<close>, so normalising the zero vector
  leaves it unchanged.
\<close>

datatype vec3 = Vector3 (vx: real) (vy: real) (vz: real)

definition add_v :: "vec3 \<Rightarrow> vec3 \<Rightarrow> vec3" where
  "add_v a b = Vector3 (vx a + vx b) (vy a + vy b) (vz a + vz b)"

definition sub_v :: "vec3 \<Rightarrow> vec3 \<Rightarrow> vec3" where
  "sub_v a b = Vector3 (vx a - vx b) (vy a - vy b) (vz a - vz b)"

definition addVectors :: "vec3 \<Rightarrow> vec3 \<Rightarrow> vec3" where
  "addVectors a b = Vector3 (vx a + vx b) (vy a + vy b) (vz a + vz b)"

definition multiplyScalar :: "vec3 \<Rightarrow> real \<Rightarrow> vec3" where
  "multiplyScalar a s = Vector3 (vx a * s) (vy a * s) (vz a * s)"

definition dot_v :: "vec3 \<Rightarrow> vec3 \<Rightarrow> real" where
  "dot_v a b = vx a * vx b + vy a * vy b + vz a * vz b"

definition crossVectors :: "vec3 \<Rightarrow> vec3 \<Rightarrow> vec3" where
  "crossVectors a b =
     Vector3 (vy a * vz b - vz a * vy b)
             (vz a * vx b - vx a * vz b)
             (vx a * vy b - vy a * vx b)"

definition lengthSq :: "vec3 \<Rightarrow> real" where
  "lengthSq a = vx a * vx a + vy a * vy a + vz a * vz a"

definition length_v :: "vec3 \<Rightarrow> real" where
  "length_v a = sqrt (vx a * vx a + vy a * vy a + vz a * vz a)"

definition divideScalar :: "vec3 \<Rightarrow> real \<Rightarrow> vec3" where
  "divideScalar a s = multiplyScalar a (1 / s)"

definition normalize_v :: "vec3 \<Rightarrow> vec3" where
  "normalize_v a = divideScalar a (if length_v a = 0 then 1 else length_v a)"

definition distanceTo :: "vec3 \<Rightarrow> vec3 \<Rightarrow> real" where
  "distanceTo a b =
     sqrt ((vx a - vx b) * (vx a - vx b) + (vy a - vy b) * (vy a - vy b)
           + (vz a - vz b) * (vz a - vz b))"

definition lerp :: "vec3 \<Rightarrow> vec3 \<Rightarrow> real \<Rightarrow> vec3" where
  "lerp a v alpha =
     Vector3 (vx a + (vx v - vx a) * alpha)
             (vy a + (vy v - vy a) * alpha)
             (vz a + (vz v - vz a) * alpha)"

text \<open>The \<open>??\<close> operator on an optional configuration value.\<close>

fun nullish :: "'a option \<Rightarrow> 'a \<Rightarrow> 'a" where
  "nullish None d = d"
| "nullish (Some v) d = v"

section \<open>Data model\<close>

record HandControl =
  palm :: vec3
  fingers :: "vec3 list"
  handIndex :: nat

datatype Behavior = Responsive | Cohesive | NeedleSphere | NeedleSwarm

datatype Geometry = Sphere | Needle

record ParticleSystemConfig =
  color :: nat
  count :: nat
  size_cfg :: real
  boundary :: real
  viscosity :: real
  behavior :: Behavior
  geometry :: "Geometry option"
  attractionStrength :: "real option"
  interactionRadius :: "real option"
  cohesionStrength :: "real option"
  cohesionRadius :: "real option"
  baseRadius :: "real option"
  radiusHandScale :: "real option"
  outerRadiusMultiplier :: "real option"
  needleLength :: "real option"

record Particle =
  position :: vec3
  velocity :: vec3
  direction :: vec3
  groupIndex :: nat
  assignedCenterIndex :: "nat option"
  targetPosition :: "vec3 option"

text \<open>
  \<open>Math.random()\<close> is an input: \<open>rnd k\<close> is the value of the \<open>k\<close>-th call made
  during the operation at hand, a number in \<open>[0, 1)\<close>.  \<open>performance.now()\<close> is
  the input \<open>now\<close>.
\<close>

definition draws_ok :: "(nat \<Rightarrow> real) \<Rightarrow> bool" where
  "draws_ok rnd = (\<forall>k. 0 \<le> rnd k \<and> rnd k < 1)"

text \<open>\<open>initParticles\<close>: nine draws for each particle, in the order of the source.\<close>

definition initParticle :: "ParticleSystemConfig \<Rightarrow> (nat \<Rightarrow> real) \<Rightarrow> nat \<Rightarrow> Particle" where
  "initParticle cfg rnd i =
     \<lparr> position = Vector3 ((rnd (9 * i) - 0.5) * boundary cfg * 2)
                          ((rnd (9 * i + 1) - 0.5) * boundary cfg * 2)
                          ((rnd (9 * i + 2) - 0.5) * boundary cfg * 2),
       velocity = Vector3 ((rnd (9 * i + 3) - 0.5) * 0.8)
                          ((rnd (9 * i + 4) - 0.5) * 0.8)
                          ((rnd (9 * i + 5) - 0.5) * 0.8),
       direction = normalize_v (Vector3 (rnd (9 * i + 6) - 0.5)
                                        (rnd (9 * i + 7) - 0.5)
                                        (rnd (9 * i + 8) - 0.5)),
       groupIndex = i mod 2,
       assignedCenterIndex = None,
       targetPosition = None \<rparr>"

definition initParticles :: "ParticleSystemConfig \<Rightarrow> (nat \<Rightarrow> real) \<Rightarrow> Particle list" where
  "initParticles cfg rnd = map (initParticle cfg rnd) [0..<count cfg]"

section \<open>Responsive and cohesive behaviour\<close>

text \<open>The body of the loop over the hands in \<open>handleResponsiveBehavior\<close>.\<close>

definition responsiveStep ::
  "ParticleSystemConfig \<Rightarrow> Particle \<Rightarrow> HandControl \<Rightarrow> vec3 \<Rightarrow> vec3" where
  "responsiveStep cfg particle control totalForce =
     (let palmPos = Vector3 (vx (palm control)) (vy (palm control)) (vz (palm control));
          toPalm = sub_v palmPos (position particle);
          dist = length_v toPalm
      in if dist < nullish (interactionRadius cfg) 0
         then add_v totalForce
                (multiplyScalar (normalize_v toPalm)
                   (nullish (attractionStrength cfg) 0
                    * (1 - dist / nullish (interactionRadius cfg) 1)))
         else totalForce)"

definition handleResponsiveBehavior ::
  "ParticleSystemConfig \<Rightarrow> HandControl list \<Rightarrow> (nat \<Rightarrow> real) \<Rightarrow> nat
     \<Rightarrow> Particle \<Rightarrow> vec3 \<Rightarrow> vec3" where
  "handleResponsiveBehavior cfg hands rnd k particle totalForce =
     add_v (fold (responsiveStep cfg particle) hands totalForce)
           (Vector3 ((rnd k - 0.5) * 0.05)
                    ((rnd (k + 1) - 0.5) * 0.05)
                    ((rnd (k + 2) - 0.5) * 0.05))"

text \<open>
  The loop \<open>for (let i = 0; i < this.particles.length; i += checkStep)\<close> of
  \<open>handleCohesiveBehavior\<close>, with \<open>checkStep = 10\<close>.  The particles are read from
  the store as it is at that moment of the tick.
\<close>

function cohesiveLoop ::
  "ParticleSystemConfig \<Rightarrow> Particle list \<Rightarrow> Particle \<Rightarrow> nat \<Rightarrow> nat \<Rightarrow> vec3 \<Rightarrow> vec3" where
  "cohesiveLoop cfg ps particle index i totalForce =
     (if i < length ps then
        (if i = index then cohesiveLoop cfg ps particle index (i + 10) totalForce
         else
           (let other = ps ! i;
                dir = sub_v (position other) (position particle);
                dist = length_v dir
            in if dist < nullish (cohesionRadius cfg) 0
               then cohesiveLoop cfg ps particle index (i + 10)
                      (add_v totalForce
                         (multiplyScalar (normalize_v dir)
                            (nullish (cohesionStrength cfg) 0
                             * (1 - dist / nullish (cohesionRadius cfg) 1))))
               else cohesiveLoop cfg ps particle index (i + 10) totalForce))
      else totalForce)"
  by pat_completeness auto
termination
  by (relation "measure (\<lambda>(cfg, ps, particle, index, i, totalForce). length ps - i)") auto

definition handleCohesiveBehavior ::
  "ParticleSystemConfig \<Rightarrow> Particle list \<Rightarrow> Particle \<Rightarrow> nat \<Rightarrow> vec3 \<Rightarrow> vec3" where
  "handleCohesiveBehavior cfg ps particle index totalForce =
     cohesiveLoop cfg ps particle index 0
       (add_v totalForce (multiplyScalar (position particle) (- 0.01)))"

text \<open>\<open>applyBoundaries\<close>: the loop over the axes \<open>['x', 'y', 'z']\<close>.\<close>

datatype Axis = AxisX | AxisY | AxisZ

fun getAxis :: "vec3 \<Rightarrow> Axis \<Rightarrow> real" where
  "getAxis v AxisX = vx v"
| "getAxis v AxisY = vy v"
| "getAxis v AxisZ = vz v"

fun setAxis :: "vec3 \<Rightarrow> Axis \<Rightarrow> real \<Rightarrow> vec3" where
  "setAxis v AxisX r = Vector3 r (vy v) (vz v)"
| "setAxis v AxisY r = Vector3 (vx v) r (vz v)"
| "setAxis v AxisZ r = Vector3 (vx v) (vy v) r"

definition boundaryAxis :: "ParticleSystemConfig \<Rightarrow> Axis \<Rightarrow> Particle \<Rightarrow> Particle" where
  "boundaryAxis cfg axis particle =
     (if \<bar>getAxis (position particle) axis\<bar> > boundary cfg
      then particle
             \<lparr> position := setAxis (position particle) axis
                            (sgn (getAxis (position particle) axis) * boundary cfg),
               velocity := setAxis (velocity particle) axis
                            (getAxis (velocity particle) axis * (- 0.8)) \<rparr>
      else particle)"

definition applyBoundaries :: "ParticleSystemConfig \<Rightarrow> Particle \<Rightarrow> Particle" where
  "applyBoundaries cfg particle = fold (boundaryAxis cfg) [AxisX, AxisY, AxisZ] particle"

text \<open>
  One iteration of the loop of \<open>update\<close> for the responsive and the cohesive
  behaviour.  The store is updated in place, so the iteration for particle \<open>i\<close>
  sees the particles before it as already moved in this tick.  In responsive
  mode particle \<open>i\<close> consumes the draws \<open>3 i\<close>, \<open>3 i + 1\<close> and \<open>3 i + 2\<close>.
\<close>

definition totalForceOf ::
  "ParticleSystemConfig \<Rightarrow> HandControl list \<Rightarrow> (nat \<Rightarrow> real) \<Rightarrow> nat \<Rightarrow> Particle list \<Rightarrow> vec3" where
  "totalForceOf cfg hands rnd i ps =
     (if behavior cfg = Responsive
      then handleResponsiveBehavior cfg hands rnd (3 * i) (ps ! i) (Vector3 0 0 0)
      else handleCohesiveBehavior cfg ps (ps ! i) i (Vector3 0 0 0))"

definition integrate :: "ParticleSystemConfig \<Rightarrow> vec3 \<Rightarrow> Particle \<Rightarrow> Particle" where
  "integrate cfg totalForce particle =
     (let v1 = add_v (velocity particle) totalForce;
          v2 = multiplyScalar v1 (viscosity cfg)
      in particle \<lparr> velocity := v2, position := add_v (position particle) v2 \<rparr>)"

definition updateParticle ::
  "ParticleSystemConfig \<Rightarrow> HandControl list \<Rightarrow> (nat \<Rightarrow> real) \<Rightarrow> nat
     \<Rightarrow> Particle list \<Rightarrow> Particle list" where
  "updateParticle cfg hands rnd i ps =
     ps[i := applyBoundaries cfg (integrate cfg (totalForceOf cfg hands rnd i ps) (ps ! i))]"

definition updateForces ::
  "ParticleSystemConfig \<Rightarrow> HandControl list \<Rightarrow> (nat \<Rightarrow> real) \<Rightarrow> Particle list \<Rightarrow> Particle list" where
  "updateForces cfg hands rnd ps = fold (updateParticle cfg hands rnd) [0..<length ps] ps"

text \<open>The store at the moment the iteration for particle \<open>i\<close> starts.\<close>

definition storeBefore ::
  "ParticleSystemConfig \<Rightarrow> HandControl list \<Rightarrow> (nat \<Rightarrow> real) \<Rightarrow> Particle list \<Rightarrow> nat
     \<Rightarrow> Particle list" where
  "storeBefore cfg hands rnd ps i = fold (updateParticle cfg hands rnd) [0..<i] ps"

section \<open>Needle sphere\<close>

text \<open>
  The head of \<open>updateNeedleSphere\<close>: the centre and the driving distance, from
  the palms of the current snapshot only.
\<close>

definition palmVector :: "HandControl \<Rightarrow> vec3" where
  "palmVector control = Vector3 (vx (palm control)) (vy (palm control)) (vz (palm control))"

definition needleCenter :: "HandControl list \<Rightarrow> vec3" where
  "needleCenter hands =
     (if length hands = 2
      then multiplyScalar (addVectors (palmVector (hands ! 0)) (palmVector (hands ! 1))) 0.5
      else if length hands = 1 then palmVector (hands ! 0)
      else Vector3 0 0 0)"

definition needleHandDistance :: "HandControl list \<Rightarrow> real" where
  "needleHandDistance hands =
     (if length hands = 2
      then distanceTo (palmVector (hands ! 0)) (palmVector (hands ! 1))
      else if length hands = 1 then 15
      else 10)"

definition effectiveRadius :: "ParticleSystemConfig \<Rightarrow> real \<Rightarrow> real" where
  "effectiveRadius cfg handDistance =
     nullish (baseRadius cfg) 8 + handDistance * nullish (radiusHandScale cfg) 1.2"

definition targetRadiusForParticle ::
  "ParticleSystemConfig \<Rightarrow> real \<Rightarrow> Particle \<Rightarrow> real" where
  "targetRadiusForParticle cfg handDistance particle =
     effectiveRadius cfg handDistance
     * (if groupIndex particle = 0 then 1 else nullish (outerRadiusMultiplier cfg) 1.8)"

text \<open>
  The radial direction used for the projection onto the shell (\<open>toSurface\<close> in
  the source): the direction from the centre to the particle, or the stored
  \<open>direction\<close> when the particle is within \<open>0.01\<close> of the centre.
\<close>

definition toSurface :: "vec3 \<Rightarrow> Particle \<Rightarrow> vec3" where
  "toSurface center particle =
     (let toParticle = sub_v (position particle) center;
          currentDist = length_v toParticle
      in if currentDist > 0.01 then normalize_v toParticle
         else normalize_v (direction particle))"

text \<open>
  The swimming direction.  This block of the source is the same in every
  needle update, up to the swim speed and the phase.
\<close>

definition tangent1Of :: "vec3 \<Rightarrow> vec3" where
  "tangent1Of radial =
     (let tangent1 = crossVectors radial (Vector3 0 1 0)
      in normalize_v (if lengthSq tangent1 < 0.01
                      then crossVectors radial (Vector3 1 0 0) else tangent1))"

definition tangent2Of :: "vec3 \<Rightarrow> vec3" where
  "tangent2Of radial = normalize_v (crossVectors radial (tangent1Of radial))"

definition swimDirection :: "vec3 \<Rightarrow> real \<Rightarrow> real \<Rightarrow> vec3" where
  "swimDirection radial phase swimSpeed =
     add_v (multiplyScalar (tangent1Of radial) (cos phase * swimSpeed))
           (multiplyScalar (tangent2Of radial) (sin phase * swimSpeed))"

text \<open>
  The loop body of \<open>updateNeedleSphere\<close> in \<^verbatim>\<open>src/lib/optimized-particle-system.ts\<close>,
  for a shell of radius \<open>radius\<close> around \<open>center\<close>: \<open>sphereMove\<close> blends the velocity,
  starts from the surface position and adds the swimming motion; \<open>sphereStep\<close>
  then projects the particle onto the shell again, unless it is within \<open>0.1\<close>
  of the centre.
\<close>

definition sphereMove ::
  "vec3 \<Rightarrow> real \<Rightarrow> real \<Rightarrow> real \<Rightarrow> real \<Rightarrow> Particle \<Rightarrow> Particle" where
  "sphereMove center radius swimSpeed phase deltaTime particle =
     (let surfaceDir = toSurface center particle;
          surfacePos = add_v (multiplyScalar surfaceDir radius) center;
          vel = lerp (velocity particle) (swimDirection surfaceDir phase swimSpeed)
                  (deltaTime * 3.0)
      in particle
           \<lparr> velocity := vel,
             position := add_v surfacePos (multiplyScalar vel deltaTime) \<rparr>)"

definition sphereStep ::
  "vec3 \<Rightarrow> real \<Rightarrow> real \<Rightarrow> real \<Rightarrow> real \<Rightarrow> Particle \<Rightarrow> Particle" where
  "sphereStep center radius swimSpeed phase deltaTime particle =
     (let moved = sphereMove center radius swimSpeed phase deltaTime particle;
          newToParticle = sub_v (position moved) center
      in if lengthSq newToParticle > 0.01
         then moved \<lparr> position :=
                        add_v (multiplyScalar (normalize_v newToParticle) radius) center \<rparr>
         else moved)"

definition updateNeedleSphere ::
  "ParticleSystemConfig \<Rightarrow> HandControl list \<Rightarrow> real \<Rightarrow> real \<Rightarrow> Particle list \<Rightarrow> Particle list" where
  "updateNeedleSphere cfg hands now deltaTime ps =
     map (\<lambda>(i, particle).
            sphereStep (needleCenter hands)
              (targetRadiusForParticle cfg (needleHandDistance hands) particle)
              4.0 (real i * 0.01 + now * 0.001 * 0.4) deltaTime particle)
         (enumerate 0 ps)"

text \<open>
  The loop body of \<open>updateNeedleSphere\<close> in the later version of the file
  (\<^verbatim>\<open>src/unnamed/part_001\<close>): the particle is first put on the shell, the
  velocity loses its component along \<open>toSurface\<close>, and the projection after
  the move has a fallback to the stored direction.  The stored direction is
  then updated.
\<close>

definition strictSphereStep ::
  "vec3 \<Rightarrow> real \<Rightarrow> real \<Rightarrow> real \<Rightarrow> real \<Rightarrow> Particle \<Rightarrow> Particle" where
  "strictSphereStep center radius swimSpeed phase deltaTime particle =
     (let surfaceDir = toSurface center particle;
          surfacePos = add_v (multiplyScalar surfaceDir radius) center;
          currentRadial = multiplyScalar surfaceDir (dot_v (velocity particle) surfaceDir);
          tangentialVelocity = sub_v (velocity particle) currentRadial;
          vel = lerp tangentialVelocity (swimDirection surfaceDir phase swimSpeed)
                  (deltaTime * 3.0);
          pos = add_v surfacePos (multiplyScalar vel deltaTime);
          newToParticle = sub_v pos center;
          pos' = (if lengthSq newToParticle > 0.0001
                  then add_v (multiplyScalar (normalize_v newToParticle) radius) center
                  else add_v (multiplyScalar (normalize_v (direction particle)) radius) center);
          updatedDirection = sub_v pos' center
      in particle
           \<lparr> velocity := vel,
             position := pos',
             direction := (if lengthSq updatedDirection > 0.0001
                           then normalize_v updatedDirection
                           else direction particle) \<rparr>)"

definition updateNeedleSphere_strict ::
  "ParticleSystemConfig \<Rightarrow> HandControl list \<Rightarrow> real \<Rightarrow> real \<Rightarrow> Particle list \<Rightarrow> Particle list" where
  "updateNeedleSphere_strict cfg hands now deltaTime ps =
     map (\<lambda>(i, particle).
            strictSphereStep (needleCenter hands)
              (targetRadiusForParticle cfg (needleHandDistance hands) particle)
              4.0 (real i * 0.01 + now * 0.001 * 0.4) deltaTime particle)
         (enumerate 0 ps)"

section \<open>Needle swarm\<close>

text \<open>
  Two things can go wrong in a JavaScript tick without the types saying so:
  reading a property of \<open>undefined\<close> (an array read out of range, an optional
  field that is not set) raises a \<open>TypeError\<close>, and a division by zero gives
  \<open>Infinity\<close> or \<open>NaN\<close>, which then spreads through the arithmetic.  Both are
  results of the model: such a read is \<open>Inl TypeError\<close>, a division by zero is
  \<open>Inl NonFinite\<close>.  (The divisions inside \<open>normalize()\<close> are guarded by
  three.js itself, see above.)
\<close>

datatype error = TypeError | NonFinite

definition bindE :: "error + 'a \<Rightarrow> ('a \<Rightarrow> error + 'b) \<Rightarrow> error + 'b" where
  "bindE m f = (case m of Inl e \<Rightarrow> Inl e | Inr x \<Rightarrow> f x)"

definition jsDiv :: "real \<Rightarrow> real \<Rightarrow> error + real" where
  "jsDiv a b = (if b = 0 then Inl NonFinite else Inr (a / b))"

definition centerAt :: "vec3 list \<Rightarrow> nat \<Rightarrow> error + vec3" where
  "centerAt centers k = (if k < length centers then Inr (centers ! k) else Inl TypeError)"

fun forEachIndexed :: "(nat \<Rightarrow> 'a \<Rightarrow> error + 'a) \<Rightarrow> nat \<Rightarrow> 'a list \<Rightarrow> error + 'a list" where
  "forEachIndexed f i [] = Inr []"
| "forEachIndexed f i (x # xs) =
     bindE (f i x) (\<lambda>y. bindE (forEachIndexed f (Suc i) xs) (\<lambda>ys. Inr (y # ys)))"

text \<open>
  Step 1 of \<open>updateNeedleSwarm\<close>, the same in both versions of the file.
  \<open>minDist\<close> starts as \<open>Infinity\<close>, here \<open>None\<close>.
\<close>

fun belowMin :: "real \<Rightarrow> real option \<Rightarrow> bool" where
  "belowMin d None = True"
| "belowMin d (Some m) = (d < m)"

function nearestLoop :: "vec3 list \<Rightarrow> vec3 \<Rightarrow> nat \<Rightarrow> nat \<Rightarrow> real option \<Rightarrow> nat" where
  "nearestLoop centers pos j nearestIndex minDist =
     (if j < length centers then
        (let d = distanceTo pos (centers ! j)
         in if belowMin d minDist
            then nearestLoop centers pos (j + 1) j (Some d)
            else nearestLoop centers pos (j + 1) nearestIndex minDist)
      else nearestIndex)"
  by pat_completeness auto
termination
  by (relation "measure (\<lambda>(centers, pos, j, nearestIndex, minDist). length centers - j)") auto

text \<open>The search for a centre that is significantly closer; \<open>Some j\<close> is the \<open>break\<close>.\<close>

function reassignLoop :: "vec3 list \<Rightarrow> vec3 \<Rightarrow> nat \<Rightarrow> real \<Rightarrow> nat \<Rightarrow> nat option" where
  "reassignLoop centers pos assigned currentDist j =
     (if j < length centers then
        (if j = assigned then reassignLoop centers pos assigned currentDist (j + 1)
         else if distanceTo pos (centers ! j) < currentDist * 0.8 then Some j
         else reassignLoop centers pos assigned currentDist (j + 1))
      else None)"
  by pat_completeness auto
termination
  by (relation "measure (\<lambda>(centers, pos, assigned, currentDist, j). length centers - j)") auto

definition assignCenter :: "vec3 list \<Rightarrow> Particle \<Rightarrow> Particle" where
  "assignCenter centers particle =
     (case assignedCenterIndex particle of
        None \<Rightarrow>
          particle \<lparr> assignedCenterIndex :=
                       Some (nearestLoop centers (position particle) 0 0 None) \<rparr>
      | Some assigned \<Rightarrow>
          if assigned \<ge> length centers
          then particle \<lparr> assignedCenterIndex :=
                            Some (nearestLoop centers (position particle) 0 0 None) \<rparr>
          else (case reassignLoop centers (position particle) assigned
                       (distanceTo (position particle) (centers ! assigned)) 0 of
                  Some newIndex \<Rightarrow> particle \<lparr> assignedCenterIndex := Some newIndex \<rparr>
                | None \<Rightarrow> particle))"

text \<open>
  \<^verbatim>\<open>src/lib/optimized-particle-system.ts\<close>: the sphere radius from the hand
  separation, the gravitational pull, and step 2.
\<close>

definition swarmSphereRadius :: "vec3 list \<Rightarrow> real" where
  "swarmSphereRadius centers =
     (let handDistance = (if length centers \<ge> 2 then distanceTo (centers ! 0) (centers ! 1)
                          else if length centers = 1 then 20 else 10)
      in if length centers \<ge> 2
         then max 6 (min (6 + handDistance * 0.25) (handDistance * 0.33))
         else 12)"

definition gravitationalForce :: "vec3 \<Rightarrow> real \<Rightarrow> real \<Rightarrow> error + vec3" where
  "gravitationalForce toCenter distToCenter targetRadius =
     (let gravitationalStrength = 25.0;
          coreRadius = targetRadius * 0.3
      in if distToCenter > 0.01 then
           (let toCenterNorm = normalize_v toCenter
            in if distToCenter > targetRadius then
                 bindE (jsDiv targetRadius (max distToCenter targetRadius))
                   (\<lambda>q. Inr (multiplyScalar toCenterNorm
                                (gravitationalStrength * (1.0 - q) * 1.5)))
               else if distToCenter < coreRadius then
                 bindE (jsDiv distToCenter coreRadius)
                   (\<lambda>q. Inr (multiplyScalar toCenterNorm
                                (- (gravitationalStrength * 0.5 * (1.0 - q)))))
               else
                 bindE (jsDiv (distToCenter - coreRadius) (targetRadius - coreRadius))
                   (\<lambda>q. Inr (multiplyScalar toCenterNorm
                                (gravitationalStrength * 0.3 * (1.0 - q)))))
         else Inr (Vector3 0 0 0))"

text \<open>
  Step 2 for one particle, once its centre and the gravitational force are
  known: the new position, the new velocity and the new \<open>targetPosition\<close>.
\<close>

definition swarmMotion ::
  "vec3 \<Rightarrow> real \<Rightarrow> vec3 \<Rightarrow> real \<Rightarrow> real \<Rightarrow> nat \<Rightarrow> Particle \<Rightarrow> vec3 \<times> vec3 \<times> vec3" where
  "swarmMotion center targetRadius force time deltaTime i particle =
     (let vel1 = add_v (velocity particle) (multiplyScalar force deltaTime);
          targetPos = add_v (multiplyScalar (toSurface center particle) targetRadius) center;
          target = (case targetPosition particle of
                      None \<Rightarrow> targetPos
                    | Some t \<Rightarrow> lerp t targetPos 0.3);
          pos1 = add_v (position particle) (multiplyScalar vel1 deltaTime);
          pos2 = lerp pos1 target (0.3 * 1.5);
          toCurrent = sub_v pos2 center;
          pos3 = (if lengthSq toCurrent > 0.01
                     \<and> \<bar>length_v toCurrent - targetRadius\<bar> > 2.0
                  then lerp pos2
                         (add_v (multiplyScalar (normalize_v toCurrent) targetRadius) center)
                         0.1
                  else pos2);
          radial = normalize_v (sub_v pos3 center);
          vel2 = multiplyScalar
                   (lerp vel1 (swimDirection radial (real i * 0.01 + time * 0.5) 8.0)
                      (deltaTime * 4.0))
                   0.96;
          vel3 = (if length_v vel2 > 25.0
                  then multiplyScalar (normalize_v vel2) 25.0 else vel2);
          pos4 = add_v pos3 (multiplyScalar vel3 deltaTime);
          newToSurface = sub_v pos4 center;
          far = (lengthSq newToSurface > 0.01
                 \<and> \<bar>length_v newToSurface - targetRadius\<bar> > 0.5);
          pos5 = (if far
                  then lerp pos4
                         (add_v (multiplyScalar (normalize_v newToSurface) targetRadius) center)
                         0.2
                  else pos4)
      in (pos5, vel3, if far then pos5 else target))"

definition swarmStep ::
  "vec3 list \<Rightarrow> real \<Rightarrow> real \<Rightarrow> real \<Rightarrow> nat \<Rightarrow> Particle \<Rightarrow> error + Particle" where
  "swarmStep centers sphereRadius time deltaTime i particle =
     bindE (centerAt centers (nullish (assignedCenterIndex particle) 0)) (\<lambda>center.
       bindE (gravitationalForce (sub_v center (position particle))
                (length_v (sub_v center (position particle)))
                (sphereRadius * (if groupIndex particle = 0 then 1 else 1.8))) (\<lambda>force.
         case swarmMotion center (sphereRadius * (if groupIndex particle = 0 then 1 else 1.8))
                force time deltaTime i particle of
           (pos, vel, target) \<Rightarrow>
             Inr (particle \<lparr> position := pos, velocity := vel,
                              targetPosition := Some target \<rparr>)))"

definition updateNeedleSwarm ::
  "HandControl list \<Rightarrow> real \<Rightarrow> real \<Rightarrow> Particle list \<Rightarrow> error + Particle list" where
  "updateNeedleSwarm hands now deltaTime ps =
     (if length hands = 0
      then Inr (map (\<lambda>(i, particle).
                       sphereStep (Vector3 0 0 0)
                         (12 * (if groupIndex particle = 0 then 1 else 1.8))
                         5.0 (real i * 0.01 + now * 0.001 * 0.5) deltaTime particle)
                    (enumerate 0 ps))
      else (let centers = map palmVector hands
            in forEachIndexed
                 (swarmStep centers (swarmSphereRadius centers) (now * 0.001) deltaTime)
                 0 (map (assignCenter centers) ps)))"

text \<open>
  \<^verbatim>\<open>src/unnamed/part_001\<close>: one loop body serves the no-hands sphere at the
  origin and the sphere around the assigned palm.
\<close>

definition strictSwarmStep ::
  "vec3 \<Rightarrow> real \<Rightarrow> real \<Rightarrow> real \<Rightarrow> real \<Rightarrow> Particle \<Rightarrow> Particle" where
  "strictSwarmStep center targetRadius swimSpeed phase deltaTime particle =
     (let currentDist = length_v (sub_v (position particle) center);
          surfaceDir = toSurface center particle;
          surfacePos = add_v (multiplyScalar surfaceDir targetRadius) center;
          pos0 = (if \<bar>currentDist - targetRadius\<bar> > 0.5
                  then lerp (position particle) surfacePos 0.4
                  else surfacePos);
          updatedToSurface = sub_v pos0 center;
          dir = (if lengthSq updatedToSurface > 0.0001
                 then normalize_v updatedToSurface else direction particle);
          currentRadial = multiplyScalar surfaceDir (dot_v (velocity particle) surfaceDir);
          tangentialVelocity = sub_v (velocity particle) currentRadial;
          vel = lerp tangentialVelocity (swimDirection surfaceDir phase swimSpeed)
                  (deltaTime * 3.0);
          pos1 = add_v pos0 (multiplyScalar vel deltaTime);
          newToParticle = sub_v pos1 center
      in particle
           \<lparr> position := (if lengthSq newToParticle > 0.0001
                          then add_v (multiplyScalar (normalize_v newToParticle) targetRadius)
                                 center
                          else add_v (multiplyScalar (normalize_v dir) targetRadius) center),
             velocity := vel,
             direction := dir \<rparr>)"

definition updateNeedleSwarm_strict ::
  "HandControl list \<Rightarrow> real \<Rightarrow> real \<Rightarrow> Particle list \<Rightarrow> error + Particle list" where
  "updateNeedleSwarm_strict hands now deltaTime ps =
     (if length hands = 0
      then Inr (map (\<lambda>(i, particle).
                       strictSwarmStep (Vector3 0 0 0)
                         (12 * (if groupIndex particle = 0 then 1 else 1.8))
                         5.0 (real i * 0.01 + now * 0.001 * 0.5) deltaTime particle)
                    (enumerate 0 ps))
      else (let centers = map palmVector hands
            in forEachIndexed
                 (\<lambda>i particle.
                    bindE (centerAt centers (nullish (assignedCenterIndex particle) 0))
                      (\<lambda>center.
                         Inr (strictSwarmStep center
                                (12 * (if groupIndex particle = 0 then 1 else 1.8))
                                5.0 (real i * 0.01 + now * 0.001 * 0.5) deltaTime particle)))
                 0 (map (assignCenter centers) ps)))"

section \<open>The tick\<close>

text \<open>
  \<open>update(deltaTime)\<close> of the two versions of the class.  The update of the
  instanced mesh and of the skeleton overlay does not touch the particles and
  is left out.
\<close>

definition update ::
  "ParticleSystemConfig \<Rightarrow> HandControl list \<Rightarrow> (nat \<Rightarrow> real) \<Rightarrow> real \<Rightarrow> real
     \<Rightarrow> Particle list \<Rightarrow> error + Particle list" where
  "update cfg hands rnd now deltaTime ps =
     (if behavior cfg = NeedleSphere then Inr (updateNeedleSphere cfg hands now deltaTime ps)
      else if behavior cfg = NeedleSwarm then updateNeedleSwarm hands now deltaTime ps
      else Inr (updateForces cfg hands rnd ps))"

definition update_strict ::
  "ParticleSystemConfig \<Rightarrow> HandControl list \<Rightarrow> (nat \<Rightarrow> real) \<Rightarrow> real \<Rightarrow> real
     \<Rightarrow> Particle list \<Rightarrow> error + Particle list" where
  "update_strict cfg hands rnd now deltaTime ps =
     (if behavior cfg = NeedleSphere
      then Inr (updateNeedleSphere_strict cfg hands now deltaTime ps)
      else if behavior cfg = NeedleSwarm then updateNeedleSwarm_strict hands now deltaTime ps
      else Inr (updateForces cfg hands rnd ps))"

text \<open>The state of one instance, and \<open>setHandControls\<close>.\<close>

record ParticleSystem =
  params :: ParticleSystemConfig
  particles :: "Particle list"
  handControls :: "HandControl list"

definition setHandControls :: "ParticleSystem \<Rightarrow> HandControl list \<Rightarrow> ParticleSystem" where
  "setHandControls sys controls = sys \<lparr> handControls := controls \<rparr>"

definition tick ::
  "ParticleSystem \<Rightarrow> (nat \<Rightarrow> real) \<Rightarrow> real \<Rightarrow> real \<Rightarrow> error + ParticleSystem" where
  "tick sys rnd now deltaTime =
     bindE (update (params sys) (handControls sys) rnd now deltaTime (particles sys))
       (\<lambda>ps. Inr (sys \<lparr> particles := ps \<rparr>))"

text \<open>
  The component of a particle's velocity along the unit radial direction from
  a centre to the particle's position.
\<close>

definition radialSpeed :: "vec3 \<Rightarrow> Particle \<Rightarrow> real" where
  "radialSpeed center particle =
     dot_v (velocity particle) (normalize_v (sub_v (position particle) center))"

section \<open>The reference configuration\<close>

text \<open>
  The four instances that \<open>OptimizedLiquidSimulation\<close> constructs in
  \<^verbatim>\<open>src/lib/optimized-particle-system.ts\<close>.
\<close>

definition responsiveConfig :: ParticleSystemConfig where
  "responsiveConfig =
     \<lparr> color = 0x00ffff, count = 1000, size_cfg = 0.4, boundary = 25, viscosity = 0.85,
       behavior = Responsive, geometry = Some Sphere,
       attractionStrength = Some 1.5, interactionRadius = Some 15,
       cohesionStrength = None, cohesionRadius = None,
       baseRadius = None, radiusHandScale = None, outerRadiusMultiplier = None,
       needleLength = None \<rparr>"

definition cohesiveConfig :: ParticleSystemConfig where
  "cohesiveConfig =
     \<lparr> color = 0xff00ff, count = 800, size_cfg = 0.6, boundary = 20, viscosity = 0.95,
       behavior = Cohesive, geometry = Some Sphere,
       attractionStrength = None, interactionRadius = None,
       cohesionStrength = Some 0.3, cohesionRadius = Some 5,
       baseRadius = None, radiusHandScale = None, outerRadiusMultiplier = None,
       needleLength = None \<rparr>"

definition needleConfig :: ParticleSystemConfig where
  "needleConfig =
     \<lparr> color = 0xffff66, count = 2000, size_cfg = 0.5, boundary = 60, viscosity = 0.9,
       behavior = NeedleSphere, geometry = Some Needle,
       attractionStrength = None, interactionRadius = None,
       cohesionStrength = None, cohesionRadius = None,
       baseRadius = Some 8, radiusHandScale = Some 1.2, outerRadiusMultiplier = Some 1.9,
       needleLength = Some 4 \<rparr>"

definition swarmConfig :: ParticleSystemConfig where
  "swarmConfig =
     \<lparr> color = 0x00ff88, count = 1500, size_cfg = 0.4, boundary = 30, viscosity = 0.88,
       behavior = NeedleSwarm, geometry = Some Needle,
       attractionStrength = None, interactionRadius = None,
       cohesionStrength = None, cohesionRadius = None,
       baseRadius = None, radiusHandScale = None, outerRadiusMultiplier = None,
       needleLength = Some 3.5 \<rparr>"

text \<open>A hand with its palm at a given point, and a particle at rest.\<close>

definition handAt :: "vec3 \<Rightarrow> HandControl" where
  "handAt p = \<lparr> palm = p, fingers = [], handIndex = 0 \<rparr>"

definition particleAt :: "vec3 \<Rightarrow> vec3 \<Rightarrow> Particle" where
  "particleAt p v =
     \<lparr> position = p, velocity = v, direction = Vector3 1 0 0, groupIndex = 0,
       assignedCenterIndex = None, targetPosition = None \<rparr>"

section \<open>The forces as the specification words them\<close>

text \<open>The sum of a list of forces.\<close>

fun sumForces :: "vec3 list \<Rightarrow> vec3" where
  "sumForces [] = Vector3 0 0 0"
| "sumForces (f # fs) = add_v f (sumForces fs)"

text \<open>
  The attraction of one palm on a particle: for a palm at a distance \<open>d\<close> with
  \<open>0 < d < interactionRadius\<close>, the vector from the particle to the palm scaled
  to the length \<open>attractionStrength * (1 - d / interactionRadius)\<close>; no force
  from any other palm.
\<close>

definition palmForce :: "ParticleSystemConfig \<Rightarrow> Particle \<Rightarrow> HandControl \<Rightarrow> vec3" where
  "palmForce cfg particle control =
     (let toPalm = sub_v (palm control) (position particle);
          d = length_v toPalm;
          radius = nullish (interactionRadius cfg) 0
      in if 0 < d \<and> d < radius
         then multiplyScalar toPalm
                (nullish (attractionStrength cfg) 0 * (1 - d / radius) / d)
         else Vector3 0 0 0)"

text \<open>The random jitter of a responsive particle whose first draw is \<open>rnd k\<close>.\<close>

definition jitter :: "(nat \<Rightarrow> real) \<Rightarrow> nat \<Rightarrow> vec3" where
  "jitter rnd k =
     Vector3 ((rnd k - 0.5) * 0.05) ((rnd (k + 1) - 0.5) * 0.05) ((rnd (k + 2) - 0.5) * 0.05)"

text \<open>
  The cohesion of one sampled particle on a particle: for a distance \<open>d\<close> with
  \<open>0 < d < cohesionRadius\<close>, the vector to the other particle scaled to the
  length \<open>cohesionStrength * (1 - d / cohesionRadius)\<close>; no force otherwise.
  The sampled indices are \<open>0, 10, 20, \<dots>\<close> below the number of particles,
  without the particle's own index; \<open>strideFrom i n\<close> lists \<open>i, i + 10, \<dots>\<close>
  below \<open>n\<close>.
\<close>

definition neighbourForce :: "ParticleSystemConfig \<Rightarrow> Particle \<Rightarrow> Particle \<Rightarrow> vec3" where
  "neighbourForce cfg particle other =
     (let dir = sub_v (position other) (position particle);
          d = length_v dir;
          radius = nullish (cohesionRadius cfg) 0
      in if 0 < d \<and> d < radius
         then multiplyScalar dir (nullish (cohesionStrength cfg) 0 * (1 - d / radius) / d)
         else Vector3 0 0 0)"

function strideFrom :: "nat \<Rightarrow> nat \<Rightarrow> nat list" where
  "strideFrom i n = (if i < n then i # strideFrom (i + 10) n else [])"
  by pat_completeness auto
termination
  by (relation "measure (\<lambda>(i, n). n - i)") auto

definition sampledIndices :: "nat \<Rightarrow> nat \<Rightarrow> nat list" where
  "sampledIndices n index = filter (\<lambda>j. j \<noteq> index) (map (\<lambda>k. 10 * k) [0..<(n + 9) div 10])"

text \<open>
  The scenario of the specification: a responsive instance with four
  particles, boundary \<open>10\<close>, interaction radius \<open>5\<close> and attraction strength \<open>2\<close>.
  The scenario leaves the viscosity open.
\<close>

definition scenarioConfig :: "real \<Rightarrow> ParticleSystemConfig" where
  "scenarioConfig visc =
     \<lparr> color = 0x00ffff, count = 4, size_cfg = 0.4, boundary = 10, viscosity = visc,
       behavior = Responsive, geometry = Some Sphere,
       attractionStrength = Some 2, interactionRadius = Some 5,
       cohesionStrength = None, cohesionRadius = None,
       baseRadius = None, radiusHandScale = None, outerRadiusMultiplier = None,
       needleLength = None \<rparr>"

text \<open>
  Draws for the constructor that put particle \<open>0\<close> at \<open>(4.5, 0, 0)\<close> with
  velocity \<open>(0.3, 0, 0)\<close>, and draws that give no jitter.
\<close>

definition outwardDraws :: "nat \<Rightarrow> real" where
  "outwardDraws k = (if k = 0 then 0.725 else if k = 3 then 0.875 else if k = 6 then 0.9 else 0.5)"

definition calmDraws :: "nat \<Rightarrow> real" where
  "calmDraws k = 0.5"

text \<open>Two hands, at distances \<open>20\<close> and \<open>19\<close> from the origin.\<close>

definition twoHands :: "HandControl list" where
  "twoHands = [handAt (Vector3 20 0 0), handAt (Vector3 (- 19) 0 0)]"

section \<open>JavaScript numbers with overflow\<close>

text \<open>
  The real numbers of the sections above cannot overflow, so they never show
  \<open>Infinity\<close> or \<open>NaN\<close>.  For the claim that no update produces \<open>NaN\<close>, the
  needle updates are embedded a second time, over a type of JavaScript
  numbers: \<open>Num r\<close> is the finite number of value \<open>r\<close>, \<open>PInf\<close> and \<open>NInf\<close> are
  \<open>Infinity\<close> and \<open>-Infinity\<close>.  The result of an operation on finite numbers is
  the exact result brought into the range of doubles by \<open>number\<close>: a
  magnitude above \<open>Number.MAX_VALUE\<close> overflows to an infinity, a magnitude
  below \<open>Number.MIN_VALUE\<close> underflows to \<open>0\<close>.  Rounding inside the range is
  not modelled, and \<open>0\<close> has no sign (a non-zero number divided by \<open>0\<close> is the
  infinity of the sign of the numerator).  The operations on \<open>Infinity\<close> and
  \<open>NaN\<close> are those of IEEE 754: \<open>Infinity - Infinity\<close>, \<open>0 * Infinity\<close>,
  \<open>Infinity / Infinity\<close>, \<open>0 / 0\<close>, the square root of a negative number and
  the cosine or sine of an infinity are \<open>NaN\<close>, and \<open>NaN\<close> spreads through
  every operation.
\<close>

datatype jsnum = Num real | PInf | NInf | NaN

definition MAX_VALUE :: real where
  "MAX_VALUE = (2 ^ 53 - 1) * 2 ^ 971"

definition MIN_VALUE :: real where
  "MIN_VALUE = 1 / 2 ^ 1074"

definition number :: "real \<Rightarrow> jsnum" where
  "number r = (if MAX_VALUE < r then PInf else if r < - MAX_VALUE then NInf
               else if \<bar>r\<bar> < MIN_VALUE then Num 0 else Num r)"

fun plus_js :: "jsnum \<Rightarrow> jsnum \<Rightarrow> jsnum" where
  "plus_js (Num a) (Num b) = number (a + b)"
| "plus_js NaN y = NaN"
| "plus_js x NaN = NaN"
| "plus_js PInf NInf = NaN"
| "plus_js NInf PInf = NaN"
| "plus_js PInf y = PInf"
| "plus_js x PInf = PInf"
| "plus_js NInf y = NInf"
| "plus_js x NInf = NInf"

fun uminus_js :: "jsnum \<Rightarrow> jsnum" where
  "uminus_js (Num a) = Num (- a)"
| "uminus_js PInf = NInf"
| "uminus_js NInf = PInf"
| "uminus_js NaN = NaN"

definition minus_js :: "jsnum \<Rightarrow> jsnum \<Rightarrow> jsnum" where
  "minus_js x y = plus_js x (uminus_js y)"

fun times_js :: "jsnum \<Rightarrow> jsnum \<Rightarrow> jsnum" where
  "times_js (Num a) (Num b) = number (a * b)"
| "times_js NaN y = NaN"
| "times_js x NaN = NaN"
| "times_js (Num a) PInf = (if a = 0 then NaN else if 0 < a then PInf else NInf)"
| "times_js (Num a) NInf = (if a = 0 then NaN else if 0 < a then NInf else PInf)"
| "times_js PInf (Num b) = (if b = 0 then NaN else if 0 < b then PInf else NInf)"
| "times_js NInf (Num b) = (if b = 0 then NaN else if 0 < b then NInf else PInf)"
| "times_js PInf PInf = PInf"
| "times_js PInf NInf = NInf"
| "times_js NInf PInf = NInf"
| "times_js NInf NInf = PInf"

fun divide_js :: "jsnum \<Rightarrow> jsnum \<Rightarrow> jsnum" where
  "divide_js (Num a) (Num b) =
     (if b = 0 then (if a = 0 then NaN else if 0 < a then PInf else NInf)
      else number (a / b))"
| "divide_js NaN y = NaN"
| "divide_js x NaN = NaN"
| "divide_js (Num a) PInf = Num 0"
| "divide_js (Num a) NInf = Num 0"
| "divide_js PInf (Num b) = (if 0 \<le> b then PInf else NInf)"
| "divide_js NInf (Num b) = (if 0 \<le> b then NInf else PInf)"
| "divide_js PInf PInf = NaN"
| "divide_js PInf NInf = NaN"
| "divide_js NInf PInf = NaN"
| "divide_js NInf NInf = NaN"

fun sqrt_js :: "jsnum \<Rightarrow> jsnum" where
  "sqrt_js (Num a) = (if a < 0 then NaN else number (sqrt a))"
| "sqrt_js PInf = PInf"
| "sqrt_js NInf = NaN"
| "sqrt_js NaN = NaN"

fun cos_js :: "jsnum \<Rightarrow> jsnum" where
  "cos_js (Num a) = number (cos a)"
| "cos_js x = NaN"

fun sin_js :: "jsnum \<Rightarrow> jsnum" where
  "sin_js (Num a) = number (sin a)"
| "sin_js x = NaN"

fun abs_js :: "jsnum \<Rightarrow> jsnum" where
  "abs_js (Num a) = Num \<bar>a\<bar>"
| "abs_js PInf = PInf"
| "abs_js NInf = PInf"
| "abs_js NaN = NaN"

text \<open>
  \<open>less_js x y\<close> is \<open>x < y\<close> (and \<open>y > x\<close>): false when an operand is \<open>NaN\<close>.
  \<open>max_js\<close> and \<open>min_js\<close> are \<open>Math.max\<close> and \<open>Math.min\<close>.  \<open>orElse_js x d\<close> is
  \<open>x || d\<close> on numbers: \<open>0\<close> and \<open>NaN\<close> are falsy.
\<close>

fun less_js :: "jsnum \<Rightarrow> jsnum \<Rightarrow> bool" where
  "less_js (Num a) (Num b) = (a < b)"
| "less_js NaN y = False"
| "less_js x NaN = False"
| "less_js x NInf = False"
| "less_js PInf y = False"
| "less_js NInf y = True"
| "less_js x PInf = True"

definition max_js :: "jsnum \<Rightarrow> jsnum \<Rightarrow> jsnum" where
  "max_js x y = (if x = NaN \<or> y = NaN then NaN else if less_js x y then y else x)"

definition min_js :: "jsnum \<Rightarrow> jsnum \<Rightarrow> jsnum" where
  "min_js x y = (if x = NaN \<or> y = NaN then NaN else if less_js y x then y else x)"

definition orElse_js :: "jsnum \<Rightarrow> jsnum \<Rightarrow> jsnum" where
  "orElse_js x d = (if x = Num 0 \<or> x = NaN then d else x)"

text \<open>
  \<open>THREE.Vector3\<close> over these numbers, each method with the operations of
  three.js in their order: \<open>lengthSq\<close> is \<open>x * x + y * y + z * z\<close>,
  \<open>distanceTo\<close> is the square root of the squared distance, \<open>lerp\<close> is
  \<open>x += (v.x - x) * alpha\<close>, \<open>divideScalar(s)\<close> is \<open>multiplyScalar(1 / s)\<close> and
  \<open>normalize()\<close> is \<open>divideScalar(length() || 1)\<close>.
\<close>

datatype jsvec = Vector3_js (jx: jsnum) (jy: jsnum) (jz: jsnum)

definition add_js :: "jsvec \<Rightarrow> jsvec \<Rightarrow> jsvec" where
  "add_js a b = Vector3_js (plus_js (jx a) (jx b)) (plus_js (jy a) (jy b)) (plus_js (jz a) (jz b))"

definition sub_js :: "jsvec \<Rightarrow> jsvec \<Rightarrow> jsvec" where
  "sub_js a b =
     Vector3_js (minus_js (jx a) (jx b)) (minus_js (jy a) (jy b)) (minus_js (jz a) (jz b))"

definition multiplyScalar_js :: "jsvec \<Rightarrow> jsnum \<Rightarrow> jsvec" where
  "multiplyScalar_js a s = Vector3_js (times_js (jx a) s) (times_js (jy a) s) (times_js (jz a) s)"

definition dot_js :: "jsvec \<Rightarrow> jsvec \<Rightarrow> jsnum" where
  "dot_js a b =
     plus_js (plus_js (times_js (jx a) (jx b)) (times_js (jy a) (jy b))) (times_js (jz a) (jz b))"

definition crossVectors_js :: "jsvec \<Rightarrow> jsvec \<Rightarrow> jsvec" where
  "crossVectors_js a b =
     Vector3_js (minus_js (times_js (jy a) (jz b)) (times_js (jz a) (jy b)))
                (minus_js (times_js (jz a) (jx b)) (times_js (jx a) (jz b)))
                (minus_js (times_js (jx a) (jy b)) (times_js (jy a) (jx b)))"

definition lengthSq_js :: "jsvec \<Rightarrow> jsnum" where
  "lengthSq_js a =
     plus_js (plus_js (times_js (jx a) (jx a)) (times_js (jy a) (jy a))) (times_js (jz a) (jz a))"

definition length_js :: "jsvec \<Rightarrow> jsnum" where
  "length_js a = sqrt_js (lengthSq_js a)"

definition divideScalar_js :: "jsvec \<Rightarrow> jsnum \<Rightarrow> jsvec" where
  "divideScalar_js a s = multiplyScalar_js a (divide_js (Num 1) s)"

definition normalize_js :: "jsvec \<Rightarrow> jsvec" where
  "normalize_js a = divideScalar_js a (orElse_js (length_js a) (Num 1))"

definition distanceTo_js :: "jsvec \<Rightarrow> jsvec \<Rightarrow> jsnum" where
  "distanceTo_js a b = length_js (sub_js a b)"

definition lerp_js :: "jsvec \<Rightarrow> jsvec \<Rightarrow> jsnum \<Rightarrow> jsvec" where
  "lerp_js a v alpha =
     Vector3_js (plus_js (jx a) (times_js (minus_js (jx v) (jx a)) alpha))
                (plus_js (jy a) (times_js (minus_js (jy v) (jy a)) alpha))
                (plus_js (jz a) (times_js (minus_js (jz v) (jz a)) alpha))"

section \<open>The needle updates over JavaScript numbers\<close>

text \<open>
  The particle store over JavaScript numbers.  The palms, the configuration,
  \<open>performance.now()\<close> and \<open>deltaTime\<close> are finite numbers given as reals;
  \<open>number\<close> reads them.  The definitions below follow \<open>updateNeedleSphere\<close> and
  \<open>updateNeedleSwarm\<close> of the two versions of the file operation by operation,
  as the definitions over the reals do; \<open>phase_js i now rate\<close> is
  \<open>i * 0.01 + time * rate\<close> with \<open>time = performance.now() * 0.001\<close>.
\<close>

record Particle_js =
  position_js :: jsvec
  velocity_js :: jsvec
  direction_js :: jsvec
  groupIndex_js :: nat
  assignedCenterIndex_js :: "nat option"
  targetPosition_js :: "jsvec option"

definition vector_js :: "vec3 \<Rightarrow> jsvec" where
  "vector_js v = Vector3_js (number (vx v)) (number (vy v)) (number (vz v))"

definition needleCenter_js :: "HandControl list \<Rightarrow> jsvec" where
  "needleCenter_js hands =
     (if length hands = 2
      then multiplyScalar_js
             (add_js (vector_js (palmVector (hands ! 0))) (vector_js (palmVector (hands ! 1))))
             (Num 0.5)
      else if length hands = 1 then vector_js (palmVector (hands ! 0))
      else Vector3_js (Num 0) (Num 0) (Num 0))"

definition needleHandDistance_js :: "HandControl list \<Rightarrow> jsnum" where
  "needleHandDistance_js hands =
     (if length hands = 2
      then distanceTo_js (vector_js (palmVector (hands ! 0))) (vector_js (palmVector (hands ! 1)))
      else if length hands = 1 then Num 15
      else Num 10)"

definition effectiveRadius_js :: "ParticleSystemConfig \<Rightarrow> jsnum \<Rightarrow> jsnum" where
  "effectiveRadius_js cfg handDistance =
     plus_js (number (nullish (baseRadius cfg) 8))
       (times_js handDistance (number (nullish (radiusHandScale cfg) 1.2)))"

definition targetRadiusForParticle_js ::
  "ParticleSystemConfig \<Rightarrow> jsnum \<Rightarrow> Particle_js \<Rightarrow> jsnum" where
  "targetRadiusForParticle_js cfg handDistance particle =
     times_js (effectiveRadius_js cfg handDistance)
       (if groupIndex_js particle = 0 then Num 1
        else number (nullish (outerRadiusMultiplier cfg) 1.8))"

definition toSurface_js :: "jsvec \<Rightarrow> Particle_js \<Rightarrow> jsvec" where
  "toSurface_js center particle =
     (let toParticle = sub_js (position_js particle) center;
          currentDist = length_js toParticle
      in if less_js (Num 0.01) currentDist then normalize_js toParticle
         else normalize_js (direction_js particle))"

definition tangent1Of_js :: "jsvec \<Rightarrow> jsvec" where
  "tangent1Of_js radial =
     (let tangent1 = crossVectors_js radial (Vector3_js (Num 0) (Num 1) (Num 0))
      in normalize_js (if less_js (lengthSq_js tangent1) (Num 0.01)
                       then crossVectors_js radial (Vector3_js (Num 1) (Num 0) (Num 0))
                       else tangent1))"

definition tangent2Of_js :: "jsvec \<Rightarrow> jsvec" where
  "tangent2Of_js radial = normalize_js (crossVectors_js radial (tangent1Of_js radial))"

definition swimDirection_js :: "jsvec \<Rightarrow> jsnum \<Rightarrow> jsnum \<Rightarrow> jsvec" where
  "swimDirection_js radial phase swimSpeed =
     add_js (multiplyScalar_js (tangent1Of_js radial) (times_js (cos_js phase) swimSpeed))
            (multiplyScalar_js (tangent2Of_js radial) (times_js (sin_js phase) swimSpeed))"

definition phase_js :: "nat \<Rightarrow> real \<Rightarrow> real \<Rightarrow> jsnum" where
  "phase_js i now rate =
     plus_js (times_js (number (real i)) (Num 0.01))
             (times_js (times_js (number now) (Num 0.001)) (Num rate))"

text \<open>
  \<open>updateNeedleSphere\<close> of \<^verbatim>\<open>src/lib/optimized-particle-system.ts\<close> and of
  \<^verbatim>\<open>src/unnamed/part_001\<close>.
\<close>

definition sphereMove_js ::
  "jsvec \<Rightarrow> jsnum \<Rightarrow> jsnum \<Rightarrow> jsnum \<Rightarrow> jsnum \<Rightarrow> Particle_js \<Rightarrow> Particle_js" where
  "sphereMove_js center radius swimSpeed phase deltaTime particle =
     (let surfaceDir = toSurface_js center particle;
          surfacePos = add_js (multiplyScalar_js surfaceDir radius) center;
          vel = lerp_js (velocity_js particle) (swimDirection_js surfaceDir phase swimSpeed)
                  (times_js deltaTime (Num 3.0))
      in particle
           \<lparr> velocity_js := vel,
             position_js := add_js surfacePos (multiplyScalar_js vel deltaTime) \<rparr>)"

definition sphereStep_js ::
  "jsvec \<Rightarrow> jsnum \<Rightarrow> jsnum \<Rightarrow> jsnum \<Rightarrow> jsnum \<Rightarrow> Particle_js \<Rightarrow> Particle_js" where
  "sphereStep_js center radius swimSpeed phase deltaTime particle =
     (let moved = sphereMove_js center radius swimSpeed phase deltaTime particle;
          newToParticle = sub_js (position_js moved) center
      in if less_js (Num 0.01) (lengthSq_js newToParticle)
         then moved \<lparr> position_js :=
                        add_js (multiplyScalar_js (normalize_js newToParticle) radius) center \<rparr>
         else moved)"

definition updateNeedleSphere_js ::
  "ParticleSystemConfig \<Rightarrow> HandControl list \<Rightarrow> real \<Rightarrow> real \<Rightarrow> Particle_js list
     \<Rightarrow> Particle_js list" where
  "updateNeedleSphere_js cfg hands now deltaTime ps =
     map (\<lambda>(i, particle).
            sphereStep_js (needleCenter_js hands)
              (targetRadiusForParticle_js cfg (needleHandDistance_js hands) particle)
              (Num 4.0) (phase_js i now 0.4) (number deltaTime) particle)
         (enumerate 0 ps)"

definition strictSphereStep_js ::
  "jsvec \<Rightarrow> jsnum \<Rightarrow> jsnum \<Rightarrow> jsnum \<Rightarrow> jsnum \<Rightarrow> Particle_js \<Rightarrow> Particle_js" where
  "strictSphereStep_js center radius swimSpeed phase deltaTime particle =
     (let surfaceDir = toSurface_js center particle;
          surfacePos = add_js (multiplyScalar_js surfaceDir radius) center;
          currentRadial = multiplyScalar_js surfaceDir (dot_js (velocity_js particle) surfaceDir);
          tangentialVelocity = sub_js (velocity_js particle) currentRadial;
          vel = lerp_js tangentialVelocity (swimDirection_js surfaceDir phase swimSpeed)
                  (times_js deltaTime (Num 3.0));
          pos = add_js surfacePos (multiplyScalar_js vel deltaTime);
          newToParticle = sub_js pos center;
          pos' = (if less_js (Num 0.0001) (lengthSq_js newToParticle)
                  then add_js (multiplyScalar_js (normalize_js newToParticle) radius) center
                  else add_js (multiplyScalar_js (normalize_js (direction_js particle)) radius)
                         center);
          updatedDirection = sub_js pos' center
      in particle
           \<lparr> velocity_js := vel,
             position_js := pos',
             direction_js := (if less_js (Num 0.0001) (lengthSq_js updatedDirection)
                              then normalize_js updatedDirection
                              else direction_js particle) \<rparr>)"

definition updateNeedleSphere_strict_js ::
  "ParticleSystemConfig \<Rightarrow> HandControl list \<Rightarrow> real \<Rightarrow> real \<Rightarrow> Particle_js list
     \<Rightarrow> Particle_js list" where
  "updateNeedleSphere_strict_js cfg hands now deltaTime ps =
     map (\<lambda>(i, particle).
            strictSphereStep_js (needleCenter_js hands)
              (targetRadiusForParticle_js cfg (needleHandDistance_js hands) particle)
              (Num 4.0) (phase_js i now 0.4) (number deltaTime) particle)
         (enumerate 0 ps)"

text \<open>
  \<open>updateNeedleSwarm\<close>.  Reading a centre out of range is \<open>Inl TypeError\<close>;
  \<open>minDist\<close> starts as \<open>Infinity\<close>; a division by zero is no error here, it gives
  an infinity or \<open>NaN\<close>.
\<close>

definition centerAt_js :: "jsvec list \<Rightarrow> nat \<Rightarrow> error + jsvec" where
  "centerAt_js centers k = (if k < length centers then Inr (centers ! k) else Inl TypeError)"

function nearestLoop_js :: "jsvec list \<Rightarrow> jsvec \<Rightarrow> nat \<Rightarrow> nat \<Rightarrow> jsnum \<Rightarrow> nat" where
  "nearestLoop_js centers pos j nearestIndex minDist =
     (if j < length centers then
        (let d = distanceTo_js pos (centers ! j)
         in if less_js d minDist
            then nearestLoop_js centers pos (j + 1) j d
            else nearestLoop_js centers pos (j + 1) nearestIndex minDist)
      else nearestIndex)"
  by pat_completeness auto
termination
  by (relation "measure (\<lambda>(centers, pos, j, nearestIndex, minDist). length centers - j)") auto

function reassignLoop_js :: "jsvec list \<Rightarrow> jsvec \<Rightarrow> nat \<Rightarrow> jsnum \<Rightarrow> nat \<Rightarrow> nat option" where
  "reassignLoop_js centers pos assigned currentDist j =
     (if j < length centers then
        (if j = assigned then reassignLoop_js centers pos assigned currentDist (j + 1)
         else if less_js (distanceTo_js pos (centers ! j)) (times_js currentDist (Num 0.8))
              then Some j
         else reassignLoop_js centers pos assigned currentDist (j + 1))
      else None)"
  by pat_completeness auto
termination
  by (relation "measure (\<lambda>(centers, pos, assigned, currentDist, j). length centers - j)") auto

definition assignCenter_js :: "jsvec list \<Rightarrow> Particle_js \<Rightarrow> Particle_js" where
  "assignCenter_js centers particle =
     (case assignedCenterIndex_js particle of
        None \<Rightarrow>
          particle \<lparr> assignedCenterIndex_js :=
                       Some (nearestLoop_js centers (position_js particle) 0 0 PInf) \<rparr>
      | Some assigned \<Rightarrow>
          if assigned \<ge> length centers
          then particle \<lparr> assignedCenterIndex_js :=
                            Some (nearestLoop_js centers (position_js particle) 0 0 PInf) \<rparr>
          else (case reassignLoop_js centers (position_js particle) assigned
                       (distanceTo_js (position_js particle) (centers ! assigned)) 0 of
                  Some newIndex \<Rightarrow> particle \<lparr> assignedCenterIndex_js := Some newIndex \<rparr>
                | None \<Rightarrow> particle))"

definition swarmSphereRadius_js :: "jsvec list \<Rightarrow> jsnum" where
  "swarmSphereRadius_js centers =
     (let handDistance = (if length centers \<ge> 2 then distanceTo_js (centers ! 0) (centers ! 1)
                          else if length centers = 1 then Num 20 else Num 10)
      in if length centers \<ge> 2
         then max_js (Num 6)
                (min_js (plus_js (Num 6) (times_js handDistance (Num 0.25)))
                   (times_js handDistance (Num 0.33)))
         else Num 12)"

definition gravitationalForce_js :: "jsvec \<Rightarrow> jsnum \<Rightarrow> jsnum \<Rightarrow> jsvec" where
  "gravitationalForce_js toCenter distToCenter targetRadius =
     (let gravitationalStrength = Num 25.0;
          coreRadius = times_js targetRadius (Num 0.3)
      in if less_js (Num 0.01) distToCenter then
           (let toCenterNorm = normalize_js toCenter
            in if less_js targetRadius distToCenter then
                 multiplyScalar_js toCenterNorm
                   (times_js
                      (times_js gravitationalStrength
                         (minus_js (Num 1.0)
                            (divide_js targetRadius (max_js distToCenter targetRadius))))
                      (Num 1.5))
               else if less_js distToCenter coreRadius then
                 multiplyScalar_js toCenterNorm
                   (uminus_js
                      (times_js (times_js gravitationalStrength (Num 0.5))
                         (minus_js (Num 1.0) (divide_js distToCenter coreRadius))))
               else
                 multiplyScalar_js toCenterNorm
                   (times_js (times_js gravitationalStrength (Num 0.3))
                      (minus_js (Num 1.0)
                         (divide_js (minus_js distToCenter coreRadius)
                            (minus_js targetRadius coreRadius)))))
         else Vector3_js (Num 0) (Num 0) (Num 0))"

definition swarmMotion_js ::
  "jsvec \<Rightarrow> jsnum \<Rightarrow> jsvec \<Rightarrow> jsnum \<Rightarrow> jsnum \<Rightarrow> Particle_js \<Rightarrow> jsvec \<times> jsvec \<times> jsvec" where
  "swarmMotion_js center targetRadius force phase deltaTime particle =
     (let vel1 = add_js (velocity_js particle) (multiplyScalar_js force deltaTime);
          targetPos = add_js (multiplyScalar_js (toSurface_js center particle) targetRadius)
                        center;
          target = (case targetPosition_js particle of
                      None \<Rightarrow> targetPos
                    | Some t \<Rightarrow> lerp_js t targetPos (Num 0.3));
          pos1 = add_js (position_js particle) (multiplyScalar_js vel1 deltaTime);
          pos2 = lerp_js pos1 target (times_js (Num 0.3) (Num 1.5));
          toCurrent = sub_js pos2 center;
          pos3 = (if less_js (Num 0.01) (lengthSq_js toCurrent)
                     \<and> less_js (Num 2.0) (abs_js (minus_js (length_js toCurrent) targetRadius))
                  then lerp_js pos2
                         (add_js (multiplyScalar_js (normalize_js toCurrent) targetRadius)
                            center)
                         (Num 0.1)
                  else pos2);
          radial = normalize_js (sub_js pos3 center);
          vel2 = multiplyScalar_js
                   (lerp_js vel1 (swimDirection_js radial phase (Num 8.0))
                      (times_js deltaTime (Num 4.0)))
                   (Num 0.96);
          vel3 = (if less_js (Num 25.0) (length_js vel2)
                  then multiplyScalar_js (normalize_js vel2) (Num 25.0) else vel2);
          pos4 = add_js pos3 (multiplyScalar_js vel3 deltaTime);
          newToSurface = sub_js pos4 center;
          far = (less_js (Num 0.01) (lengthSq_js newToSurface)
                 \<and> less_js (Num 0.5)
                       (abs_js (minus_js (length_js newToSurface) targetRadius)));
          pos5 = (if far
                  then lerp_js pos4
                         (add_js (multiplyScalar_js (normalize_js newToSurface) targetRadius)
                            center)
                         (Num 0.2)
                  else pos4)
      in (pos5, vel3, if far then pos5 else target))"

definition swarmStep_js ::
  "jsvec list \<Rightarrow> jsnum \<Rightarrow> real \<Rightarrow> jsnum \<Rightarrow> nat \<Rightarrow> Particle_js \<Rightarrow> error + Particle_js" where
  "swarmStep_js centers sphereRadius now deltaTime i particle =
     bindE (centerAt_js centers (nullish (assignedCenterIndex_js particle) 0)) (\<lambda>center.
       case swarmMotion_js center
              (times_js sphereRadius (if groupIndex_js particle = 0 then Num 1 else Num 1.8))
              (gravitationalForce_js (sub_js center (position_js particle))
                 (length_js (sub_js center (position_js particle)))
                 (times_js sphereRadius
                    (if groupIndex_js particle = 0 then Num 1 else Num 1.8)))
              (phase_js i now 0.5) deltaTime particle of
         (pos, vel, target) \<Rightarrow>
           Inr (particle \<lparr> position_js := pos, velocity_js := vel,
                            targetPosition_js := Some target \<rparr>))"

definition updateNeedleSwarm_js ::
  "HandControl list \<Rightarrow> real \<Rightarrow> real \<Rightarrow> Particle_js list \<Rightarrow> error + Particle_js list" where
  "updateNeedleSwarm_js hands now deltaTime ps =
     (if length hands = 0
      then Inr (map (\<lambda>(i, particle).
                       sphereStep_js (Vector3_js (Num 0) (Num 0) (Num 0))
                         (times_js (Num 12)
                            (if groupIndex_js particle = 0 then Num 1 else Num 1.8))
                         (Num 5.0) (phase_js i now 0.5) (number deltaTime) particle)
                    (enumerate 0 ps))
      else (let centers = map (\<lambda>c. vector_js (palmVector c)) hands
            in forEachIndexed
                 (swarmStep_js centers (swarmSphereRadius_js centers) now (number deltaTime))
                 0 (map (assignCenter_js centers) ps)))"

definition strictSwarmStep_js ::
  "jsvec \<Rightarrow> jsnum \<Rightarrow> jsnum \<Rightarrow> jsnum \<Rightarrow> jsnum \<Rightarrow> Particle_js \<Rightarrow> Particle_js" where
  "strictSwarmStep_js center targetRadius swimSpeed phase deltaTime particle =
     (let currentDist = length_js (sub_js (position_js particle) center);
          surfaceDir = toSurface_js center particle;
          surfacePos = add_js (multiplyScalar_js surfaceDir targetRadius) center;
          pos0 = (if less_js (Num 0.5) (abs_js (minus_js currentDist targetRadius))
                  then lerp_js (position_js particle) surfacePos (Num 0.4)
                  else surfacePos);
          updatedToSurface = sub_js pos0 center;
          dir = (if less_js (Num 0.0001) (lengthSq_js updatedToSurface)
                 then normalize_js updatedToSurface else direction_js particle);
          currentRadial = multiplyScalar_js surfaceDir (dot_js (velocity_js particle) surfaceDir);
          tangentialVelocity = sub_js (velocity_js particle) currentRadial;
          vel = lerp_js tangentialVelocity (swimDirection_js surfaceDir phase swimSpeed)
                  (times_js deltaTime (Num 3.0));
          pos1 = add_js pos0 (multiplyScalar_js vel deltaTime);
          newToParticle = sub_js pos1 center
      in particle
           \<lparr> position_js :=
               (if less_js (Num 0.0001) (lengthSq_js newToParticle)
                then add_js (multiplyScalar_js (normalize_js newToParticle) targetRadius) center
                else add_js (multiplyScalar_js (normalize_js dir) targetRadius) center),
             velocity_js := vel,
             direction_js := dir \<rparr>)"

definition updateNeedleSwarm_strict_js ::
  "HandControl list \<Rightarrow> real \<Rightarrow> real \<Rightarrow> Particle_js list \<Rightarrow> error + Particle_js list" where
  "updateNeedleSwarm_strict_js hands now deltaTime ps =
     (if length hands = 0
      then Inr (map (\<lambda>(i, particle).
                       strictSwarmStep_js (Vector3_js (Num 0) (Num 0) (Num 0))
                         (times_js (Num 12)
                            (if groupIndex_js particle = 0 then Num 1 else Num 1.8))
                         (Num 5.0) (phase_js i now 0.5) (number deltaTime) particle)
                    (enumerate 0 ps))
      else (let centers = map (\<lambda>c. vector_js (palmVector c)) hands
            in forEachIndexed
                 (\<lambda>i particle.
                    bindE (centerAt_js centers (nullish (assignedCenterIndex_js particle) 0))
                      (\<lambda>center.
                         Inr (strictSwarmStep_js center
                                (times_js (Num 12)
                                   (if groupIndex_js particle = 0 then Num 1 else Num 1.8))
                                (Num 5.0) (phase_js i now 0.5) (number deltaTime) particle)))
                 0 (map (assignCenter_js centers) ps)))"

text \<open>
  A number is finite when it is neither an infinity nor \<open>NaN\<close>
  (\<open>Number.isFinite\<close>); a particle is finite when every component of its
  position, velocity, direction and target position is.  \<open>mag_le b x\<close> says
  that \<open>x\<close> is finite with magnitude at most \<open>b\<close>, \<open>range_js lo hi x\<close> that \<open>x\<close>
  is finite with a value from \<open>lo\<close> to \<open>hi\<close>; \<open>flush\<close> is the underflow of
  \<open>number\<close>.
\<close>

definition finite_js :: "jsnum \<Rightarrow> bool" where
  "finite_js x = (case x of Num r \<Rightarrow> True | _ \<Rightarrow> False)"

definition finiteVector :: "jsvec \<Rightarrow> bool" where
  "finiteVector v = (finite_js (jx v) \<and> finite_js (jy v) \<and> finite_js (jz v))"

definition finiteParticle :: "Particle_js \<Rightarrow> bool" where
  "finiteParticle p =
     (finiteVector (position_js p) \<and> finiteVector (velocity_js p)
      \<and> finiteVector (direction_js p)
      \<and> (case targetPosition_js p of None \<Rightarrow> True | Some t \<Rightarrow> finiteVector t))"

definition mag_le :: "real \<Rightarrow> jsnum \<Rightarrow> bool" where
  "mag_le b x = (case x of Num r \<Rightarrow> \<bar>r\<bar> \<le> b | _ \<Rightarrow> False)"

definition vmag_le :: "real \<Rightarrow> jsvec \<Rightarrow> bool" where
  "vmag_le b v = (mag_le b (jx v) \<and> mag_le b (jy v) \<and> mag_le b (jz v))"

definition range_js :: "real \<Rightarrow> real \<Rightarrow> jsnum \<Rightarrow> bool" where
  "range_js lo hi x = (case x of Num r \<Rightarrow> lo \<le> r \<and> r \<le> hi | _ \<Rightarrow> False)"

definition flush :: "real \<Rightarrow> real" where
  "flush r = (if \<bar>r\<bar> < MIN_VALUE then 0 else r)"

text \<open>
  Moderate inputs: every number of the particles, the palms and the
  configuration, \<open>performance.now()\<close>, \<open>deltaTime\<close> and the number of particles
  have a magnitude of at most \<open>10\<^sup>3\<^sup>0\<close>.
\<close>

definition moderateVector :: "vec3 \<Rightarrow> bool" where
  "moderateVector v = (\<bar>vx v\<bar> \<le> 10 ^ 30 \<and> \<bar>vy v\<bar> \<le> 10 ^ 30 \<and> \<bar>vz v\<bar> \<le> 10 ^ 30)"

definition moderateParticle :: "Particle_js \<Rightarrow> bool" where
  "moderateParticle p =
     (vmag_le (10 ^ 30) (position_js p) \<and> vmag_le (10 ^ 30) (velocity_js p)
      \<and> vmag_le (10 ^ 30) (direction_js p)
      \<and> (case targetPosition_js p of None \<Rightarrow> True | Some t \<Rightarrow> vmag_le (10 ^ 30) t))"

definition moderateConfig :: "ParticleSystemConfig \<Rightarrow> bool" where
  "moderateConfig cfg =
     (\<bar>nullish (baseRadius cfg) 8\<bar> \<le> 10 ^ 30
      \<and> \<bar>nullish (radiusHandScale cfg) 1.2\<bar> \<le> 10 ^ 30
      \<and> \<bar>nullish (outerRadiusMultiplier cfg) 1.8\<bar> \<le> 10 ^ 30)"

definition moderateInputs ::
  "ParticleSystemConfig \<Rightarrow> HandControl list \<Rightarrow> real \<Rightarrow> real \<Rightarrow> Particle_js list \<Rightarrow> bool" where
  "moderateInputs cfg hands now deltaTime ps =
     (moderateConfig cfg \<and> (\<forall>h\<in>set hands. moderateVector (palm h))
      \<and> \<bar>now\<bar> \<le> 10 ^ 30 \<and> \<bar>deltaTime\<bar> \<le> 10 ^ 30
      \<and> real (length ps) \<le> 10 ^ 30 \<and> (\<forall>p\<in>set ps. moderateParticle p))"

text \<open>
  A particle with stored direction \<open>(1, 0, 0)\<close>, and two hands whose palms are
  \<open>2 * 10\<^sup>2\<^sup>0\<^sup>0\<close> apart.
\<close>

definition particleAt_js :: "vec3 \<Rightarrow> vec3 \<Rightarrow> Particle_js" where
  "particleAt_js p v =
     \<lparr> position_js = vector_js p, velocity_js = vector_js v,
       direction_js = Vector3_js (Num 1) (Num 0) (Num 0), groupIndex_js = 0,
       assignedCenterIndex_js = None, targetPosition_js = None \<rparr>"

definition farHands :: "HandControl list" where
  "farHands = [handAt (Vector3 (10 ^ 200) 0 0), handAt (Vector3 (- (10 ^ 200)) 0 0)]"

section \<open>Vector algebra\<close>

lemma vec3_eq_iff: "a = b \<longleftrightarrow> vx a = vx b \<and> vy a = vy b \<and> vz a = vz b"
  by (cases a; cases b) simp

lemma length_v_nonneg: "0 \<le> length_v a"
  by (simp add: length_v_def)

lemma lengthSq_nonneg: "0 \<le> lengthSq a"
  by (simp add: lengthSq_def)

lemma length_v_sqrt: "length_v a = sqrt (lengthSq a)"
  by (simp add: length_v_def lengthSq_def)

lemma length_v_zero_iff: "length_v a = 0 \<longleftrightarrow> lengthSq a = 0"
  by (simp add: length_v_sqrt)

lemma length_v_multiplyScalar: "length_v (multiplyScalar a s) = \<bar>s\<bar> * length_v a"
proof -
  have "vx a * s * (vx a * s) + vy a * s * (vy a * s) + vz a * s * (vz a * s)
        = s\<^sup>2 * (vx a * vx a + vy a * vy a + vz a * vz a)"
    by (simp add: power2_eq_square algebra_simps)
  then show ?thesis
    by (simp add: length_v_def multiplyScalar_def real_sqrt_mult)
qed

lemma length_v_normalize: "length_v a \<noteq> 0 \<Longrightarrow> length_v (normalize_v a) = 1"
  using length_v_nonneg [of a]
  by (simp add: normalize_v_def divideScalar_def length_v_multiplyScalar)

lemma normalize_v_zero: "length_v a = 0 \<Longrightarrow> normalize_v a = a"
  by (simp add: normalize_v_def divideScalar_def multiplyScalar_def)

lemma sub_add_cancel: "sub_v (add_v a c) c = a"
  by (simp add: sub_v_def add_v_def)

lemma distanceTo_length: "distanceTo a b = length_v (sub_v a b)"
  by (simp add: distanceTo_def length_v_def sub_v_def)

lemma distanceTo_shell:
  "length_v d \<noteq> 0 \<Longrightarrow> distanceTo (add_v (multiplyScalar (normalize_v d) r) c) c = \<bar>r\<bar>"
  by (simp add: distanceTo_length sub_add_cancel length_v_multiplyScalar length_v_normalize)

lemma lengthSq_pos_length: "lengthSq a > e \<Longrightarrow> 0 \<le> e \<Longrightarrow> length_v a \<noteq> 0"
  by (simp add: length_v_zero_iff)

text \<open>The constructor and the draws of the examples.\<close>

lemma calmDraws_ok: "draws_ok calmDraws"
  by (simp add: draws_ok_def calmDraws_def)

lemma jitter_calm: "jitter calmDraws k = Vector3 0 0 0"
  by (simp add: jitter_def calmDraws_def)

lemma length_x: "length_v (Vector3 a 0 0) = \<bar>a\<bar>"
  by (simp add: length_v_def)

lemma initParticles_nth:
  "i < count cfg \<Longrightarrow> initParticles cfg rnd ! i = initParticle cfg rnd i"
  by (simp add: initParticles_def)

lemma length_initParticles: "length (initParticles cfg rnd) = count cfg"
  by (simp add: initParticles_def)

section \<open>The loop of the responsive and cohesive tick\<close>

lemma storeBefore_Suc:
  "storeBefore cfg hands rnd ps (Suc k)
   = updateParticle cfg hands rnd k (storeBefore cfg hands rnd ps k)"
  by (simp add: storeBefore_def)

lemma length_updateParticle: "length (updateParticle cfg hands rnd i ps) = length ps"
  by (simp add: updateParticle_def)

lemma length_storeBefore: "length (storeBefore cfg hands rnd ps k) = length ps"
proof (induction k)
  case 0
  then show ?case by (simp add: storeBefore_def)
next
  case (Suc k)
  then show ?case by (simp add: storeBefore_Suc length_updateParticle)
qed

lemma storeBefore_untouched:
  "k \<le> j \<Longrightarrow> storeBefore cfg hands rnd ps k ! j = ps ! j"
proof (induction k)
  case 0
  then show ?case by (simp add: storeBefore_def)
next
  case (Suc k)
  then show ?case by (simp add: storeBefore_Suc updateParticle_def)
qed

lemma storeBefore_done:
  "j < k \<Longrightarrow> j < length ps \<Longrightarrow>
   storeBefore cfg hands rnd ps k ! j
   = applyBoundaries cfg
       (integrate cfg (totalForceOf cfg hands rnd j (storeBefore cfg hands rnd ps j)) (ps ! j))"
proof (induction k)
  case 0
  then show ?case by simp
next
  case (Suc k)
  show ?case
  proof (cases "j = k")
    case True
    then show ?thesis
      using Suc.prems
      by (simp add: storeBefore_Suc updateParticle_def length_storeBefore storeBefore_untouched)
  next
    case False
    then have "j < k" using Suc.prems by simp
    then show ?thesis
      using Suc by (simp add: storeBefore_Suc updateParticle_def)
  qed
qed

lemma updateForces_nth:
  "i < length ps \<Longrightarrow>
   updateForces cfg hands rnd ps ! i
   = applyBoundaries cfg
       (integrate cfg (totalForceOf cfg hands rnd i (storeBefore cfg hands rnd ps i)) (ps ! i))"
  using storeBefore_done [of i "length ps" ps cfg hands rnd]
  by (simp add: updateForces_def storeBefore_def)

lemma length_updateForces: "length (updateForces cfg hands rnd ps) = length ps"
  using length_storeBefore [of cfg hands rnd ps "length ps"]
  by (simp add: updateForces_def storeBefore_def)

section \<open>Boundary reflection\<close>

lemma boundaryAxis_same:
  "getAxis (position (boundaryAxis cfg a p)) a
     = (if \<bar>getAxis (position p) a\<bar> > boundary cfg
        then sgn (getAxis (position p) a) * boundary cfg
        else getAxis (position p) a)"
  "getAxis (velocity (boundaryAxis cfg a p)) a
     = (if \<bar>getAxis (position p) a\<bar> > boundary cfg then getAxis (velocity p) a * (- 0.8)
        else getAxis (velocity p) a)"
  by (cases a; simp add: boundaryAxis_def)+

lemma boundaryAxis_other:
  "a \<noteq> b \<Longrightarrow> getAxis (position (boundaryAxis cfg b p)) a = getAxis (position p) a"
  "a \<noteq> b \<Longrightarrow> getAxis (velocity (boundaryAxis cfg b p)) a = getAxis (velocity p) a"
  by (cases a; cases b; simp add: boundaryAxis_def)+

lemma applyBoundaries_unfold:
  "applyBoundaries cfg p
   = boundaryAxis cfg AxisZ (boundaryAxis cfg AxisY (boundaryAxis cfg AxisX p))"
  by (simp add: applyBoundaries_def)

lemma applyBoundaries_position:
  "getAxis (position (applyBoundaries cfg p)) a
     = (if \<bar>getAxis (position p) a\<bar> > boundary cfg
        then sgn (getAxis (position p) a) * boundary cfg
        else getAxis (position p) a)"
  by (cases a;
      simp add: applyBoundaries_unfold boundaryAxis_same boundaryAxis_other del: getAxis.simps)

lemma applyBoundaries_velocity:
  "getAxis (velocity (applyBoundaries cfg p)) a
     = (if \<bar>getAxis (position p) a\<bar> > boundary cfg then getAxis (velocity p) a * (- 0.8)
        else getAxis (velocity p) a)"
  by (cases a;
      simp add: applyBoundaries_unfold boundaryAxis_same boundaryAxis_other del: getAxis.simps)

lemma applyBoundaries_inside:
  "0 \<le> boundary cfg \<Longrightarrow> \<bar>getAxis (position (applyBoundaries cfg p)) a\<bar> \<le> boundary cfg"
  by (simp add: applyBoundaries_position abs_mult abs_sgn_eq)

text \<open>
  Claim C5.  \<open>applyBoundaries\<close> treats each axis on its own: the component of
  the position on axis \<open>a\<close> is replaced by \<open>sign * boundary\<close> and the component
  of the velocity is multiplied by \<open>-0.8\<close> exactly when the position on that
  same axis is beyond the boundary, whatever the other axes do, and both are
  left as they are otherwise.  For a boundary that is not negative every
  component of the position ends within \<open>[-boundary, boundary]\<close>, and so it does
  for every particle after a responsive or cohesive tick.
\<close>

theorem applyBoundaries_clamps_each_axis:
  "getAxis (position (applyBoundaries cfg p)) a
     = (if \<bar>getAxis (position p) a\<bar> > boundary cfg
        then sgn (getAxis (position p) a) * boundary cfg
        else getAxis (position p) a)
   \<and> getAxis (velocity (applyBoundaries cfg p)) a
     = (if \<bar>getAxis (position p) a\<bar> > boundary cfg then getAxis (velocity p) a * (- 0.8)
        else getAxis (velocity p) a)
   \<and> (0 \<le> boundary cfg \<longrightarrow> \<bar>getAxis (position (applyBoundaries cfg p)) a\<bar> \<le> boundary cfg)
   \<and> (0 \<le> boundary cfg \<and> (behavior cfg = Responsive \<or> behavior cfg = Cohesive)
        \<and> i < length ps \<longrightarrow>
        (\<exists>ps'. update cfg hands rnd now deltaTime ps = Inr ps'
               \<and> \<bar>getAxis (position (ps' ! i)) a\<bar> \<le> boundary cfg))"
proof -
  have C: "0 \<le> boundary cfg \<longrightarrow> \<bar>getAxis (position (applyBoundaries cfg p)) a\<bar> \<le> boundary cfg"
    by (simp add: applyBoundaries_inside)
  have "\<bar>getAxis (position (updateForces cfg hands rnd ps ! i)) a\<bar> \<le> boundary cfg"
    if "0 \<le> boundary cfg" "i < length ps"
    using that by (simp only: updateForces_nth applyBoundaries_inside)
  then have D: "0 \<le> boundary cfg \<and> (behavior cfg = Responsive \<or> behavior cfg = Cohesive)
        \<and> i < length ps \<longrightarrow>
        (\<exists>ps'. update cfg hands rnd now deltaTime ps = Inr ps'
               \<and> \<bar>getAxis (position (ps' ! i)) a\<bar> \<le> boundary cfg)"
    by (auto simp: update_def)
  from C D show ?thesis
    by (simp only: applyBoundaries_position applyBoundaries_velocity simp_thms)
qed

theorem applyBoundaries_clamps_each_axis_witness:
  "0 \<le> boundary responsiveConfig
   \<and> behavior responsiveConfig = Responsive
   \<and> 0 < length [particleAt (Vector3 30 (- 3) (- 40)) (Vector3 1 2 3)]
   \<and> vx (position (applyBoundaries responsiveConfig
                      (particleAt (Vector3 30 (- 3) (- 40)) (Vector3 1 2 3)))) = 25
   \<and> vx (velocity (applyBoundaries responsiveConfig
                      (particleAt (Vector3 30 (- 3) (- 40)) (Vector3 1 2 3)))) = - 0.8
   \<and> (\<exists>ps'. update responsiveConfig [] (\<lambda>k. 1 / 2) 0 (1 / 60)
               [particleAt (Vector3 30 (- 3) (- 40)) (Vector3 1 2 3)] = Inr ps'
            \<and> \<bar>vx (position (ps' ! 0))\<bar> \<le> 25)"
  using applyBoundaries_clamps_each_axis
          [of responsiveConfig "particleAt (Vector3 30 (- 3) (- 40)) (Vector3 1 2 3)" AxisX 0
              "[particleAt (Vector3 30 (- 3) (- 40)) (Vector3 1 2 3)]" "[]" "\<lambda>k. 1 / 2" 0 "1 / 60"]
  by (simp add: responsiveConfig_def particleAt_def)

text \<open>
  Claim C10.  In the responsive and the cohesive mode the tick does not read
  its \<open>deltaTime\<close> argument: from the same particles, hands and random draws,
  two ticks with different \<open>deltaTime\<close> give the same store.  This holds for
  both versions of \<open>update\<close>, and the result is the loop of the first version
  of the file (\<^verbatim>\<open>src/unnamed/part_002\<close>), which has no other mode.
\<close>

theorem update_ignores_deltaTime:
  "behavior cfg = Responsive \<or> behavior cfg = Cohesive \<Longrightarrow>
   update cfg hands rnd now d1 ps = update cfg hands rnd now d2 ps
   \<and> update_strict cfg hands rnd now d1 ps = update_strict cfg hands rnd now d2 ps
   \<and> update cfg hands rnd now d1 ps = Inr (updateForces cfg hands rnd ps)"
  by (auto simp: update_def update_strict_def)

theorem update_ignores_deltaTime_witness:
  "behavior cohesiveConfig = Cohesive
   \<and> update cohesiveConfig [] (\<lambda>k. 0) 0 (1 / 60) [particleAt (Vector3 1 2 3) (Vector3 0 0 0)]
     = update cohesiveConfig [] (\<lambda>k. 0) 0 5 [particleAt (Vector3 1 2 3) (Vector3 0 0 0)]"
  using update_ignores_deltaTime
          [of cohesiveConfig "[]" "\<lambda>k. 0" 0 "1 / 60"
              "[particleAt (Vector3 1 2 3) (Vector3 0 0 0)]" 5]
  by (simp add: cohesiveConfig_def)

section \<open>Needle sphere: centre, radius, shell and velocity\<close>

lemma updateNeedleSphere_nth:
  "i < length ps \<Longrightarrow>
   updateNeedleSphere cfg hands now deltaTime ps ! i
   = sphereStep (needleCenter hands)
       (targetRadiusForParticle cfg (needleHandDistance hands) (ps ! i))
       4.0 (real i * 0.01 + now * 0.001 * 0.4) deltaTime (ps ! i)"
  by (simp add: updateNeedleSphere_def nth_enumerate_eq)

lemma updateNeedleSphere_strict_nth:
  "i < length ps \<Longrightarrow>
   updateNeedleSphere_strict cfg hands now deltaTime ps ! i
   = strictSphereStep (needleCenter hands)
       (targetRadiusForParticle cfg (needleHandDistance hands) (ps ! i))
       4.0 (real i * 0.01 + now * 0.001 * 0.4) deltaTime (ps ! i)"
  by (simp add: updateNeedleSphere_strict_def nth_enumerate_eq)

text \<open>
  Claim C3.  The centre and the driving distance of a needle-sphere tick are
  functions of the palms of the current snapshot: the midpoint and the
  Euclidean distance of the two palms for two hands, the palm and \<open>15\<close> for one
  hand, the origin and \<open>10\<close> for no hand, whatever snapshot the instance held
  before \<open>setHandControls\<close> stored the empty one.  The radius of a particle's
  shell is \<open>baseRadius + drivingDistance * radiusHandScale\<close> (with the defaults
  \<open>8\<close> and \<open>1.2\<close>), times \<open>outerRadiusMultiplier\<close> (default \<open>1.8\<close>) unless the
  particle's \<open>groupIndex\<close> is \<open>0\<close>.  Each particle of a tick is updated with
  exactly these values, in both versions of the file.
\<close>

theorem needleSphere_center_and_radius:
  "needleCenter [a, b]
     = Vector3 ((vx (palm a) + vx (palm b)) * 0.5) ((vy (palm a) + vy (palm b)) * 0.5)
               ((vz (palm a) + vz (palm b)) * 0.5)
   \<and> needleHandDistance [a, b]
     = sqrt ((vx (palm a) - vx (palm b))\<^sup>2 + (vy (palm a) - vy (palm b))\<^sup>2
             + (vz (palm a) - vz (palm b))\<^sup>2)
   \<and> needleCenter [a] = palm a \<and> needleHandDistance [a] = 15
   \<and> needleCenter [] = Vector3 0 0 0 \<and> needleHandDistance [] = 10
   \<and> needleCenter (handControls (setHandControls sys [])) = Vector3 0 0 0
   \<and> needleHandDistance (handControls (setHandControls sys [])) = 10
   \<and> targetRadiusForParticle cfg d p
     = (nullish (baseRadius cfg) 8 + d * nullish (radiusHandScale cfg) 1.2)
       * (if groupIndex p = 0 then 1 else nullish (outerRadiusMultiplier cfg) 1.8)
   \<and> (i < length ps \<longrightarrow>
        updateNeedleSphere cfg hands now deltaTime ps ! i
        = sphereStep (needleCenter hands)
            (targetRadiusForParticle cfg (needleHandDistance hands) (ps ! i))
            4.0 (real i * 0.01 + now * 0.001 * 0.4) deltaTime (ps ! i)
        \<and> updateNeedleSphere_strict cfg hands now deltaTime ps ! i
        = strictSphereStep (needleCenter hands)
            (targetRadiusForParticle cfg (needleHandDistance hands) (ps ! i))
            4.0 (real i * 0.01 + now * 0.001 * 0.4) deltaTime (ps ! i))"
proof -
  have two: "needleCenter [a, b]
     = Vector3 ((vx (palm a) + vx (palm b)) * 0.5) ((vy (palm a) + vy (palm b)) * 0.5)
               ((vz (palm a) + vz (palm b)) * 0.5)"
    by (simp add: needleCenter_def palmVector_def addVectors_def multiplyScalar_def)
  have dist: "needleHandDistance [a, b]
     = sqrt ((vx (palm a) - vx (palm b))\<^sup>2 + (vy (palm a) - vy (palm b))\<^sup>2
             + (vz (palm a) - vz (palm b))\<^sup>2)"
    by (simp add: needleHandDistance_def palmVector_def distanceTo_def power2_eq_square)
  have one: "needleCenter [a] = palm a \<and> needleHandDistance [a] = 15"
    by (simp add: needleCenter_def needleHandDistance_def palmVector_def)
  have none: "needleCenter [] = Vector3 0 0 0 \<and> needleHandDistance [] = 10"
    by (simp add: needleCenter_def needleHandDistance_def)
  have after: "needleCenter (handControls (setHandControls sys [])) = Vector3 0 0 0
     \<and> needleHandDistance (handControls (setHandControls sys [])) = 10"
    by (simp add: setHandControls_def needleCenter_def needleHandDistance_def)
  have radius: "targetRadiusForParticle cfg d p
     = (nullish (baseRadius cfg) 8 + d * nullish (radiusHandScale cfg) 1.2)
       * (if groupIndex p = 0 then 1 else nullish (outerRadiusMultiplier cfg) 1.8)"
    by (simp add: targetRadiusForParticle_def effectiveRadius_def)
  from two dist one none after radius show ?thesis
    by (simp add: updateNeedleSphere_nth updateNeedleSphere_strict_nth)
qed

theorem needleSphere_center_and_radius_witness:
  "needleCenter [handAt (Vector3 (- 5) 0 0), handAt (Vector3 5 0 0)] = Vector3 0 0 0
   \<and> needleHandDistance [handAt (Vector3 (- 5) 0 0), handAt (Vector3 5 0 0)] = 10
   \<and> targetRadiusForParticle needleConfig 10 (particleAt (Vector3 1 2 3) (Vector3 0 0 0)) = 20
   \<and> 0 < length [particleAt (Vector3 1 2 3) (Vector3 0 0 0)]
   \<and> updateNeedleSphere needleConfig [] 0 (1 / 60)
        [particleAt (Vector3 1 2 3) (Vector3 0 0 0)] ! 0
      = sphereStep (Vector3 0 0 0) 20 4 0 (1 / 60) (particleAt (Vector3 1 2 3) (Vector3 0 0 0))"
  using needleSphere_center_and_radius
          [of "handAt (Vector3 (- 5) 0 0)" "handAt (Vector3 5 0 0)"
              "\<lparr> params = needleConfig, particles = [], handControls = [] \<rparr>" needleConfig 10
              "particleAt (Vector3 1 2 3) (Vector3 0 0 0)" 0
              "[particleAt (Vector3 1 2 3) (Vector3 0 0 0)]" "[]" 0 "1 / 60"]
  by (simp add: handAt_def needleConfig_def particleAt_def)

lemma length_v_zero_vec: "length_v a = 0 \<longleftrightarrow> a = Vector3 0 0 0"
proof
  assume "length_v a = 0"
  then have "vx a * vx a + vy a * vy a + vz a * vz a = 0"
    by (simp add: length_v_def)
  then have "vx a = 0 \<and> vy a = 0 \<and> vz a = 0"
    by (smt (verit) mult_nonneg_nonneg mult_nonpos_nonpos zero_le_square mult_eq_0_iff
          add_nonneg_eq_0_iff)
  then show "a = Vector3 0 0 0" by (simp add: vec3_eq_iff)
next
  assume "a = Vector3 0 0 0"
  then show "length_v a = 0" by (simp add: length_v_def)
qed

lemma distanceTo_shell_sq:
  "0 < lengthSq d \<Longrightarrow> distanceTo (add_v (multiplyScalar (normalize_v d) r) c) c = \<bar>r\<bar>"
  by (simp add: distanceTo_shell length_v_zero_iff)

lemma distanceTo_shell_vec:
  "d \<noteq> Vector3 0 0 0 \<Longrightarrow> distanceTo (add_v (multiplyScalar (normalize_v d) r) c) c = \<bar>r\<bar>"
  by (simp add: distanceTo_shell length_v_zero_vec)

lemma normalize_v_nonzero: "0 < lengthSq a \<Longrightarrow> normalize_v a \<noteq> Vector3 0 0 0"
proof -
  assume "0 < lengthSq a"
  then have "length_v (normalize_v a) = 1"
    by (simp add: length_v_normalize length_v_zero_iff)
  then show ?thesis
    using length_v_zero_vec [of "normalize_v a"] by auto
qed

lemma strictSphereStep_shell:
  assumes "direction particle \<noteq> Vector3 0 0 0"
  shows "distanceTo (position (strictSphereStep center radius swimSpeed phase deltaTime particle))
           center = \<bar>radius\<bar>"
  using assms
  by (simp add: strictSphereStep_def Let_def distanceTo_shell_sq distanceTo_shell_vec)

lemma strictSphereStep_direction:
  assumes "direction particle \<noteq> Vector3 0 0 0"
  shows "direction (strictSphereStep center radius swimSpeed phase deltaTime particle)
         \<noteq> Vector3 0 0 0"
  using assms
  by (simp add: strictSphereStep_def Let_def normalize_v_nonzero)

lemma sphereStep_shell:
  assumes "lengthSq (sub_v (position (sphereMove center radius swimSpeed phase deltaTime particle))
             center) > 0.01"
  shows "distanceTo (position (sphereStep center radius swimSpeed phase deltaTime particle))
           center = \<bar>radius\<bar>"
proof -
  from assms have "0 < lengthSq (sub_v (position (sphereMove center radius swimSpeed phase
                         deltaTime particle)) center)"
    by simp
  with assms show ?thesis
    by (simp add: sphereStep_def Let_def distanceTo_shell_sq)
qed

text \<open>Evaluation of the swimming direction for a particle on the \<open>x\<close> axis.\<close>

lemma tangent1_x: "tangent1Of (Vector3 1 0 0) = Vector3 0 0 1"
  by (simp add: tangent1Of_def crossVectors_def lengthSq_def normalize_v_def divideScalar_def
        multiplyScalar_def length_v_def Let_def)

lemma tangent2_x: "tangent2Of (Vector3 1 0 0) = Vector3 0 (- 1) 0"
  by (simp add: tangent2Of_def tangent1_x crossVectors_def lengthSq_def normalize_v_def
        divideScalar_def multiplyScalar_def length_v_def Let_def)

lemma swim_x: "swimDirection (Vector3 1 0 0) 0 4 = Vector3 0 0 4"
  by (simp add: swimDirection_def tangent1_x tangent2_x add_v_def multiplyScalar_def)

lemma toSurface_x: "toSurface (Vector3 0 0 0) (particleAt (Vector3 20 0 0) v) = Vector3 1 0 0"
  by (simp add: toSurface_def particleAt_def sub_v_def length_v_def normalize_v_def
        divideScalar_def multiplyScalar_def Let_def)

lemma radius_needleConfig:
  "targetRadiusForParticle needleConfig (needleHandDistance []) (particleAt p v) = 20"
  by (simp add: targetRadiusForParticle_def effectiveRadius_def needleHandDistance_def
        needleConfig_def particleAt_def)

lemma lost_particle:
  "position (updateNeedleSphere needleConfig [] 0 1
               [particleAt (Vector3 20 0 0) (Vector3 10 0 6)] ! 0) = Vector3 0 0 0"
  apply (simp add: updateNeedleSphere_nth radius_needleConfig)
  apply (simp add: needleCenter_def sphereStep_def sphereMove_def toSurface_x swim_x Let_def)
  apply (simp add: particleAt_def lerp_def add_v_def multiplyScalar_def sub_v_def lengthSq_def)
  done

lemma collapsed_particle:
  "initParticles needleConfig calmDraws ! 0
   = \<lparr> position = Vector3 0 0 0, velocity = Vector3 0 0 0, direction = Vector3 0 0 0,
       groupIndex = 0, assignedCenterIndex = None, targetPosition = None \<rparr>"
proof -
  have "initParticles needleConfig calmDraws ! 0 = initParticle needleConfig calmDraws 0"
    by (rule initParticles_nth) (simp add: needleConfig_def)
  then show ?thesis
    by (simp add: initParticle_def calmDraws_def normalize_v_def divideScalar_def
          multiplyScalar_def length_v_def)
qed

lemma swim_zero: "swimDirection (Vector3 0 0 0) phase speed = Vector3 0 0 0"
  by (simp add: swimDirection_def tangent1Of_def tangent2Of_def crossVectors_def lengthSq_def
        normalize_v_def divideScalar_def multiplyScalar_def length_v_def add_v_def Let_def)

lemma toSurface_collapsed:
  "toSurface (Vector3 0 0 0)
     \<lparr> position = Vector3 0 0 0, velocity = Vector3 0 0 0, direction = Vector3 0 0 0,
       groupIndex = 0, assignedCenterIndex = None, targetPosition = None \<rparr> = Vector3 0 0 0"
  by (simp add: toSurface_def sub_v_def length_v_def normalize_v_def divideScalar_def
        multiplyScalar_def Let_def)

lemma collapsed_stays:
  "position (updateNeedleSphere_strict needleConfig [] 0 (1 / 60)
               (initParticles needleConfig calmDraws) ! 0) = Vector3 0 0 0"
proof -
  have "0 < length (initParticles needleConfig calmDraws)"
    by (simp add: length_initParticles needleConfig_def)
  then have "updateNeedleSphere_strict needleConfig [] 0 (1 / 60)
               (initParticles needleConfig calmDraws) ! 0
             = strictSphereStep (needleCenter [])
                 (targetRadiusForParticle needleConfig (needleHandDistance [])
                    (initParticles needleConfig calmDraws ! 0))
                 4.0 (real 0 * 0.01 + 0 * 0.001 * 0.4) (1 / 60)
                 (initParticles needleConfig calmDraws ! 0)"
    by (rule updateNeedleSphere_strict_nth)
  then show ?thesis
    apply (simp add: collapsed_particle needleCenter_def)
    apply (simp add: strictSphereStep_def toSurface_collapsed swim_zero Let_def)
    apply (simp add: lerp_def add_v_def multiplyScalar_def sub_v_def lengthSq_def dot_v_def
             normalize_v_def divideScalar_def length_v_def)
    done
qed

lemma collapsed_stays_lib:
  "position (updateNeedleSphere needleConfig [] 0 (1 / 60)
               (initParticles needleConfig calmDraws) ! 0) = Vector3 0 0 0"
proof -
  have "0 < length (initParticles needleConfig calmDraws)"
    by (simp add: length_initParticles needleConfig_def)
  then have "updateNeedleSphere needleConfig [] 0 (1 / 60)
               (initParticles needleConfig calmDraws) ! 0
             = sphereStep (needleCenter [])
                 (targetRadiusForParticle needleConfig (needleHandDistance [])
                    (initParticles needleConfig calmDraws ! 0))
                 4.0 (real 0 * 0.01 + 0 * 0.001 * 0.4) (1 / 60)
                 (initParticles needleConfig calmDraws ! 0)"
    by (rule updateNeedleSphere_nth)
  then show ?thesis
    apply (simp add: collapsed_particle needleCenter_def)
    apply (simp add: sphereStep_def sphereMove_def toSurface_collapsed swim_zero Let_def)
    apply (simp add: lerp_def add_v_def multiplyScalar_def sub_v_def lengthSq_def)
    done
qed

text \<open>
  Where the shell is kept.  In the later version (\<^verbatim>\<open>src/unnamed/part_001\<close>) a
  particle ends a tick on its shell whenever its stored direction is not the
  zero vector; in \<^verbatim>\<open>src/lib/optimized-particle-system.ts\<close> whenever the moved
  particle is more than \<open>0.1\<close> away from the centre.
\<close>

lemma shell_kept:
  assumes "i < length ps"
  shows "(direction (ps ! i) \<noteq> Vector3 0 0 0 \<longrightarrow>
            distanceTo (position (updateNeedleSphere_strict cfg hands now deltaTime ps ! i))
              (needleCenter hands)
            = \<bar>targetRadiusForParticle cfg (needleHandDistance hands) (ps ! i)\<bar>)
       \<and> (lengthSq (sub_v (position (sphereMove (needleCenter hands)
                        (targetRadiusForParticle cfg (needleHandDistance hands) (ps ! i))
                        4.0 (real i * 0.01 + now * 0.001 * 0.4) deltaTime (ps ! i)))
                     (needleCenter hands)) > 0.01
            \<longrightarrow> distanceTo (position (updateNeedleSphere cfg hands now deltaTime ps ! i))
                  (needleCenter hands)
                = \<bar>targetRadiusForParticle cfg (needleHandDistance hands) (ps ! i)\<bar>)"
  using assms
  by (simp add: updateNeedleSphere_strict_nth strictSphereStep_shell updateNeedleSphere_nth
        sphereStep_shell)

text \<open>
  Claim C1.  In needle-sphere mode every particle is, after every tick, at the
  distance \<open>targetRadiusForParticle\<close> from the tick's centre.  The code does
  not keep this promise of its own comments (\<open>ALWAYS ensure particle is on
  sphere surface\<close>, \<open>Always re-project to exact sphere surface\<close>, \<open>Random
  direction on unit sphere\<close>).  When \<open>Math.random()\<close> returns \<open>0.5\<close> for the nine
  draws of particle \<open>0\<close>, the constructor puts the particle at the origin with
  the zero vector as its stored direction, because \<open>normalize()\<close> leaves the
  zero vector as it is.  With the reference configuration, no hands and a
  frame of \<open>1/60\<close> s, the tick of either version then leaves the particle at the
  centre: its distance is \<open>0\<close>, the radius of its shell is \<open>20\<close>.  In
  \<^verbatim>\<open>src/lib/optimized-particle-system.ts\<close>, which has no fallback when the moved
  particle is within \<open>0.1\<close> of the centre, a particle on its shell at
  \<open>(20, 0, 0)\<close> with velocity \<open>(10, 0, 6)\<close> is lost in the same way by a frame of
  one second.
\<close>

theorem needleSphere_shell_violated:
  "draws_ok calmDraws
   \<and> targetRadiusForParticle needleConfig (needleHandDistance [])
        (initParticles needleConfig calmDraws ! 0) = 20
   \<and> distanceTo (position (updateNeedleSphere_strict needleConfig [] 0 (1 / 60)
                  (initParticles needleConfig calmDraws) ! 0)) (needleCenter []) = 0
   \<and> distanceTo (position (updateNeedleSphere needleConfig [] 0 (1 / 60)
                  (initParticles needleConfig calmDraws) ! 0)) (needleCenter []) = 0
   \<and> targetRadiusForParticle needleConfig (needleHandDistance [])
        ([particleAt (Vector3 20 0 0) (Vector3 10 0 6)] ! 0) = 20
   \<and> distanceTo (position (updateNeedleSphere needleConfig [] 0 1
                  [particleAt (Vector3 20 0 0) (Vector3 10 0 6)] ! 0)) (needleCenter []) = 0"
proof -
  have "targetRadiusForParticle needleConfig (needleHandDistance [])
          (initParticles needleConfig calmDraws ! 0) = 20"
    unfolding collapsed_particle
    by (simp add: targetRadiusForParticle_def effectiveRadius_def needleHandDistance_def
          needleConfig_def)
  then show ?thesis
    by (simp add: calmDraws_ok lost_particle collapsed_stays collapsed_stays_lib
          radius_needleConfig needleCenter_def distanceTo_def sub_v_def length_v_def)
qed

lemma dot_cross_left: "dot_v (crossVectors a b) a = 0"
  by (simp add: dot_v_def crossVectors_def algebra_simps)

lemma dot_normalize:
  "dot_v (normalize_v a) b = dot_v a b * (1 / (if length_v a = 0 then 1 else length_v a))"
  by (simp add: dot_v_def normalize_v_def divideScalar_def multiplyScalar_def algebra_simps)

lemma dot_tangent1: "dot_v (tangent1Of u) u = 0"
  by (simp add: tangent1Of_def Let_def dot_normalize dot_cross_left)

lemma dot_tangent2: "dot_v (tangent2Of u) u = 0"
  by (simp add: tangent2Of_def dot_normalize dot_cross_left)

lemma dot_swim: "dot_v (swimDirection u phase speed) u = 0"
proof -
  have "dot_v (add_v (multiplyScalar a s) (multiplyScalar b t)) u = dot_v a u * s + dot_v b u * t"
    for a b s t
    by (simp add: dot_v_def add_v_def multiplyScalar_def algebra_simps)
  then show ?thesis
    by (simp add: swimDirection_def dot_tangent1 dot_tangent2)
qed

lemma normalize_unit_or_zero:
  "normalize_v a = Vector3 0 0 0 \<or> dot_v (normalize_v a) (normalize_v a) = 1"
proof (cases "length_v a = 0")
  case True
  then show ?thesis by (simp add: normalize_v_zero length_v_zero_vec)
next
  case False
  then have "length_v (normalize_v a) = 1" by (rule length_v_normalize)
  then have "(length_v (normalize_v a))\<^sup>2 = 1" by simp
  moreover have "(length_v b)\<^sup>2 = dot_v b b" for b
    using lengthSq_nonneg [of b] by (simp add: length_v_sqrt lengthSq_def dot_v_def)
  ultimately show ?thesis by simp
qed

lemma toSurface_unit_or_zero:
  "toSurface c p = Vector3 0 0 0 \<or> dot_v (toSurface c p) (toSurface c p) = 1"
  by (simp add: toSurface_def Let_def normalize_unit_or_zero)

lemma dot_strip:
  assumes "u = Vector3 0 0 0 \<or> dot_v u u = 1"
  shows "dot_v (sub_v v (multiplyScalar u (dot_v v u))) u = 0"
proof -
  have "dot_v (sub_v v (multiplyScalar u (dot_v v u))) u = dot_v v u - dot_v v u * dot_v u u"
    by (simp add: dot_v_def sub_v_def multiplyScalar_def algebra_simps)
  with assms show ?thesis by (auto simp: dot_v_def)
qed

lemma dot_lerp: "dot_v (lerp a b t) u = dot_v a u + (dot_v b u - dot_v a u) * t"
  by (simp add: dot_v_def lerp_def algebra_simps)

lemma strictSphereStep_tangential:
  "dot_v (velocity (strictSphereStep center radius swimSpeed phase deltaTime particle))
     (toSurface center particle) = 0"
  by (simp add: strictSphereStep_def Let_def dot_lerp dot_swim dot_strip toSurface_unit_or_zero)

lemma sphereStep_radial:
  "dot_v (velocity (sphereStep center radius swimSpeed phase deltaTime particle))
     (toSurface center particle)
   = (1 - deltaTime * 3) * dot_v (velocity particle) (toSurface center particle)"
  by (simp add: sphereStep_def sphereMove_def Let_def dot_lerp dot_swim algebra_simps)

text \<open>
  Claim C2, amended.  After a needle-sphere tick of the later version
  (\<^verbatim>\<open>src/unnamed/part_001\<close>) the velocity of every particle has no component
  along the radial direction \<open>toSurface\<close> that the tick projected with: the
  direction from the centre to the position the particle had when the tick
  started, or its stored direction.  \<^verbatim>\<open>src/lib/optimized-particle-system.ts\<close>
  does not strip the velocity; there the component along \<open>toSurface\<close> is
  multiplied by \<open>1 - 3 * deltaTime\<close>.
\<close>

theorem needleSphere_velocity_tangential:
  "i < length ps \<Longrightarrow>
   dot_v (velocity (updateNeedleSphere_strict cfg hands now deltaTime ps ! i))
     (toSurface (needleCenter hands) (ps ! i)) = 0
   \<and> dot_v (velocity (updateNeedleSphere cfg hands now deltaTime ps ! i))
       (toSurface (needleCenter hands) (ps ! i))
     = (1 - deltaTime * 3) * dot_v (velocity (ps ! i)) (toSurface (needleCenter hands) (ps ! i))"
  by (simp add: updateNeedleSphere_strict_nth updateNeedleSphere_nth
        strictSphereStep_tangential sphereStep_radial)

theorem needleSphere_velocity_tangential_witness:
  "0 < length [particleAt (Vector3 20 0 0) (Vector3 3 0 4)]
   \<and> vx (velocity (updateNeedleSphere_strict needleConfig [] 0 (1 / 60)
                    [particleAt (Vector3 20 0 0) (Vector3 3 0 4)] ! 0)) = 0
   \<and> vx (velocity (updateNeedleSphere needleConfig [] 0 (1 / 60)
                    [particleAt (Vector3 20 0 0) (Vector3 3 0 4)] ! 0)) = 57 / 20"
  using needleSphere_velocity_tangential
          [of 0 "[particleAt (Vector3 20 0 0) (Vector3 3 0 4)]" needleConfig "[]" 0 "1 / 60"]
  by (simp add: needleCenter_def toSurface_x dot_v_def) (simp add: particleAt_def)

text \<open>
  The claim as stated fails in both versions, since the tick ends with a move
  and a projection that turn the radial direction.  With the reference
  configuration, no hands, a particle on its shell of radius \<open>20\<close> at
  \<open>(20, 0, 0)\<close> with the tangential velocity \<open>(0, 0, 4)\<close> and a frame of
  \<open>6000 / 359999\<close> seconds (16.7 ms), the velocity after the strict tick has the
  component \<open>4800 / 360001\<close>, about \<open>0.0133\<close>, along the radial direction of the
  particle's new position.
\<close>

lemma sqrt_frame: "sqrt (51840288000400 / 129599280001) = 7200020 / 359999"
  by (rule real_sqrt_unique) (simp_all add: power2_eq_square)

lemma turned_particle:
  "strictSphereStep (Vector3 0 0 0) 20 4 0 (6000 / 359999)
     (particleAt (Vector3 20 0 0) (Vector3 0 0 4))
   = (particleAt (Vector3 20 0 0) (Vector3 0 0 4))
       \<lparr> velocity := Vector3 0 0 4,
         position := Vector3 (7199980 / 360001) 0 (24000 / 360001),
         direction := Vector3 (359999 / 360001) 0 (1200 / 360001) \<rparr>"
  apply (simp add: strictSphereStep_def toSurface_x swim_x Let_def)
  apply (simp add: particleAt_def lerp_def add_v_def multiplyScalar_def sub_v_def lengthSq_def
           dot_v_def normalize_v_def divideScalar_def length_v_def sqrt_frame)
  done

theorem needleSphere_velocity_counterexample:
  "radialSpeed (needleCenter [])
     (updateNeedleSphere_strict needleConfig [] 0 (6000 / 359999)
        [particleAt (Vector3 20 0 0) (Vector3 0 0 4)] ! 0) = 4800 / 360001
   \<and> \<not> \<bar>radialSpeed (needleCenter [])
           (updateNeedleSphere_strict needleConfig [] 0 (6000 / 359999)
              [particleAt (Vector3 20 0 0) (Vector3 0 0 4)] ! 0)\<bar> < 1 / 1000"
proof -
  have "radialSpeed (needleCenter [])
     (updateNeedleSphere_strict needleConfig [] 0 (6000 / 359999)
        [particleAt (Vector3 20 0 0) (Vector3 0 0 4)] ! 0) = 4800 / 360001"
    apply (simp add: updateNeedleSphere_strict_nth radius_needleConfig needleCenter_def
             turned_particle)
    apply (simp add: radialSpeed_def particleAt_def sub_v_def dot_v_def normalize_v_def
             divideScalar_def multiplyScalar_def length_v_def)
    done
  then show ?thesis by simp
qed

section \<open>Needle swarm: assignment and definedness\<close>

declare nearestLoop.simps [simp del] reassignLoop.simps [simp del]

lemma all_from_skip:
  "\<not> R j \<Longrightarrow> (\<forall>l. j \<le> l \<and> R l \<longrightarrow> Q l) \<longleftrightarrow> (\<forall>l. Suc j \<le> l \<and> R l \<longrightarrow> Q l)"
  by (metis Suc_leI le_neq_implies_less Suc_leD)

lemma all_from_hold:
  "Q j \<Longrightarrow> (\<forall>l. j \<le> l \<and> R l \<longrightarrow> Q l) \<longleftrightarrow> (\<forall>l. Suc j \<le> l \<and> R l \<longrightarrow> Q l)"
  by (metis Suc_leI le_neq_implies_less Suc_leD)

lemma reassignLoop_None:
  "reassignLoop centers pos k cd j = None \<longleftrightarrow>
   (\<forall>l. j \<le> l \<and> (l < length centers \<and> l \<noteq> k) \<longrightarrow> \<not> distanceTo pos (centers ! l) < cd * 0.8)"
proof (induction centers pos k cd j rule: reassignLoop.induct)
  case (1 centers pos assigned currentDist j)
  have step: "reassignLoop centers pos assigned currentDist j =
     (if j < length centers then
        (if j = assigned then reassignLoop centers pos assigned currentDist (j + 1)
         else if distanceTo pos (centers ! j) < currentDist * 0.8 then Some j
         else reassignLoop centers pos assigned currentDist (j + 1))
      else None)"
    by (rule reassignLoop.simps)
  show ?case
  proof (cases "j < length centers")
    case False
    then show ?thesis unfolding step by simp
  next
    case inside: True
    show ?thesis
    proof (cases "j = assigned")
      case True
      have "reassignLoop centers pos assigned currentDist j
            = reassignLoop centers pos assigned currentDist (j + 1)"
        unfolding step using inside True by simp
      moreover note 1(1) [OF inside True]
      moreover have "(\<forall>l. j \<le> l \<and> (l < length centers \<and> l \<noteq> assigned)
                            \<longrightarrow> \<not> distanceTo pos (centers ! l) < currentDist * 0.8)
                   \<longleftrightarrow> (\<forall>l. Suc j \<le> l \<and> (l < length centers \<and> l \<noteq> assigned)
                            \<longrightarrow> \<not> distanceTo pos (centers ! l) < currentDist * 0.8)"
        using True
        by (intro all_from_skip [of "\<lambda>l. l < length centers \<and> l \<noteq> assigned" j
                   "\<lambda>l. \<not> distanceTo pos (centers ! l) < currentDist * 0.8"]) simp
      ultimately show ?thesis by simp
    next
      case ne: False
      show ?thesis
      proof (cases "distanceTo pos (centers ! j) < currentDist * 0.8")
        case True
        have "reassignLoop centers pos assigned currentDist j = Some j"
          unfolding step using inside ne True by simp
        then show ?thesis using inside ne True by auto
      next
        case False
        have "reassignLoop centers pos assigned currentDist j
              = reassignLoop centers pos assigned currentDist (j + 1)"
          unfolding step using inside ne False by simp
        moreover note 1(2) [OF inside ne False]
        moreover have "(\<forall>l. j \<le> l \<and> (l < length centers \<and> l \<noteq> assigned)
                            \<longrightarrow> \<not> distanceTo pos (centers ! l) < currentDist * 0.8)
                   \<longleftrightarrow> (\<forall>l. Suc j \<le> l \<and> (l < length centers \<and> l \<noteq> assigned)
                            \<longrightarrow> \<not> distanceTo pos (centers ! l) < currentDist * 0.8)"
          using False
          by (intro all_from_hold [of "\<lambda>l. \<not> distanceTo pos (centers ! l) < currentDist * 0.8" j
                     "\<lambda>l. l < length centers \<and> l \<noteq> assigned"]) simp
        ultimately show ?thesis by simp
      qed
    qed
  qed
qed

lemma reassignLoop_Some:
  "reassignLoop centers pos k cd j = Some m \<Longrightarrow>
   m < length centers \<and> m \<noteq> k \<and> distanceTo pos (centers ! m) < cd * 0.8"
proof (induction centers pos k cd j rule: reassignLoop.induct)
  case (1 centers pos assigned currentDist j)
  have step: "reassignLoop centers pos assigned currentDist j =
     (if j < length centers then
        (if j = assigned then reassignLoop centers pos assigned currentDist (j + 1)
         else if distanceTo pos (centers ! j) < currentDist * 0.8 then Some j
         else reassignLoop centers pos assigned currentDist (j + 1))
      else None)"
    by (rule reassignLoop.simps)
  from 1(3) have "(if j < length centers then
        (if j = assigned then reassignLoop centers pos assigned currentDist (j + 1)
         else if distanceTo pos (centers ! j) < currentDist * 0.8 then Some j
         else reassignLoop centers pos assigned currentDist (j + 1))
      else None) = Some m"
    by (simp only: step)
  with 1(1,2) show ?case
    by (auto split: if_splits)
qed

lemma palmVector_palm: "palmVector c = palm c"
  by (simp add: palmVector_def)

lemma nearestLoop_min:
  assumes "case md of None \<Rightarrow> j = 0
           | Some m \<Rightarrow> ni < length centers \<and> distanceTo pos (centers ! ni) = m
                       \<and> (\<forall>l<j. m \<le> distanceTo pos (centers ! l))"
    and "centers \<noteq> []" and "j \<le> length centers"
  shows "nearestLoop centers pos j ni md < length centers
         \<and> (\<forall>l<length centers. distanceTo pos (centers ! nearestLoop centers pos j ni md)
                                 \<le> distanceTo pos (centers ! l))"
  using assms
proof (induction centers pos j ni md rule: nearestLoop.induct)
  case (1 centers pos j nearestIndex minDist)
  have step: "nearestLoop centers pos j nearestIndex minDist =
     (if j < length centers then
        (let d = distanceTo pos (centers ! j)
         in if belowMin d minDist
            then nearestLoop centers pos (j + 1) j (Some d)
            else nearestLoop centers pos (j + 1) nearestIndex minDist)
      else nearestIndex)"
    by (rule nearestLoop.simps)
  show ?case
  proof (cases "j < length centers")
    case False
    with 1(5) have "j = length centers" by simp
    with 1(3,4) False show ?thesis
      unfolding step by (cases minDist) auto
  next
    case inside: True
    define d where "d = distanceTo pos (centers ! j)"
    show ?thesis
    proof (cases "belowMin d minDist")
      case True
      have eq: "nearestLoop centers pos j nearestIndex minDist
                = nearestLoop centers pos (j + 1) j (Some d)"
        unfolding step using inside True by (simp add: d_def Let_def)
      have inv: "case Some d of None \<Rightarrow> j + 1 = 0
           | Some m \<Rightarrow> j < length centers \<and> distanceTo pos (centers ! j) = m
                       \<and> (\<forall>l<j + 1. m \<le> distanceTo pos (centers ! l))"
      proof -
        have "d \<le> distanceTo pos (centers ! l)" if "l < j + 1" for l
        proof (cases "l = j")
          case True
          then show ?thesis by (simp add: d_def)
        next
          case False
          with that have "l < j" by simp
          with 1(3) \<open>belowMin d minDist\<close> show ?thesis
            by (cases minDist) force+
        qed
        then show ?thesis using inside by (simp add: d_def)
      qed
      from 1(1) [OF inside d_def True inv 1(4)] inside eq show ?thesis by simp
    next
      case False
      have eq: "nearestLoop centers pos j nearestIndex minDist
                = nearestLoop centers pos (j + 1) nearestIndex minDist"
        unfolding step using inside False by (simp add: d_def Let_def)
      from False obtain m where m: "minDist = Some m" "\<not> d < m"
        by (cases minDist) auto
      have inv: "case minDist of None \<Rightarrow> j + 1 = 0
           | Some m \<Rightarrow> nearestIndex < length centers \<and> distanceTo pos (centers ! nearestIndex) = m
                       \<and> (\<forall>l<j + 1. m \<le> distanceTo pos (centers ! l))"
      proof -
        have "m \<le> distanceTo pos (centers ! l)" if "l < j + 1" for l
        proof (cases "l = j")
          case True
          then show ?thesis using m by (simp add: d_def)
        next
          case False
          with that have "l < j" by simp
          with 1(3) m show ?thesis by simp
        qed
        then show ?thesis using 1(3) m by simp
      qed
      from 1(2) [OF inside d_def False inv 1(4)] inside eq show ?thesis by simp
    qed
  qed
qed

lemma nearest_from_start:
  assumes "centers \<noteq> []"
  shows "nearestLoop centers pos 0 0 None < length centers
         \<and> (\<forall>l<length centers. distanceTo pos (centers ! nearestLoop centers pos 0 0 None)
                                 \<le> distanceTo pos (centers ! l))"
  using nearestLoop_min [where md = None and j = 0 and ni = 0 and centers = centers and pos = pos]
    assms by simp

lemma assignCenter_keeps:
  "assignedCenterIndex p = Some k \<Longrightarrow> k < length centers \<Longrightarrow>
   (assignedCenterIndex (assignCenter centers p) \<noteq> Some k)
   \<longleftrightarrow> (\<exists>j<length centers. j \<noteq> k
         \<and> distanceTo (position p) (centers ! j) < distanceTo (position p) (centers ! k) * 0.8)"
proof -
  assume a: "assignedCenterIndex p = Some k" "k < length centers"
  show ?thesis
  proof (cases "reassignLoop centers (position p) k (distanceTo (position p) (centers ! k)) 0")
    case None
    then have "assignedCenterIndex (assignCenter centers p) = Some k"
      using a by (simp add: assignCenter_def)
    moreover from None have "\<not> (\<exists>j<length centers. j \<noteq> k
         \<and> distanceTo (position p) (centers ! j) < distanceTo (position p) (centers ! k) * 0.8)"
      using reassignLoop_None [of centers "position p" k "distanceTo (position p) (centers ! k)" 0]
      by auto
    ultimately show ?thesis by simp
  next
    case (Some m)
    then have "assignedCenterIndex (assignCenter centers p) = Some m"
      using a by (simp add: assignCenter_def)
    moreover from reassignLoop_Some [OF Some]
    have "m < length centers \<and> m \<noteq> k
          \<and> distanceTo (position p) (centers ! m) < distanceTo (position p) (centers ! k) * 0.8" .
    ultimately show ?thesis by auto
  qed
qed

lemma assignCenter_fresh:
  assumes "centers \<noteq> []"
    and "assignedCenterIndex p = None \<or> (\<exists>k. assignedCenterIndex p = Some k \<and> length centers \<le> k)"
  shows "\<exists>n<length centers. assignedCenterIndex (assignCenter centers p) = Some n
           \<and> (\<forall>j<length centers. distanceTo (position p) (centers ! n)
                                    \<le> distanceTo (position p) (centers ! j))"
proof -
  from assms(2) have "assignedCenterIndex (assignCenter centers p)
                      = Some (nearestLoop centers (position p) 0 0 None)"
    by (auto simp: assignCenter_def)
  with nearest_from_start [OF assms(1), of "position p"] show ?thesis by auto
qed

lemma assignCenter_valid:
  assumes "centers \<noteq> []"
  shows "\<exists>n<length centers. assignedCenterIndex (assignCenter centers p) = Some n"
proof (cases "assignedCenterIndex p")
  case None
  with assignCenter_fresh [OF assms, of p] show ?thesis by auto
next
  case (Some k)
  show ?thesis
  proof (cases "k < length centers")
    case False
    with Some assignCenter_fresh [OF assms, of p] show ?thesis by auto
  next
    case True
    show ?thesis
    proof (cases "reassignLoop centers (position p) k (distanceTo (position p) (centers ! k)) 0")
      case None
      with Some True show ?thesis by (simp add: assignCenter_def)
    next
      case reassigned: (Some m)
      with Some True reassignLoop_Some [OF reassigned] show ?thesis
        by (simp add: assignCenter_def)
    qed
  qed
qed

lemma forEachIndexed_total:
  "(\<forall>j<length xs. \<exists>y. f (i + j) (xs ! j) = Inr y) \<Longrightarrow> \<exists>ys. forEachIndexed f i xs = Inr ys"
proof (induction xs arbitrary: i)
  case Nil
  then show ?case by simp
next
  case (Cons x xs)
  from Cons.prems have "\<exists>y. f (i + 0) ((x # xs) ! 0) = Inr y" by blast
  then obtain y where y: "f i x = Inr y" by auto
  have "\<forall>j<length xs. \<exists>y. f (Suc i + j) (xs ! j) = Inr y"
  proof (intro allI impI)
    fix j assume "j < length xs"
    then have "Suc j < length (x # xs)" by simp
    with Cons.prems have "\<exists>y. f (i + Suc j) ((x # xs) ! Suc j) = Inr y" by blast
    then show "\<exists>y. f (Suc i + j) (xs ! j) = Inr y" by simp
  qed
  from Cons.IH [OF this] obtain ys where "forEachIndexed f (Suc i) xs = Inr ys" by auto
  with y show ?case by (simp add: bindE_def)
qed

lemma forEachIndexed_nth:
  "forEachIndexed f i xs = Inr ys \<Longrightarrow>
   length ys = length xs \<and> (\<forall>j<length xs. f (i + j) (xs ! j) = Inr (ys ! j))"
proof (induction xs arbitrary: i ys)
  case Nil
  then show ?case by simp
next
  case (Cons x xs)
  from Cons.prems obtain y ys' where
    y: "f i x = Inr y" and rest: "forEachIndexed f (Suc i) xs = Inr ys'" and ys: "ys = y # ys'"
    by (auto simp: bindE_def split: sum.splits)
  from Cons.IH [OF rest] have ih: "length ys' = length xs"
    "\<forall>j<length xs. f (Suc i + j) (xs ! j) = Inr (ys' ! j)" by auto
  have "f (i + j) ((x # xs) ! j) = Inr (ys ! j)" if "j < length (x # xs)" for j
  proof (cases j)
    case 0
    with y ys show ?thesis by simp
  next
    case (Suc j')
    with that ih(2) ys show ?thesis by simp
  qed
  with ih(1) ys show ?case by simp
qed

lemma gravitationalForce_total: "\<exists>force. gravitationalForce toCenter d targetRadius = Inr force"
proof (cases "d > 0.01")
  case False
  then show ?thesis by (simp add: gravitationalForce_def)
next
  case far: True
  show ?thesis
  proof (cases "d > targetRadius")
    case True
    with far have "max d targetRadius \<noteq> 0" by simp
    with far True show ?thesis
      by (simp add: gravitationalForce_def Let_def jsDiv_def bindE_def)
  next
    case inside: False
    show ?thesis
    proof (cases "d < targetRadius * 0.3")
      case True
      with far have "targetRadius * 0.3 \<noteq> 0" by auto
      with far inside True show ?thesis
        by (simp add: gravitationalForce_def Let_def jsDiv_def bindE_def)
    next
      case False
      from far inside have "targetRadius - targetRadius * 0.3 \<noteq> 0" by simp
      with far inside False show ?thesis
        by (simp add: gravitationalForce_def Let_def jsDiv_def bindE_def)
    qed
  qed
qed

lemma swarmStep_total:
  assumes "assignedCenterIndex p = Some k" and "k < length centers"
  shows "\<exists>q. swarmStep centers sphereRadius time deltaTime i p = Inr q
             \<and> assignedCenterIndex q = Some k"
proof -
  obtain force where
    "gravitationalForce (sub_v (centers ! k) (position p))
       (length_v (sub_v (centers ! k) (position p)))
       (sphereRadius * (if groupIndex p = 0 then 1 else 1.8)) = Inr force"
    using gravitationalForce_total by blast
  with assms show ?thesis
    by (simp add: swarmStep_def centerAt_def bindE_def split_beta)
qed

lemma strictSwarm_total:
  assumes "assignedCenterIndex p = Some k" and "k < length centers"
  shows "\<exists>q. bindE (centerAt centers (nullish (assignedCenterIndex p) 0))
                (\<lambda>center. Inr (strictSwarmStep center radius swimSpeed phase deltaTime p)) = Inr q
             \<and> assignedCenterIndex q = Some k"
  using assms by (simp add: centerAt_def bindE_def strictSwarmStep_def Let_def)

lemma updateNeedleSwarm_hands:
  assumes "hands \<noteq> []"
  shows "\<exists>ps'. updateNeedleSwarm hands now deltaTime ps = Inr ps' \<and> length ps' = length ps
           \<and> (\<forall>i<length ps. assignedCenterIndex (ps' ! i)
                 = assignedCenterIndex (assignCenter (map palmVector hands) (ps ! i)))"
proof -
  define centers where "centers = map palmVector hands"
  define qs where "qs = map (assignCenter centers) ps"
  define f where "f = swarmStep centers (swarmSphereRadius centers) (now * 0.001) deltaTime"
  have ne: "centers \<noteq> []" using assms by (simp add: centers_def)
  have step: "\<exists>q. f (0 + j) (qs ! j) = Inr q \<and> assignedCenterIndex q = assignedCenterIndex (qs ! j)"
    if "j < length qs" for j
  proof -
    from that have "qs ! j = assignCenter centers (ps ! j)" by (simp add: qs_def)
    with assignCenter_valid [OF ne, of "ps ! j"]
    obtain n where "n < length centers" "assignedCenterIndex (qs ! j) = Some n"
      by auto
    with swarmStep_total [of "qs ! j" n centers] show ?thesis by (simp add: f_def)
  qed
  then have "\<forall>j<length qs. \<exists>y. f (0 + j) (qs ! j) = Inr y" by blast
  from forEachIndexed_total [OF this] obtain ps' where ps': "forEachIndexed f 0 qs = Inr ps'"
    by auto
  from forEachIndexed_nth [OF ps'] have len: "length ps' = length qs"
    and nth: "\<forall>j<length qs. f (0 + j) (qs ! j) = Inr (ps' ! j)" by auto
  have "assignedCenterIndex (ps' ! i) = assignedCenterIndex (assignCenter centers (ps ! i))"
    if "i < length ps" for i
  proof -
    from that have i: "i < length qs" "qs ! i = assignCenter centers (ps ! i)"
      by (simp_all add: qs_def)
    from step [OF i(1)] nth i(1) have "assignedCenterIndex (ps' ! i) = assignedCenterIndex (qs ! i)"
      by auto
    with i(2) show ?thesis by simp
  qed
  moreover have "updateNeedleSwarm hands now deltaTime ps = Inr ps'"
    using assms ps' by (simp add: updateNeedleSwarm_def Let_def centers_def qs_def f_def)
  moreover have "length ps' = length ps" using len by (simp add: qs_def)
  ultimately show ?thesis unfolding centers_def by blast
qed

lemma updateNeedleSwarm_strict_hands:
  assumes "hands \<noteq> []"
  shows "\<exists>ps'. updateNeedleSwarm_strict hands now deltaTime ps = Inr ps' \<and> length ps' = length ps
           \<and> (\<forall>i<length ps. assignedCenterIndex (ps' ! i)
                 = assignedCenterIndex (assignCenter (map palmVector hands) (ps ! i)))"
proof -
  define centers where "centers = map palmVector hands"
  define qs where "qs = map (assignCenter centers) ps"
  define f where "f = (\<lambda>i particle.
                    bindE (centerAt centers (nullish (assignedCenterIndex particle) 0))
                      (\<lambda>center.
                         Inr (strictSwarmStep center
                                (12 * (if groupIndex particle = 0 then 1 else 1.8))
                                5.0 (real i * 0.01 + now * 0.001 * 0.5) deltaTime particle)))"
  have ne: "centers \<noteq> []" using assms by (simp add: centers_def)
  have step: "\<exists>q. f (0 + j) (qs ! j) = Inr q \<and> assignedCenterIndex q = assignedCenterIndex (qs ! j)"
    if "j < length qs" for j
  proof -
    from that have "qs ! j = assignCenter centers (ps ! j)" by (simp add: qs_def)
    with assignCenter_valid [OF ne, of "ps ! j"]
    obtain n where "n < length centers" "assignedCenterIndex (qs ! j) = Some n"
      by auto
    with strictSwarm_total [of "qs ! j" n centers] show ?thesis by (simp add: f_def)
  qed
  then have "\<forall>j<length qs. \<exists>y. f (0 + j) (qs ! j) = Inr y" by blast
  from forEachIndexed_total [OF this] obtain ps' where ps': "forEachIndexed f 0 qs = Inr ps'"
    by auto
  from forEachIndexed_nth [OF ps'] have len: "length ps' = length qs"
    and nth: "\<forall>j<length qs. f (0 + j) (qs ! j) = Inr (ps' ! j)" by auto
  have "assignedCenterIndex (ps' ! i) = assignedCenterIndex (assignCenter centers (ps ! i))"
    if "i < length ps" for i
  proof -
    from that have i: "i < length qs" "qs ! i = assignCenter centers (ps ! i)"
      by (simp_all add: qs_def)
    from step [OF i(1)] nth i(1) have "assignedCenterIndex (ps' ! i) = assignedCenterIndex (qs ! i)"
      by auto
    with i(2) show ?thesis by simp
  qed
  moreover have "updateNeedleSwarm_strict hands now deltaTime ps = Inr ps'"
    using assms ps' by (simp add: updateNeedleSwarm_strict_def Let_def centers_def qs_def f_def)
  moreover have "length ps' = length ps" using len by (simp add: qs_def)
  ultimately show ?thesis unfolding centers_def by blast
qed

lemma update_total: "\<exists>ps'. update cfg hands rnd now deltaTime ps = Inr ps'"
proof (cases "hands = []")
  case True
  then show ?thesis by (simp add: update_def updateNeedleSwarm_def)
next
  case False
  from updateNeedleSwarm_hands [OF False, of now deltaTime ps] show ?thesis
    by (auto simp: update_def)
qed

lemma update_strict_total: "\<exists>ps'. update_strict cfg hands rnd now deltaTime ps = Inr ps'"
proof (cases "hands = []")
  case True
  then show ?thesis by (simp add: update_strict_def updateNeedleSwarm_strict_def)
next
  case False
  from updateNeedleSwarm_strict_hands [OF False, of now deltaTime ps] show ?thesis
    by (auto simp: update_strict_def)
qed

text \<open>
  Claim C4.  In a needle-swarm tick with at least one hand, in both versions
  of the file: a particle whose \<open>assignedCenterIndex\<close> is \<open>k\<close>, smaller than the
  number of centres, has another index after the tick if and only if some
  other centre \<open>j\<close> is closer to its position than \<open>0.8\<close> times the distance
  to centre \<open>k\<close>; if every other centre is only 5% closer, the assignment
  stays.  A particle that has no assignment, or one that is not smaller than
  the number of centres, is assigned a nearest centre.  Distances are taken
  from the position the particle has when the tick starts.
\<close>

theorem swarm_assignment_hysteresis:
  assumes "hands \<noteq> []" and "i < length ps"
  shows "\<exists>ps' ps''.
           updateNeedleSwarm hands now deltaTime ps = Inr ps'
           \<and> updateNeedleSwarm_strict hands now deltaTime ps = Inr ps''
           \<and> assignedCenterIndex (ps'' ! i) = assignedCenterIndex (ps' ! i)
           \<and> (\<forall>k. assignedCenterIndex (ps ! i) = Some k \<and> k < length hands \<longrightarrow>
                 ((assignedCenterIndex (ps' ! i) \<noteq> Some k)
                  \<longleftrightarrow> (\<exists>j<length hands. j \<noteq> k
                        \<and> distanceTo (position (ps ! i)) (palm (hands ! j))
                          < distanceTo (position (ps ! i)) (palm (hands ! k)) * 0.8))
                 \<and> ((\<forall>j<length hands. j \<noteq> k \<longrightarrow>
                        distanceTo (position (ps ! i)) (palm (hands ! j))
                        = 0.95 * distanceTo (position (ps ! i)) (palm (hands ! k)))
                    \<longrightarrow> assignedCenterIndex (ps' ! i) = Some k))
           \<and> (assignedCenterIndex (ps ! i) = None
                \<or> (\<exists>k. assignedCenterIndex (ps ! i) = Some k \<and> length hands \<le> k)
               \<longrightarrow> (\<exists>n<length hands. assignedCenterIndex (ps' ! i) = Some n
                      \<and> (\<forall>j<length hands.
                            distanceTo (position (ps ! i)) (palm (hands ! n))
                            \<le> distanceTo (position (ps ! i)) (palm (hands ! j)))))"
proof -
  define centers where "centers = map palmVector hands"
  have ne: "centers \<noteq> []" and len: "length centers = length hands"
    using assms(1) by (simp_all add: centers_def)
  have at: "centers ! j = palm (hands ! j)" if "j < length hands" for j
    using that by (simp add: centers_def palmVector_palm)
  obtain ps' where ps': "updateNeedleSwarm hands now deltaTime ps = Inr ps'"
    and a': "assignedCenterIndex (ps' ! i) = assignedCenterIndex (assignCenter centers (ps ! i))"
    using updateNeedleSwarm_hands [OF assms(1), of now deltaTime ps] assms(2)
    unfolding centers_def by blast
  obtain ps'' where ps'': "updateNeedleSwarm_strict hands now deltaTime ps = Inr ps''"
    and a'': "assignedCenterIndex (ps'' ! i) = assignedCenterIndex (assignCenter centers (ps ! i))"
    using updateNeedleSwarm_strict_hands [OF assms(1), of now deltaTime ps] assms(2)
    unfolding centers_def by blast
  have keep: "(assignedCenterIndex (ps' ! i) \<noteq> Some k)
                  \<longleftrightarrow> (\<exists>j<length hands. j \<noteq> k
                        \<and> distanceTo (position (ps ! i)) (palm (hands ! j))
                          < distanceTo (position (ps ! i)) (palm (hands ! k)) * 0.8)"
    if k: "assignedCenterIndex (ps ! i) = Some k" "k < length hands" for k
  proof -
    from k have "(assignedCenterIndex (ps' ! i) \<noteq> Some k)
        \<longleftrightarrow> (\<exists>j<length centers. j \<noteq> k
              \<and> distanceTo (position (ps ! i)) (centers ! j)
                < distanceTo (position (ps ! i)) (centers ! k) * 0.8)"
      unfolding a' by (intro assignCenter_keeps) (simp_all add: len)
    also have "\<dots> \<longleftrightarrow> (\<exists>j<length hands. j \<noteq> k
                        \<and> distanceTo (position (ps ! i)) (palm (hands ! j))
                          < distanceTo (position (ps ! i)) (palm (hands ! k)) * 0.8)"
      using k(2) by (auto simp: len at)
    finally show ?thesis .
  qed
  have marginal: "assignedCenterIndex (ps' ! i) = Some k"
    if k: "assignedCenterIndex (ps ! i) = Some k" "k < length hands"
      and m: "\<forall>j<length hands. j \<noteq> k \<longrightarrow>
                        distanceTo (position (ps ! i)) (palm (hands ! j))
                        = 0.95 * distanceTo (position (ps ! i)) (palm (hands ! k))" for k
  proof -
    have "0 \<le> distanceTo (position (ps ! i)) (palm (hands ! k))"
      by (simp add: distanceTo_def)
    then have "\<not> 0.95 * distanceTo (position (ps ! i)) (palm (hands ! k))
                 < distanceTo (position (ps ! i)) (palm (hands ! k)) * 0.8"
      by simp
    with m have "\<not> (\<exists>j<length hands. j \<noteq> k
                        \<and> distanceTo (position (ps ! i)) (palm (hands ! j))
                          < distanceTo (position (ps ! i)) (palm (hands ! k)) * 0.8)"
      by auto
    with keep [OF k] show ?thesis by blast
  qed
  have fresh: "\<exists>n<length hands. assignedCenterIndex (ps' ! i) = Some n
                      \<and> (\<forall>j<length hands.
                            distanceTo (position (ps ! i)) (palm (hands ! n))
                            \<le> distanceTo (position (ps ! i)) (palm (hands ! j)))"
    if "assignedCenterIndex (ps ! i) = None
                \<or> (\<exists>k. assignedCenterIndex (ps ! i) = Some k \<and> length hands \<le> k)"
  proof -
    from that have "assignedCenterIndex (ps ! i) = None
                \<or> (\<exists>k. assignedCenterIndex (ps ! i) = Some k \<and> length centers \<le> k)"
      by (simp add: len)
    from assignCenter_fresh [OF ne this]
    obtain n where n: "n < length centers"
      "assignedCenterIndex (assignCenter centers (ps ! i)) = Some n"
      "\<forall>j<length centers. distanceTo (position (ps ! i)) (centers ! n)
                                    \<le> distanceTo (position (ps ! i)) (centers ! j)"
      by blast
    then show ?thesis unfolding a' using at by (auto simp: len)
  qed
  from ps' ps'' a' a'' keep marginal fresh show ?thesis
    by (intro exI [of _ ps'] exI [of _ ps'']) (simp only: simp_thms, blast)
qed

lemma twoHands_dist:
  "distanceTo (Vector3 0 0 0) (palm (twoHands ! 0)) = 20"
  "distanceTo (Vector3 0 0 0) (palm (twoHands ! 1)) = 19"
  "distanceTo (Vector3 0 0 0) (palm (twoHands ! Suc 0)) = 19"
  "length twoHands = 2"
  by (simp_all add: twoHands_def handAt_def distanceTo_def)

lemma less_two: "j < (2::nat) \<longleftrightarrow> j = 0 \<or> j = 1"
  by auto

theorem swarm_assignment_hysteresis_witness:
  "twoHands \<noteq> []
   \<and> 0 < length [(particleAt (Vector3 0 0 0) (Vector3 0 0 0)) \<lparr> assignedCenterIndex := Some 0 \<rparr>]
   \<and> distanceTo (Vector3 0 0 0) (palm (twoHands ! 1))
     = 0.95 * distanceTo (Vector3 0 0 0) (palm (twoHands ! 0))
   \<and> (\<exists>ps'. updateNeedleSwarm twoHands 0 (1 / 60)
              [(particleAt (Vector3 0 0 0) (Vector3 0 0 0)) \<lparr> assignedCenterIndex := Some 0 \<rparr>]
            = Inr ps'
          \<and> assignedCenterIndex (ps' ! 0) = Some 0)
   \<and> (\<exists>ps'. updateNeedleSwarm twoHands 0 (1 / 60) [particleAt (Vector3 0 0 0) (Vector3 0 0 0)]
            = Inr ps'
          \<and> assignedCenterIndex (ps' ! 0) = Some 1)"
proof -
  let ?p = "(particleAt (Vector3 0 0 0) (Vector3 0 0 0)) \<lparr> assignedCenterIndex := Some 0 \<rparr>"
  let ?q = "particleAt (Vector3 0 0 0) (Vector3 0 0 0)"
  have ne: "twoHands \<noteq> []" by (simp add: twoHands_def)
  have marg: "distanceTo (Vector3 0 0 0) (palm (twoHands ! 1))
     = 0.95 * distanceTo (Vector3 0 0 0) (palm (twoHands ! 0))"
    by (simp add: twoHands_dist)
  have kept: "\<exists>ps'. updateNeedleSwarm twoHands 0 (1 / 60) [?p] = Inr ps'
          \<and> assignedCenterIndex (ps' ! 0) = Some 0"
  proof -
    from swarm_assignment_hysteresis [OF ne, of 0 "[?p]" 0 "1 / 60"]
    obtain ps' where run: "updateNeedleSwarm twoHands 0 (1 / 60) [?p] = Inr ps'"
      and rule: "\<forall>k. assignedCenterIndex ([?p] ! 0) = Some k \<and> k < length twoHands \<longrightarrow>
                 ((\<forall>j<length twoHands. j \<noteq> k \<longrightarrow>
                        distanceTo (position ([?p] ! 0)) (palm (twoHands ! j))
                        = 0.95 * distanceTo (position ([?p] ! 0)) (palm (twoHands ! k)))
                    \<longrightarrow> assignedCenterIndex (ps' ! 0) = Some k)"
      by auto
    have "\<forall>j<length twoHands. j \<noteq> 0 \<longrightarrow>
                        distanceTo (position ([?p] ! 0)) (palm (twoHands ! j))
                        = 0.95 * distanceTo (position ([?p] ! 0)) (palm (twoHands ! 0))"
      by (simp add: particleAt_def twoHands_dist less_two)
    moreover have "assignedCenterIndex ([?p] ! 0) = Some 0 \<and> 0 < length twoHands"
      by (simp add: twoHands_dist)
    ultimately have "assignedCenterIndex (ps' ! 0) = Some 0" using rule by blast
    with run show ?thesis by blast
  qed
  have fresh: "\<exists>ps'. updateNeedleSwarm twoHands 0 (1 / 60) [?q] = Inr ps'
          \<and> assignedCenterIndex (ps' ! 0) = Some 1"
  proof -
    have "assignedCenterIndex ([?q] ! 0) = None" by (simp add: particleAt_def)
    with swarm_assignment_hysteresis [OF ne, of 0 "[?q]" 0 "1 / 60"]
    obtain ps' n where run: "updateNeedleSwarm twoHands 0 (1 / 60) [?q] = Inr ps'"
      and n: "n < length twoHands" "assignedCenterIndex (ps' ! 0) = Some n"
        "\<forall>j<length twoHands. distanceTo (position ([?q] ! 0)) (palm (twoHands ! n))
                            \<le> distanceTo (position ([?q] ! 0)) (palm (twoHands ! j))"
      by auto
    from n(1) have "n = 0 \<or> n = 1" by (simp add: twoHands_dist less_two)
    moreover have "(1::nat) < length twoHands" by (simp add: twoHands_dist)
    with n(3) have "distanceTo (position ([?q] ! 0)) (palm (twoHands ! n))
                            \<le> distanceTo (position ([?q] ! 0)) (palm (twoHands ! 1))"
      by blast
    then have "distanceTo (Vector3 0 0 0) (palm (twoHands ! n))
                            \<le> distanceTo (Vector3 0 0 0) (palm (twoHands ! 1))"
      by (simp add: particleAt_def)
    ultimately have "n = 1" by (auto simp: twoHands_dist)
    with run n(2) show ?thesis by blast
  qed
  from ne marg kept fresh show ?thesis by simp
qed

section \<open>Needle updates over JavaScript numbers: finite results\<close>

lemma MAX_VALUE_pos: "0 < MAX_VALUE" by (simp add: MAX_VALUE_def)

lemma MIN_VALUE_pos: "0 < MIN_VALUE" by (simp add: MIN_VALUE_def)

lemma mag_le_Num [simp]: "mag_le b (Num r) = (\<bar>r\<bar> \<le> b)"
  by (simp add: mag_le_def)

lemma mag_leE: "mag_le b x \<Longrightarrow> (\<And>r. x = Num r \<Longrightarrow> \<bar>r\<bar> \<le> b \<Longrightarrow> P) \<Longrightarrow> P"
  by (cases x) (simp_all add: mag_le_def)

lemma mag_le_mono: "mag_le a x \<Longrightarrow> a \<le> b \<Longrightarrow> mag_le b x"
  by (erule mag_leE) simp

lemma mag_le_number: "\<bar>r\<bar> \<le> b \<Longrightarrow> b \<le> MAX_VALUE \<Longrightarrow> mag_le b (number r)"
  by (auto simp: number_def)

lemma mag_le_plus:
  "mag_le a x \<Longrightarrow> mag_le b y \<Longrightarrow> a + b \<le> MAX_VALUE \<Longrightarrow> mag_le (a + b) (plus_js x y)"
  by (erule mag_leE, erule mag_leE) (auto intro!: mag_le_number)

lemma mag_le_minus:
  "mag_le a x \<Longrightarrow> mag_le b y \<Longrightarrow> a + b \<le> MAX_VALUE \<Longrightarrow> mag_le (a + b) (minus_js x y)"
  by (erule mag_leE, erule mag_leE) (auto intro!: mag_le_number simp: minus_js_def)

lemma mag_le_times:
  "mag_le a x \<Longrightarrow> mag_le b y \<Longrightarrow> a * b \<le> MAX_VALUE \<Longrightarrow> mag_le (a * b) (times_js x y)"
  by (erule mag_leE, erule mag_leE) (auto intro!: mag_le_number simp: abs_mult mult_mono)

lemma number_flush: "\<bar>r\<bar> \<le> MAX_VALUE \<Longrightarrow> number r = Num (flush r)"
  by (auto simp: number_def flush_def)

lemma flush_abs_le: "\<bar>flush r\<bar> \<le> \<bar>r\<bar>"
  by (simp add: flush_def)

lemma flush_nonneg: "0 \<le> r \<Longrightarrow> 0 \<le> flush r"
  by (simp add: flush_def)

lemma flush_id: "r = 0 \<or> MIN_VALUE \<le> \<bar>r\<bar> \<Longrightarrow> flush r = r"
  by (auto simp: flush_def)

lemma flush_range: "flush r = 0 \<or> MIN_VALUE \<le> \<bar>flush r\<bar>"
  by (auto simp: flush_def)

lemma flush_cases: "(flush r = 0 \<and> \<bar>r\<bar> < MIN_VALUE) \<or> (flush r = r \<and> MIN_VALUE \<le> \<bar>r\<bar>)"
  by (auto simp: flush_def)

lemma MIN_VALUE_le_1: "MIN_VALUE \<le> 1"
  by (simp add: MIN_VALUE_def)

lemma MAX_VALUE_ge_1: "1 \<le> MAX_VALUE"
  by (simp add: MAX_VALUE_def)

lemma sq_bound: "\<bar>x\<bar> \<le> b \<Longrightarrow> x * x \<le> b * (b :: real)"
proof -
  assume a: "\<bar>x\<bar> \<le> b"
  then have b: "0 \<le> b" by linarith
  have "\<bar>x\<bar> * \<bar>x\<bar> \<le> b * b"
    by (rule mult_mono) (simp_all add: a b)
  then show ?thesis by simp
qed

text \<open>The squared length of a finite vector whose squares do not overflow.\<close>

lemma lengthSq_js_Num:
  assumes "\<bar>x\<bar> \<le> b" "\<bar>y\<bar> \<le> b" "\<bar>z\<bar> \<le> b" "3 * (b * b) \<le> MAX_VALUE"
  shows "lengthSq_js (Vector3_js (Num x) (Num y) (Num z))
         = Num (flush (x * x) + flush (y * y) + flush (z * z))"
proof -
  have b: "0 \<le> b * b" by simp
  have xx: "x * x \<le> b * b" "y * y \<le> b * b" "z * z \<le> b * b"
    using assms by (simp_all add: sq_bound)
  have nn: "0 \<le> x * x" "0 \<le> y * y" "0 \<le> z * z" by simp_all
  have fx: "0 \<le> flush (x * x)" "flush (x * x) \<le> b * b"
    using flush_nonneg [OF nn(1)] flush_abs_le [of "x * x"] xx(1) by simp_all
  have fy: "0 \<le> flush (y * y)" "flush (y * y) \<le> b * b"
    using flush_nonneg [OF nn(2)] flush_abs_le [of "y * y"] xx(2) by simp_all
  have fz: "0 \<le> flush (z * z)" "flush (z * z) \<le> b * b"
    using flush_nonneg [OF nn(3)] flush_abs_le [of "z * z"] xx(3) by simp_all
  have n1: "number (x * x) = Num (flush (x * x))" "number (y * y) = Num (flush (y * y))"
    "number (z * z) = Num (flush (z * z))"
  proof -
    have bb: "b * b \<le> MAX_VALUE" using assms(4) b by linarith
    have "\<bar>x * x\<bar> \<le> MAX_VALUE" "\<bar>y * y\<bar> \<le> MAX_VALUE" "\<bar>z * z\<bar> \<le> MAX_VALUE"
      using xx bb by simp_all
    then show "number (x * x) = Num (flush (x * x))" "number (y * y) = Num (flush (y * y))"
      "number (z * z) = Num (flush (z * z))"
      by (simp_all add: number_flush)
  qed
  have s2: "flush (flush (x * x) + flush (y * y)) = flush (x * x) + flush (y * y)"
    using flush_range [of "x * x"] flush_range [of "y * y"] fx fy
    by (intro flush_id) auto
  have "\<bar>flush (x * x) + flush (y * y)\<bar> \<le> MAX_VALUE"
    using fx fy assms(4) b by linarith
  then have n2: "number (flush (x * x) + flush (y * y)) = Num (flush (x * x) + flush (y * y))"
    using s2 by (simp add: number_flush)
  have s3: "flush (flush (x * x) + flush (y * y) + flush (z * z))
            = flush (x * x) + flush (y * y) + flush (z * z)"
    using flush_range [of "x * x"] flush_range [of "y * y"] flush_range [of "z * z"] fx fy fz
    by (intro flush_id) auto
  have "\<bar>flush (x * x) + flush (y * y) + flush (z * z)\<bar> \<le> MAX_VALUE"
    using fx fy fz assms(4) b by linarith
  then have n3: "number (flush (x * x) + flush (y * y) + flush (z * z))
            = Num (flush (x * x) + flush (y * y) + flush (z * z))"
    using s3 by (simp add: number_flush)
  show ?thesis
    by (simp add: lengthSq_js_def n1 n2 n3)
qed

lemma lengthSq_sum_facts:
  assumes "\<bar>x\<bar> \<le> b" "\<bar>y\<bar> \<le> b" "\<bar>z\<bar> \<le> b"
  defines "s \<equiv> flush (x * x) + flush (y * y) + flush (z * z)"
  shows "0 \<le> s" "s \<le> 3 * (b * b)" "s = 0 \<or> MIN_VALUE \<le> s"
    "s = 0 \<Longrightarrow> \<bar>x\<bar> < 1 \<and> \<bar>y\<bar> < 1 \<and> \<bar>z\<bar> < 1"
    "s \<noteq> 0 \<Longrightarrow> x * x \<le> s \<and> y * y \<le> s \<and> z * z \<le> s"
proof -
  have xx: "x * x \<le> b * b" "y * y \<le> b * b" "z * z \<le> b * b"
    using assms by (simp_all add: sq_bound)
  have nn: "0 \<le> x * x" "0 \<le> y * y" "0 \<le> z * z" by simp_all
  have f: "0 \<le> flush (x * x)" "flush (x * x) \<le> b * b"
    "0 \<le> flush (y * y)" "flush (y * y) \<le> b * b"
    "0 \<le> flush (z * z)" "flush (z * z) \<le> b * b"
    using flush_nonneg [OF nn(1)] flush_abs_le [of "x * x"] xx(1)
      flush_nonneg [OF nn(2)] flush_abs_le [of "y * y"] xx(2)
      flush_nonneg [OF nn(3)] flush_abs_le [of "z * z"] xx(3) by simp_all
  show "0 \<le> s" "s \<le> 3 * (b * b)" using f by (simp_all add: s_def)
  show r: "s = 0 \<or> MIN_VALUE \<le> s"
    using flush_range [of "x * x"] flush_range [of "y * y"] flush_range [of "z * z"] f
    by (auto simp: s_def)
  have small: "\<bar>r\<bar> < 1" if "r * r < MIN_VALUE" for r :: real
  proof (rule ccontr)
    assume "\<not> \<bar>r\<bar> < 1"
    then have "1 \<le> \<bar>r\<bar>" by simp
    then have "1 * 1 \<le> \<bar>r\<bar> * \<bar>r\<bar>" by (intro mult_mono) simp_all
    with that MIN_VALUE_le_1 show False by simp
  qed
  show "\<bar>x\<bar> < 1 \<and> \<bar>y\<bar> < 1 \<and> \<bar>z\<bar> < 1" if "s = 0"
  proof -
    from that f have "flush (x * x) = 0" "flush (y * y) = 0" "flush (z * z) = 0"
      by (simp_all add: s_def)
    then have "x * x < MIN_VALUE" "y * y < MIN_VALUE" "z * z < MIN_VALUE"
      using flush_cases [of "x * x"] flush_cases [of "y * y"] flush_cases [of "z * z"]
        MIN_VALUE_pos by auto
    then show ?thesis by (simp add: small)
  qed
  show "x * x \<le> s \<and> y * y \<le> s \<and> z * z \<le> s" if "s \<noteq> 0"
  proof -
    from that r have m: "MIN_VALUE \<le> s" by simp
    have one: "r * r \<le> s" if "flush (r * r) \<le> s" for r
      using flush_cases [of "r * r"] that m by auto
    have "flush (x * x) \<le> s" "flush (y * y) \<le> s" "flush (z * z) \<le> s"
      using f by (simp_all add: s_def)
    then show ?thesis by (simp add: one)
  qed
qed

lemma sqrt_le_max: "0 \<le> s \<Longrightarrow> sqrt s \<le> max 1 s"
proof (cases "s \<le> 1")
  case True
  then have "sqrt s \<le> sqrt 1" by (simp only: real_sqrt_le_iff)
  then show ?thesis by simp
next
  case False
  assume "0 \<le> s"
  from False have "1 \<le> s" by simp
  then have "s * 1 \<le> s * s" by (intro mult_left_mono) simp_all
  then have "s \<le> s\<^sup>2" by (simp add: power2_eq_square)
  with \<open>0 \<le> s\<close> have "sqrt s \<le> s" by (intro real_le_lsqrt) simp_all
  then show ?thesis by simp
qed

lemma sqrt_ge_MIN: "MIN_VALUE \<le> s \<Longrightarrow> MIN_VALUE \<le> sqrt s"
proof (cases "1 \<le> s")
  case True
  then have "1 \<le> sqrt s" by simp
  with MIN_VALUE_le_1 show ?thesis by linarith
next
  case False
  assume m: "MIN_VALUE \<le> s"
  with MIN_VALUE_pos have pos: "0 \<le> s" by simp
  from False have "s \<le> 1" by simp
  with pos have "s * s \<le> s * 1" by (intro mult_left_mono) simp_all
  then have "s\<^sup>2 \<le> s" by (simp add: power2_eq_square)
  then have "s \<le> sqrt s" by (rule real_le_rsqrt)
  with m show ?thesis by simp
qed

lemma inverse_MAX_small: "(1 / MAX_VALUE)\<^sup>2 \<le> MIN_VALUE"
  by (simp add: MAX_VALUE_def MIN_VALUE_def power2_eq_square divide_simps)

lemma inverse_sqrt_le_MAX: "MIN_VALUE \<le> s \<Longrightarrow> 1 / sqrt s \<le> MAX_VALUE"
proof -
  assume m: "MIN_VALUE \<le> s"
  with inverse_MAX_small have "(1 / MAX_VALUE)\<^sup>2 \<le> s" by simp
  then have "1 / MAX_VALUE \<le> sqrt s" by (rule real_le_rsqrt)
  moreover have "0 < sqrt s" using m MIN_VALUE_pos by simp
  ultimately show ?thesis using MAX_VALUE_pos
    by (simp add: divide_simps mult.commute)
qed

lemma length_js_Num:
  assumes "\<bar>x\<bar> \<le> b" "\<bar>y\<bar> \<le> b" "\<bar>z\<bar> \<le> b" "3 * (b * b) \<le> MAX_VALUE"
  shows "length_js (Vector3_js (Num x) (Num y) (Num z))
         = Num (sqrt (flush (x * x) + flush (y * y) + flush (z * z)))"
proof -
  define s where "s = flush (x * x) + flush (y * y) + flush (z * z)"
  note f = lengthSq_sum_facts [OF assms(1-3), folded s_def]
  have "sqrt s \<le> max 1 s" using f(1) by (rule sqrt_le_max)
  with f(2) assms(4) MAX_VALUE_ge_1 have le: "\<bar>sqrt s\<bar> \<le> MAX_VALUE"
    using f(1) by simp
  have "sqrt s = 0 \<or> MIN_VALUE \<le> \<bar>sqrt s\<bar>"
    using f(3) sqrt_ge_MIN [of s] by auto
  then have "flush (sqrt s) = sqrt s" by (rule flush_id)
  with le have "number (sqrt s) = Num (sqrt s)" by (simp add: number_flush)
  with f(1) show ?thesis
    by (simp add: length_js_def lengthSq_js_Num [OF assms] s_def [symmetric])
qed

lemma mag_le_length_js:
  assumes "vmag_le b v" "3 * (b * b) \<le> MAX_VALUE"
  shows "mag_le (2 * b) (length_js v)"
proof -
  from assms(1) obtain x y z where v: "v = Vector3_js (Num x) (Num y) (Num z)"
    and xyz: "\<bar>x\<bar> \<le> b" "\<bar>y\<bar> \<le> b" "\<bar>z\<bar> \<le> b"
    by (cases v) (auto simp: vmag_le_def elim!: mag_leE)
  define s where "s = flush (x * x) + flush (y * y) + flush (z * z)"
  note f = lengthSq_sum_facts [OF xyz, folded s_def]
  from xyz have b: "0 \<le> b" by linarith
  have "0 \<le> b * b" by simp
  with f(2) have "s \<le> 4 * (b * b)" by linarith
  then have "s \<le> (2 * b)\<^sup>2" by (simp add: power2_eq_square)
  then have "sqrt s \<le> 2 * b" using b by (intro real_le_lsqrt) simp_all
  then show ?thesis
    using f(1) by (simp add: v length_js_Num [OF xyz assms(2)] s_def [symmetric])
qed

lemma mag_le_lengthSq_js:
  assumes "vmag_le b v" "3 * (b * b) \<le> MAX_VALUE"
  shows "mag_le (3 * (b * b)) (lengthSq_js v)"
proof -
  from assms(1) obtain x y z where v: "v = Vector3_js (Num x) (Num y) (Num z)"
    and xyz: "\<bar>x\<bar> \<le> b" "\<bar>y\<bar> \<le> b" "\<bar>z\<bar> \<le> b"
    by (cases v) (auto simp: vmag_le_def elim!: mag_leE)
  define s where "s = flush (x * x) + flush (y * y) + flush (z * z)"
  note f = lengthSq_sum_facts [OF xyz, folded s_def]
  show ?thesis
    using f(1,2) by (simp add: v lengthSq_js_Num [OF xyz assms(2)] s_def [symmetric])
qed

text \<open>
  \<open>normalize()\<close> of a finite vector, whose squares do not overflow, has
  components of magnitude at most \<open>1\<close>.
\<close>

lemma normalize_component:
  assumes "x * x \<le> s" "MIN_VALUE \<le> s"
  shows "mag_le 1 (times_js (Num x) (divide_js (Num 1) (orElse_js (Num (sqrt s)) (Num 1))))"
proof -
  have pos: "0 < sqrt s" using assms(2) MIN_VALUE_pos by simp
  then have ne: "sqrt s \<noteq> 0" by simp
  have inv: "\<bar>1 / sqrt s\<bar> \<le> MAX_VALUE"
    using inverse_sqrt_le_MAX [OF assms(2)] pos by simp
  have "x\<^sup>2 \<le> s" using assms(1) by (simp add: power2_eq_square)
  then have "\<bar>x\<bar> \<le> sqrt s" by (metis real_sqrt_abs real_sqrt_le_iff)
  then have one: "\<bar>x\<bar> * (1 / sqrt s) \<le> 1" using pos by (simp add: divide_simps)
  have "\<bar>flush (1 / sqrt s)\<bar> \<le> 1 / sqrt s"
    using flush_abs_le [of "1 / sqrt s"] pos by simp
  then have "\<bar>x\<bar> * \<bar>flush (1 / sqrt s)\<bar> \<le> \<bar>x\<bar> * (1 / sqrt s)"
    by (intro mult_left_mono) simp_all
  with one have "\<bar>x * flush (1 / sqrt s)\<bar> \<le> 1" by (simp add: abs_mult)
  then have "mag_le 1 (number (x * flush (1 / sqrt s)))"
    using MAX_VALUE_ge_1 by (rule mag_le_number)
  then show ?thesis
    using ne inv by (simp add: orElse_js_def number_flush)
qed

lemma normalize_small:
  assumes "\<bar>x\<bar> < 1"
  shows "mag_le 1 (times_js (Num x) (divide_js (Num 1) (orElse_js (Num 0) (Num 1))))"
proof -
  have "number 1 = Num 1"
    using MIN_VALUE_le_1 MAX_VALUE_ge_1 by (simp add: number_def)
  moreover have "mag_le 1 (number x)"
    using assms MAX_VALUE_ge_1 by (intro mag_le_number) simp_all
  ultimately show ?thesis by (simp add: orElse_js_def)
qed

lemma vmag_le_normalize_js:
  assumes "vmag_le b v" "3 * (b * b) \<le> MAX_VALUE"
  shows "vmag_le 1 (normalize_js v)"
proof -
  from assms(1) obtain x y z where v: "v = Vector3_js (Num x) (Num y) (Num z)"
    and xyz: "\<bar>x\<bar> \<le> b" "\<bar>y\<bar> \<le> b" "\<bar>z\<bar> \<le> b"
    by (cases v) (auto simp: vmag_le_def elim!: mag_leE)
  define s where "s = flush (x * x) + flush (y * y) + flush (z * z)"
  note f = lengthSq_sum_facts [OF xyz, folded s_def]
  have len: "length_js (Vector3_js (Num x) (Num y) (Num z)) = Num (sqrt s)"
    by (simp add: length_js_Num [OF xyz assms(2)] s_def)
  show ?thesis
  proof (cases "s = 0")
    case True
    with f(4) have "\<bar>x\<bar> < 1" "\<bar>y\<bar> < 1" "\<bar>z\<bar> < 1" by simp_all
    then show ?thesis
      using True
      by (simp add: normalize_js_def divideScalar_js_def multiplyScalar_js_def len vmag_le_def
            v normalize_small)
  next
    case False
    with f(3,5) have "MIN_VALUE \<le> s" "x * x \<le> s" "y * y \<le> s" "z * z \<le> s" by simp_all
    then show ?thesis
      by (simp add: normalize_js_def divideScalar_js_def multiplyScalar_js_def len vmag_le_def
            v normalize_component)
  qed
qed

text \<open>Bounds for the vector operations.\<close>

lemma vmag_leE:
  "vmag_le b v \<Longrightarrow>
   (\<And>x y z. v = Vector3_js (Num x) (Num y) (Num z) \<Longrightarrow> \<bar>x\<bar> \<le> b \<Longrightarrow> \<bar>y\<bar> \<le> b \<Longrightarrow> \<bar>z\<bar> \<le> b \<Longrightarrow> P)
   \<Longrightarrow> P"
  by (cases v) (auto simp: vmag_le_def elim!: mag_leE)

lemma vmag_le_mono: "vmag_le a v \<Longrightarrow> a \<le> b \<Longrightarrow> vmag_le b v"
  by (auto simp: vmag_le_def intro: mag_le_mono)

lemma mag_le_nonneg: "mag_le b x \<Longrightarrow> 0 \<le> b"
  by (erule mag_leE) linarith

lemma vmag_le_nonneg: "vmag_le b v \<Longrightarrow> 0 \<le> b"
  by (auto simp: vmag_le_def dest: mag_le_nonneg)

lemma vmag_le_add:
  "vmag_le a u \<Longrightarrow> vmag_le b v \<Longrightarrow> a + b \<le> MAX_VALUE \<Longrightarrow> vmag_le (a + b) (add_js u v)"
  by (simp add: vmag_le_def add_js_def mag_le_plus)

lemma vmag_le_sub:
  "vmag_le a u \<Longrightarrow> vmag_le b v \<Longrightarrow> a + b \<le> MAX_VALUE \<Longrightarrow> vmag_le (a + b) (sub_js u v)"
  by (simp add: vmag_le_def sub_js_def mag_le_minus)

lemma vmag_le_scale:
  "vmag_le a u \<Longrightarrow> mag_le b s \<Longrightarrow> a * b \<le> MAX_VALUE
   \<Longrightarrow> vmag_le (a * b) (multiplyScalar_js u s)"
  by (simp add: vmag_le_def multiplyScalar_js_def mag_le_times)

lemma mag_le_dot:
  assumes "vmag_le a u" "vmag_le b v" "3 * (a * b) \<le> MAX_VALUE"
  shows "mag_le (3 * (a * b)) (dot_js u v)"
proof -
  have ab: "0 \<le> a * b" using assms(1,2) by (simp add: vmag_le_nonneg)
  have m: "a * b \<le> MAX_VALUE" "a * b + a * b \<le> MAX_VALUE" "a * b + a * b + a * b \<le> MAX_VALUE"
    using assms(3) ab by linarith+
  have "mag_le (a * b + a * b + a * b) (dot_js u v)"
    using assms(1,2) unfolding dot_js_def vmag_le_def
    by (intro mag_le_plus mag_le_times m) simp_all
  then show ?thesis by (rule mag_le_mono) simp
qed

lemma vmag_le_cross:
  assumes "vmag_le a u" "vmag_le b v" "2 * (a * b) \<le> MAX_VALUE"
  shows "vmag_le (2 * (a * b)) (crossVectors_js u v)"
proof -
  have ab: "0 \<le> a * b" using assms(1,2) by (simp add: vmag_le_nonneg)
  have m: "a * b \<le> MAX_VALUE" "a * b + a * b \<le> MAX_VALUE"
    using assms(3) ab by linarith+
  have "vmag_le (a * b + a * b) (crossVectors_js u v)"
    using assms(1,2) unfolding crossVectors_js_def vmag_le_def jsvec.sel
    by (intro conjI mag_le_minus mag_le_times m) simp_all
  then show ?thesis by (rule vmag_le_mono) simp
qed

lemma vmag_le_lerp:
  assumes "vmag_le a u" "vmag_le b v" "mag_le t alpha"
    and "b + a \<le> MAX_VALUE" "(b + a) * t \<le> MAX_VALUE" "a + (b + a) * t \<le> MAX_VALUE"
  shows "vmag_le (a + (b + a) * t) (lerp_js u v alpha)"
  using assms unfolding lerp_js_def vmag_le_def jsvec.sel
  by (intro conjI mag_le_plus mag_le_times mag_le_minus) simp_all

lemma vmag_le_vector_js:
  "\<bar>vx v\<bar> \<le> b \<Longrightarrow> \<bar>vy v\<bar> \<le> b \<Longrightarrow> \<bar>vz v\<bar> \<le> b \<Longrightarrow> b \<le> MAX_VALUE
   \<Longrightarrow> vmag_le b (vector_js v)"
  by (simp add: vmag_le_def vector_js_def mag_le_number)

lemma mag_le_cos: "mag_le b x \<Longrightarrow> mag_le 1 (cos_js x)"
  by (erule mag_leE) (simp add: mag_le_number MAX_VALUE_ge_1)

lemma mag_le_sin: "mag_le b x \<Longrightarrow> mag_le 1 (sin_js x)"
  by (erule mag_leE) (simp add: mag_le_number MAX_VALUE_ge_1)

lemma mag_le_distanceTo_js:
  assumes "vmag_le a u" "vmag_le b v" "3 * ((a + b) * (a + b)) \<le> MAX_VALUE"
  shows "mag_le (2 * (a + b)) (distanceTo_js u v)"
proof -
  have nn: "0 \<le> a + b" using assms(1,2) by (simp add: vmag_le_nonneg)
  then have "a + b \<le> 3 * ((a + b) * (a + b)) \<or> a + b \<le> 1"
    by (cases "1 \<le> a + b") (auto intro: order_trans [OF _ mult_left_mono [of 1 "a + b" "a + b"]])
  with assms(3) MAX_VALUE_ge_1 have "a + b \<le> MAX_VALUE" by linarith
  with assms(1,2) have "vmag_le (a + b) (sub_js u v)" by (rule vmag_le_sub)
  then show ?thesis
    unfolding distanceTo_js_def using assms(3) by (rule mag_le_length_js)
qed

lemma mag_le_finite: "mag_le b x \<Longrightarrow> finite_js x"
  by (erule mag_leE) (simp add: finite_js_def)

lemma vmag_le_finite: "vmag_le b v \<Longrightarrow> finiteVector v"
  by (auto simp: vmag_le_def finiteVector_def intro: mag_le_finite)

lemma vmag_le_toSurface_js:
  assumes "vmag_le (10 ^ 130) (position_js p)" "vmag_le (10 ^ 30) center"
    "vmag_le (10 ^ 30) (direction_js p)"
  shows "vmag_le 1 (toSurface_js center p)"
proof -
  have "vmag_le (10 ^ 130 + 10 ^ 30) (sub_js (position_js p) center)"
    using assms(1,2) by (rule vmag_le_sub) (simp add: MAX_VALUE_def)
  then have a: "vmag_le 1 (normalize_js (sub_js (position_js p) center))"
    by (rule vmag_le_normalize_js) (simp add: MAX_VALUE_def)
  have b: "vmag_le 1 (normalize_js (direction_js p))"
    using assms(3) by (rule vmag_le_normalize_js) (simp add: MAX_VALUE_def)
  from a b show ?thesis by (simp add: toSurface_js_def Let_def)
qed

lemma unit_axes:
  "vmag_le 1 (Vector3_js (Num 0) (Num 1) (Num 0))" "vmag_le 1 (Vector3_js (Num 1) (Num 0) (Num 0))"
  by (simp_all add: vmag_le_def)

lemma vmag_le_tangent1Of_js:
  assumes "vmag_le 1 radial"
  shows "vmag_le 1 (tangent1Of_js radial)"
proof -
  have y: "vmag_le (2 * (1 * 1)) (crossVectors_js radial (Vector3_js (Num 0) (Num 1) (Num 0)))"
    by (rule vmag_le_cross [OF assms unit_axes(1)]) (simp add: MAX_VALUE_def)
  have x: "vmag_le (2 * (1 * 1)) (crossVectors_js radial (Vector3_js (Num 1) (Num 0) (Num 0)))"
    by (rule vmag_le_cross [OF assms unit_axes(2)]) (simp add: MAX_VALUE_def)
  have "vmag_le 1 (normalize_js (crossVectors_js radial (Vector3_js (Num 0) (Num 1) (Num 0))))"
    using y by (rule vmag_le_normalize_js) (simp add: MAX_VALUE_def)
  moreover
  have "vmag_le 1 (normalize_js (crossVectors_js radial (Vector3_js (Num 1) (Num 0) (Num 0))))"
    using x by (rule vmag_le_normalize_js) (simp add: MAX_VALUE_def)
  ultimately show ?thesis by (simp add: tangent1Of_js_def Let_def)
qed

lemma vmag_le_tangent2Of_js:
  assumes "vmag_le 1 radial"
  shows "vmag_le 1 (tangent2Of_js radial)"
proof -
  have "vmag_le (2 * (1 * 1)) (crossVectors_js radial (tangent1Of_js radial))"
    using assms vmag_le_tangent1Of_js [OF assms]
    by (rule vmag_le_cross) (simp add: MAX_VALUE_def)
  then show ?thesis
    unfolding tangent2Of_js_def by (rule vmag_le_normalize_js) (simp add: MAX_VALUE_def)
qed

lemma vmag_le_swimDirection_js:
  assumes "vmag_le 1 radial" "mag_le b phase" "mag_le 8 swimSpeed"
  shows "vmag_le 16 (swimDirection_js radial phase swimSpeed)"
proof -
  have c: "mag_le (1 * 8) (times_js (cos_js phase) swimSpeed)"
    using mag_le_cos [OF assms(2)] assms(3) by (rule mag_le_times) (simp add: MAX_VALUE_def)
  have s: "mag_le (1 * 8) (times_js (sin_js phase) swimSpeed)"
    using mag_le_sin [OF assms(2)] assms(3) by (rule mag_le_times) (simp add: MAX_VALUE_def)
  have 1: "vmag_le (1 * (1 * 8))
             (multiplyScalar_js (tangent1Of_js radial) (times_js (cos_js phase) swimSpeed))"
    using vmag_le_tangent1Of_js [OF assms(1)] c
    by (rule vmag_le_scale) (simp add: MAX_VALUE_def)
  have 2: "vmag_le (1 * (1 * 8))
             (multiplyScalar_js (tangent2Of_js radial) (times_js (sin_js phase) swimSpeed))"
    using vmag_le_tangent2Of_js [OF assms(1)] s
    by (rule vmag_le_scale) (simp add: MAX_VALUE_def)
  have "vmag_le (1 * (1 * 8) + 1 * (1 * 8)) (swimDirection_js radial phase swimSpeed)"
    unfolding swimDirection_js_def using 1 2 by (rule vmag_le_add) (simp add: MAX_VALUE_def)
  then show ?thesis by simp
qed

lemma sphereStep_js_finite:
  assumes c: "vmag_le (10 ^ 30) center" and r: "mag_le (10 ^ 92) radius"
    and sp: "mag_le 8 swimSpeed" and ph: "mag_le b phase" and dt: "mag_le (10 ^ 30) deltaTime"
    and p: "moderateParticle p"
  shows "finiteParticle (sphereStep_js center radius swimSpeed phase deltaTime p)"
proof -
  from p have pp: "vmag_le (10 ^ 130) (position_js p)" and pv: "vmag_le (10 ^ 30) (velocity_js p)"
    and pd: "vmag_le (10 ^ 30) (direction_js p)"
    and pt: "case targetPosition_js p of None \<Rightarrow> True | Some t \<Rightarrow> finiteVector t"
    by (auto simp: moderateParticle_def intro: vmag_le_mono vmag_le_finite split: option.splits)
  define sd where "sd = toSurface_js center p"
  have sd: "vmag_le 1 sd"
    unfolding sd_def using pp c pd by (rule vmag_le_toSurface_js)
  define surfacePos where "surfacePos = add_js (multiplyScalar_js sd radius) center"
  have "vmag_le (1 * 10 ^ 92 + 10 ^ 30) surfacePos"
    unfolding surfacePos_def
    by (rule vmag_le_add [OF vmag_le_scale [OF sd r] c]) (simp_all add: MAX_VALUE_def)
  then have surfacePos: "vmag_le (10 ^ 93) surfacePos"
    by (rule vmag_le_mono) simp
  define swim where "swim = swimDirection_js sd phase swimSpeed"
  have swim: "vmag_le 16 swim"
    unfolding swim_def using sd ph sp by (rule vmag_le_swimDirection_js)
  define alpha where "alpha = times_js deltaTime (Num 3.0)"
  have alpha: "mag_le (10 ^ 30 * 3) alpha"
    unfolding alpha_def using dt by (rule mag_le_times) (simp_all add: MAX_VALUE_def)
  define vel where "vel = lerp_js (velocity_js p) swim alpha"
  have "vmag_le (10 ^ 30 + (16 + 10 ^ 30) * (10 ^ 30 * 3)) vel"
    unfolding vel_def using pv swim alpha by (rule vmag_le_lerp) (simp_all add: MAX_VALUE_def)
  then have vel: "vmag_le (10 ^ 62) vel"
    by (rule vmag_le_mono) simp
  define pos where "pos = add_js surfacePos (multiplyScalar_js vel deltaTime)"
  have "vmag_le (10 ^ 93 + 10 ^ 62 * 10 ^ 30) pos"
    unfolding pos_def
    by (rule vmag_le_add [OF surfacePos vmag_le_scale [OF vel dt]]) (simp_all add: MAX_VALUE_def)
  then have pos: "vmag_le (10 ^ 94) pos"
    by (rule vmag_le_mono) simp
  define ntp where "ntp = sub_js pos center"
  have ntp: "vmag_le (10 ^ 94 + 10 ^ 30) ntp"
    unfolding ntp_def using pos c by (rule vmag_le_sub) (simp add: MAX_VALUE_def)
  have n: "vmag_le 1 (normalize_js ntp)"
    using ntp by (rule vmag_le_normalize_js) (simp add: MAX_VALUE_def)
  define pos' where "pos' = add_js (multiplyScalar_js (normalize_js ntp) radius) center"
  have pos': "vmag_le (1 * 10 ^ 92 + 10 ^ 30) pos'"
    unfolding pos'_def
    by (rule vmag_le_add [OF vmag_le_scale [OF n r] c]) (simp_all add: MAX_VALUE_def)
  have eq: "sphereStep_js center radius swimSpeed phase deltaTime p
            = (if less_js (Num 0.01) (lengthSq_js ntp)
               then p \<lparr> velocity_js := vel, position_js := pos' \<rparr>
               else p \<lparr> velocity_js := vel, position_js := pos \<rparr>)"
    by (simp add: sphereStep_js_def sphereMove_js_def Let_def pos'_def ntp_def pos_def vel_def
          alpha_def swim_def surfacePos_def sd_def)
  show ?thesis
    unfolding eq using pos pos' vel pd pt
    by (auto simp: finiteParticle_def intro: vmag_le_finite)
qed

lemma strictSphereStep_js_finite:
  assumes c: "vmag_le (10 ^ 30) center" and r: "mag_le (10 ^ 92) radius"
    and sp: "mag_le 8 swimSpeed" and ph: "mag_le b phase" and dt: "mag_le (10 ^ 30) deltaTime"
    and p: "moderateParticle p"
  shows "finiteParticle (strictSphereStep_js center radius swimSpeed phase deltaTime p)"
proof -
  from p have pp: "vmag_le (10 ^ 130) (position_js p)" and pv: "vmag_le (10 ^ 30) (velocity_js p)"
    and pd: "vmag_le (10 ^ 30) (direction_js p)"
    and pt: "case targetPosition_js p of None \<Rightarrow> True | Some t \<Rightarrow> finiteVector t"
    by (auto simp: moderateParticle_def intro: vmag_le_mono vmag_le_finite split: option.splits)
  define sd where "sd = toSurface_js center p"
  have sd: "vmag_le 1 sd"
    unfolding sd_def using pp c pd by (rule vmag_le_toSurface_js)
  define surfacePos where "surfacePos = add_js (multiplyScalar_js sd radius) center"
  have "vmag_le (1 * 10 ^ 92 + 10 ^ 30) surfacePos"
    unfolding surfacePos_def
    by (rule vmag_le_add [OF vmag_le_scale [OF sd r] c]) (simp_all add: MAX_VALUE_def)
  then have surfacePos: "vmag_le (10 ^ 93) surfacePos"
    by (rule vmag_le_mono) simp
  define currentRadial where
    "currentRadial = multiplyScalar_js sd (dot_js (velocity_js p) sd)"
  have currentRadial: "vmag_le (1 * (3 * (10 ^ 30 * 1))) currentRadial"
    unfolding currentRadial_def
    by (rule vmag_le_scale [OF sd mag_le_dot [OF pv sd]]) (simp_all add: MAX_VALUE_def)
  define tangentialVelocity where "tangentialVelocity = sub_js (velocity_js p) currentRadial"
  have "vmag_le (10 ^ 30 + 1 * (3 * (10 ^ 30 * 1))) tangentialVelocity"
    unfolding tangentialVelocity_def using pv currentRadial
    by (rule vmag_le_sub) (simp add: MAX_VALUE_def)
  then have tangentialVelocity: "vmag_le (10 ^ 31) tangentialVelocity"
    by (rule vmag_le_mono) simp
  define swim where "swim = swimDirection_js sd phase swimSpeed"
  have swim: "vmag_le 16 swim"
    unfolding swim_def using sd ph sp by (rule vmag_le_swimDirection_js)
  define alpha where "alpha = times_js deltaTime (Num 3.0)"
  have alpha: "mag_le (10 ^ 30 * 3) alpha"
    unfolding alpha_def using dt by (rule mag_le_times) (simp_all add: MAX_VALUE_def)
  define vel where "vel = lerp_js tangentialVelocity swim alpha"
  have "vmag_le (10 ^ 31 + (16 + 10 ^ 31) * (10 ^ 30 * 3)) vel"
    unfolding vel_def using tangentialVelocity swim alpha
    by (rule vmag_le_lerp) (simp_all add: MAX_VALUE_def)
  then have vel: "vmag_le (10 ^ 62) vel"
    by (rule vmag_le_mono) simp
  define pos where "pos = add_js surfacePos (multiplyScalar_js vel deltaTime)"
  have "vmag_le (10 ^ 93 + 10 ^ 62 * 10 ^ 30) pos"
    unfolding pos_def
    by (rule vmag_le_add [OF surfacePos vmag_le_scale [OF vel dt]]) (simp_all add: MAX_VALUE_def)
  then have pos: "vmag_le (10 ^ 94) pos"
    by (rule vmag_le_mono) simp
  define ntp where "ntp = sub_js pos center"
  have ntp: "vmag_le (10 ^ 94 + 10 ^ 30) ntp"
    unfolding ntp_def using pos c by (rule vmag_le_sub) (simp add: MAX_VALUE_def)
  have n: "vmag_le 1 (normalize_js ntp)"
    using ntp by (rule vmag_le_normalize_js) (simp add: MAX_VALUE_def)
  have nd: "vmag_le 1 (normalize_js (direction_js p))"
    using pd by (rule vmag_le_normalize_js) (simp add: MAX_VALUE_def)
  define pos' where
    "pos' = (if less_js (Num 0.0001) (lengthSq_js ntp)
             then add_js (multiplyScalar_js (normalize_js ntp) radius) center
             else add_js (multiplyScalar_js (normalize_js (direction_js p)) radius) center)"
  have "vmag_le (1 * 10 ^ 92 + 10 ^ 30)
          (add_js (multiplyScalar_js (normalize_js ntp) radius) center)"
    by (rule vmag_le_add [OF vmag_le_scale [OF n r] c]) (simp_all add: MAX_VALUE_def)
  moreover have "vmag_le (1 * 10 ^ 92 + 10 ^ 30)
          (add_js (multiplyScalar_js (normalize_js (direction_js p)) radius) center)"
    by (rule vmag_le_add [OF vmag_le_scale [OF nd r] c]) (simp_all add: MAX_VALUE_def)
  ultimately have pos': "vmag_le (1 * 10 ^ 92 + 10 ^ 30) pos'"
    by (simp add: pos'_def)
  define updatedDirection where "updatedDirection = sub_js pos' center"
  have "vmag_le (1 * 10 ^ 92 + 10 ^ 30 + 10 ^ 30) updatedDirection"
    unfolding updatedDirection_def using pos' c by (rule vmag_le_sub) (simp add: MAX_VALUE_def)
  then have "vmag_le 1 (normalize_js updatedDirection)"
    by (rule vmag_le_normalize_js) (simp add: MAX_VALUE_def)
  with pd have dir: "finiteVector (if less_js (Num 0.0001) (lengthSq_js updatedDirection)
                              then normalize_js updatedDirection else direction_js p)"
    by (auto intro: vmag_le_finite)
  have eq: "strictSphereStep_js center radius swimSpeed phase deltaTime p
            = p \<lparr> velocity_js := vel, position_js := pos',
                  direction_js := (if less_js (Num 0.0001) (lengthSq_js updatedDirection)
                                   then normalize_js updatedDirection else direction_js p) \<rparr>"
    by (simp add: strictSphereStep_js_def Let_def updatedDirection_def pos'_def ntp_def pos_def
          vel_def alpha_def swim_def tangentialVelocity_def currentRadial_def surfacePos_def
          sd_def)
  show ?thesis
    unfolding eq using pos' vel dir pt
    by (auto simp: finiteParticle_def intro: vmag_le_finite)
qed

text \<open>The head of the needle-sphere tick.\<close>

lemma vmag_le_palm:
  "moderateVector (palm h) \<Longrightarrow> vmag_le (10 ^ 30) (vector_js (palmVector h))"
  by (rule vmag_le_vector_js) (simp_all add: moderateVector_def palmVector_def MAX_VALUE_def)

lemma vmag_le_needleCenter_js:
  assumes "\<forall>h\<in>set hands. moderateVector (palm h)"
  shows "vmag_le (10 ^ 30) (needleCenter_js hands)"
proof -
  have zero: "vmag_le (10 ^ 30) (Vector3_js (Num 0) (Num 0) (Num 0))"
    by (simp add: vmag_le_def)
  have one: "vmag_le (10 ^ 30) (vector_js (palmVector (hands ! 0)))" if "length hands = 1"
    using that assms by (intro vmag_le_palm) (simp add: nth_mem)
  have two: "vmag_le (10 ^ 30)
               (multiplyScalar_js
                  (add_js (vector_js (palmVector (hands ! 0))) (vector_js (palmVector (hands ! 1))))
                  (Num 0.5))" if "length hands = 2"
  proof -
    from that have "hands ! 0 \<in> set hands" "hands ! 1 \<in> set hands"
      by (simp_all add: nth_mem)
    with assms have m: "moderateVector (palm (hands ! 0))" "moderateVector (palm (hands ! 1))"
      by blast+
    have a: "vmag_le (10 ^ 30) (vector_js (palmVector (hands ! 0)))"
      using m(1) by (rule vmag_le_palm)
    have b: "vmag_le (10 ^ 30) (vector_js (palmVector (hands ! 1)))"
      using m(2) by (rule vmag_le_palm)
    have h: "mag_le 0.5 (Num 0.5)" by simp
    have "vmag_le ((10 ^ 30 + 10 ^ 30) * 0.5)
            (multiplyScalar_js
               (add_js (vector_js (palmVector (hands ! 0))) (vector_js (palmVector (hands ! 1))))
               (Num 0.5))"
      by (rule vmag_le_scale [OF vmag_le_add [OF a b] h]) (simp_all add: MAX_VALUE_def)
    then show ?thesis by (rule vmag_le_mono) simp
  qed
  from zero one two show ?thesis by (simp add: needleCenter_js_def)
qed

lemma mag_le_needleHandDistance_js:
  assumes "\<forall>h\<in>set hands. moderateVector (palm h)"
  shows "mag_le (4 * 10 ^ 30) (needleHandDistance_js hands)"
proof -
  have two: "mag_le (4 * 10 ^ 30)
               (distanceTo_js (vector_js (palmVector (hands ! 0)))
                  (vector_js (palmVector (hands ! 1))))" if "length hands = 2"
  proof -
    from that have "hands ! 0 \<in> set hands" "hands ! 1 \<in> set hands"
      by (simp_all add: nth_mem)
    with assms have m: "moderateVector (palm (hands ! 0))" "moderateVector (palm (hands ! 1))"
      by blast+
    have a: "vmag_le (10 ^ 30) (vector_js (palmVector (hands ! 0)))"
      using m(1) by (rule vmag_le_palm)
    have b: "vmag_le (10 ^ 30) (vector_js (palmVector (hands ! 1)))"
      using m(2) by (rule vmag_le_palm)
    have "mag_le (2 * (10 ^ 30 + 10 ^ 30))
            (distanceTo_js (vector_js (palmVector (hands ! 0)))
               (vector_js (palmVector (hands ! 1))))"
      using a b by (rule mag_le_distanceTo_js) (simp add: MAX_VALUE_def)
    then show ?thesis by (rule mag_le_mono) simp
  qed
  then show ?thesis by (simp add: needleHandDistance_js_def)
qed

lemma mag_le_targetRadiusForParticle_js:
  assumes "moderateConfig cfg" "mag_le (4 * 10 ^ 30) handDistance"
  shows "mag_le (10 ^ 92) (targetRadiusForParticle_js cfg handDistance p)"
proof -
  from assms(1) have b: "mag_le (10 ^ 30) (number (nullish (baseRadius cfg) 8))"
    and s: "mag_le (10 ^ 30) (number (nullish (radiusHandScale cfg) 1.2))"
    and m: "mag_le (10 ^ 30) (number (nullish (outerRadiusMultiplier cfg) 1.8))"
    by (simp_all add: moderateConfig_def mag_le_number MAX_VALUE_def)
  have e: "mag_le (10 ^ 30 + 4 * 10 ^ 30 * 10 ^ 30) (effectiveRadius_js cfg handDistance)"
    unfolding effectiveRadius_js_def
    by (rule mag_le_plus [OF b mag_le_times [OF assms(2) s]]) (simp_all add: MAX_VALUE_def)
  have o: "mag_le (10 ^ 30) (if groupIndex_js p = 0 then Num 1
                             else number (nullish (outerRadiusMultiplier cfg) 1.8))"
    using m by simp
  have "mag_le ((10 ^ 30 + 4 * 10 ^ 30 * 10 ^ 30) * 10 ^ 30)
          (targetRadiusForParticle_js cfg handDistance p)"
    unfolding targetRadiusForParticle_js_def using e o
    by (rule mag_le_times) (simp add: MAX_VALUE_def)
  then show ?thesis by (rule mag_le_mono) simp
qed

lemma mag_le_phase_js:
  assumes "real i \<le> 10 ^ 30" "\<bar>now\<bar> \<le> 10 ^ 30" "\<bar>rate\<bar> \<le> 1"
  shows "mag_le (10 ^ 30 * 0.01 + 10 ^ 30 * 0.001 * 1) (phase_js i now rate)"
proof -
  have i: "mag_le (10 ^ 30) (number (real i))"
    using assms(1) by (simp add: mag_le_number MAX_VALUE_def)
  have n: "mag_le (10 ^ 30) (number now)"
    using assms(2) by (simp add: mag_le_number MAX_VALUE_def)
  have k: "mag_le 0.01 (Num 0.01)" "mag_le 0.001 (Num 0.001)" "mag_le 1 (Num rate)"
    using assms(3) by simp_all
  show ?thesis
    unfolding phase_js_def
    by (rule mag_le_plus [OF mag_le_times [OF i k(1)]
              mag_le_times [OF mag_le_times [OF n k(2)] k(3)]])
       (simp_all add: MAX_VALUE_def)
qed

lemma in_set_enumerate_map:
  assumes "q \<in> set (map (\<lambda>(i, p). f i p) (enumerate 0 ps))"
  shows "\<exists>i<length ps. q = f i (ps ! i)"
proof -
  from assms obtain k where k: "k < length (enumerate 0 ps)"
    and q: "q = (\<lambda>(i, p). f i p) (enumerate 0 ps ! k)"
    by (auto simp: in_set_conv_nth)
  from k have "k < length ps" by simp
  moreover from this q have "q = f k (ps ! k)" by (simp add: nth_enumerate_eq)
  ultimately show ?thesis by blast
qed

lemma updateNeedleSphere_js_finite:
  assumes "moderateInputs cfg hands now deltaTime ps"
    and "q \<in> set (updateNeedleSphere_js cfg hands now deltaTime ps)"
  shows "finiteParticle q"
proof -
  from assms(2) obtain i where i: "i < length ps"
    and q: "q = sphereStep_js (needleCenter_js hands)
              (targetRadiusForParticle_js cfg (needleHandDistance_js hands) (ps ! i))
              (Num 4.0) (phase_js i now 0.4) (number deltaTime) (ps ! i)"
    unfolding updateNeedleSphere_js_def by (blast dest: in_set_enumerate_map)
  from assms(1) have cfg: "moderateConfig cfg" and hands: "\<forall>h\<in>set hands. moderateVector (palm h)"
    and now: "\<bar>now\<bar> \<le> 10 ^ 30" and dt: "\<bar>deltaTime\<bar> \<le> 10 ^ 30"
    and n: "real (length ps) \<le> 10 ^ 30" and ps: "\<forall>p\<in>set ps. moderateParticle p"
    by (simp_all add: moderateInputs_def)
  from i n have ri: "real i \<le> 10 ^ 30" by simp
  show ?thesis
    unfolding q
  proof (rule sphereStep_js_finite)
    show "vmag_le (10 ^ 30) (needleCenter_js hands)"
      using hands by (rule vmag_le_needleCenter_js)
    show "mag_le (10 ^ 92)
            (targetRadiusForParticle_js cfg (needleHandDistance_js hands) (ps ! i))"
      using cfg mag_le_needleHandDistance_js [OF hands]
      by (rule mag_le_targetRadiusForParticle_js)
    show "mag_le 8 (Num 4.0)" by simp
    show "mag_le (10 ^ 30 * 0.01 + 10 ^ 30 * 0.001 * 1) (phase_js i now 0.4)"
      using ri now by (rule mag_le_phase_js) simp
    show "mag_le (10 ^ 30) (number deltaTime)"
      using dt by (simp add: mag_le_number MAX_VALUE_def)
    show "moderateParticle (ps ! i)" using ps i by simp
  qed
qed

declare nearestLoop_js.simps [simp del] reassignLoop_js.simps [simp del]

lemma nearestLoop_js_range:
  "nearestIndex < length centers
   \<Longrightarrow> nearestLoop_js centers pos j nearestIndex minDist < length centers"
proof (induction centers pos j nearestIndex minDist rule: nearestLoop_js.induct)
  case (1 centers pos j nearestIndex minDist)
  show ?case
  proof (cases "j < length centers")
    case False
    with 1(3) show ?thesis by (simp add: nearestLoop_js.simps [of centers pos j])
  next
    case True
    show ?thesis
    proof (cases "less_js (distanceTo_js pos (centers ! j)) minDist")
      case less: True
      have "nearestLoop_js centers pos (j + 1) j (distanceTo_js pos (centers ! j))
            < length centers"
        using True less by (intro 1(1)) simp_all
      with True less show ?thesis
        by (simp add: nearestLoop_js.simps [of centers pos j] Let_def)
    next
      case nless: False
      have "nearestLoop_js centers pos (j + 1) nearestIndex minDist < length centers"
        using True nless 1(3) by (intro 1(2)) simp_all
      with True nless show ?thesis
        by (simp add: nearestLoop_js.simps [of centers pos j] Let_def)
    qed
  qed
qed

lemma reassignLoop_js_range:
  "reassignLoop_js centers pos assigned currentDist j = Some k \<Longrightarrow> k < length centers"
proof (induction centers pos assigned currentDist j rule: reassignLoop_js.induct)
  case (1 centers pos assigned currentDist j)
  note step = reassignLoop_js.simps [of centers pos assigned currentDist j]
  show ?case
  proof (cases "j < length centers")
    case False
    with 1(3) show ?thesis unfolding step by simp
  next
    case True
    show ?thesis
    proof (cases "j = assigned")
      case same: True
      from 1(3) have "reassignLoop_js centers pos assigned currentDist (j + 1) = Some k"
        unfolding step using True same by (simp del: One_nat_def)
      with True same show ?thesis by (intro 1(1)) simp_all
    next
      case other: False
      show ?thesis
      proof (cases "less_js (distanceTo_js pos (centers ! j)) (times_js currentDist (Num 0.8))")
        case True
        from 1(3) show ?thesis
          unfolding step using \<open>j < length centers\<close> other True by simp
      next
        case False
        from 1(3) have "reassignLoop_js centers pos assigned currentDist (j + 1) = Some k"
          unfolding step using \<open>j < length centers\<close> other False by simp
        with \<open>j < length centers\<close> other False show ?thesis by (intro 1(2)) simp_all
      qed
    qed
  qed
qed

lemma assignCenter_js_valid:
  assumes "centers \<noteq> []"
  shows "\<exists>k<length centers. assignedCenterIndex_js (assignCenter_js centers p) = Some k"
proof -
  from assms have pos: "0 < length centers" by simp
  have near: "nearestLoop_js centers (position_js p) 0 0 PInf < length centers"
    using pos by (rule nearestLoop_js_range)
  show ?thesis
  proof (cases "assignedCenterIndex_js p")
    case None
    with near show ?thesis by (simp add: assignCenter_js_def)
  next
    case (Some assigned)
    show ?thesis
    proof (cases "assigned \<ge> length centers")
      case True
      with Some near show ?thesis by (simp add: assignCenter_js_def)
    next
      case False
      show ?thesis
      proof (cases "reassignLoop_js centers (position_js p) assigned
                      (distanceTo_js (position_js p) (centers ! assigned)) 0")
        case None
        with Some False show ?thesis by (simp add: assignCenter_js_def)
      next
        case (Some k)
        from reassignLoop_js_range [OF this] Some \<open>assignedCenterIndex_js p = Some assigned\<close> False
        show ?thesis by (simp add: assignCenter_js_def)
      qed
    qed
  qed
qed

lemma assignCenter_js_fields:
  "position_js (assignCenter_js centers p) = position_js p"
  "velocity_js (assignCenter_js centers p) = velocity_js p"
  "direction_js (assignCenter_js centers p) = direction_js p"
  "targetPosition_js (assignCenter_js centers p) = targetPosition_js p"
  "groupIndex_js (assignCenter_js centers p) = groupIndex_js p"
  by (simp_all add: assignCenter_js_def split: option.splits)

lemma moderate_assignCenter_js:
  "moderateParticle p \<Longrightarrow> moderateParticle (assignCenter_js centers p)"
  by (simp add: moderateParticle_def assignCenter_js_fields)

lemma range_js_Num [simp]: "range_js lo hi (Num r) = (lo \<le> r \<and> r \<le> hi)"
  by (simp add: range_js_def)

lemma range_jsE:
  "range_js lo hi x \<Longrightarrow> (\<And>r. x = Num r \<Longrightarrow> lo \<le> r \<Longrightarrow> r \<le> hi \<Longrightarrow> P) \<Longrightarrow> P"
  by (cases x) (simp_all add: range_js_def)

lemma number_id: "MIN_VALUE \<le> \<bar>r\<bar> \<Longrightarrow> \<bar>r\<bar> \<le> MAX_VALUE \<Longrightarrow> number r = Num r"
  by (auto simp: number_def)

lemma MIN_VALUE_le_tenth: "MIN_VALUE \<le> 1 / 10"
  by (simp add: MIN_VALUE_def)

lemma mag_le_divide:
  assumes "mag_le a x" "range_js lo hi y" "0 < lo" "a / lo \<le> MAX_VALUE"
  shows "mag_le (a / lo) (divide_js x y)"
proof -
  from assms(1) obtain r where x: "x = Num r" and r: "\<bar>r\<bar> \<le> a" by (rule mag_leE)
  from assms(2) obtain d where y: "y = Num d" and d: "lo \<le> d" by (rule range_jsE)
  from d assms(3) have dpos: "0 < d" by linarith
  have "\<bar>r / d\<bar> = \<bar>r\<bar> / d" using dpos by simp
  also have "\<dots> \<le> a / d" using r dpos by (simp add: divide_right_mono)
  also have "\<dots> \<le> a / lo"
  proof (rule divide_left_mono)
    show "lo \<le> d" by (rule d)
    show "0 \<le> a" using r by linarith
    show "0 < d * lo" using dpos assms(3) by (rule mult_pos_pos)
  qed
  finally have "\<bar>r / d\<bar> \<le> a / lo" .
  then have "mag_le (a / lo) (number (r / d))"
    using assms(4) by (rule mag_le_number)
  with dpos show ?thesis by (simp add: x y)
qed

lemma max_js_Num: "max_js (Num a) (Num b) = Num (max a b)"
  by (simp add: max_js_def max_def)

lemma min_js_Num: "min_js (Num a) (Num b) = Num (min a b)"
  by (simp add: min_js_def min_def)

lemma mag_le_uminus: "mag_le a x \<Longrightarrow> mag_le a (uminus_js x)"
  by (erule mag_leE) simp

lemma range_js_mag_le: "range_js lo hi x \<Longrightarrow> - hi \<le> lo \<Longrightarrow> mag_le hi x"
  by (erule range_jsE) simp

lemma range_js_swarmSphereRadius_js:
  assumes "\<forall>c\<in>set centers. vmag_le (10 ^ 30) c"
  shows "range_js 6 (10 ^ 31) (swarmSphereRadius_js centers)"
proof (cases "length centers \<ge> 2")
  case False
  then show ?thesis by (simp add: swarmSphereRadius_js_def)
next
  case True
  then have l: "0 < length centers" "1 < length centers" by linarith+
  have "centers ! 0 \<in> set centers" "centers ! 1 \<in> set centers"
    using nth_mem [OF l(1)] nth_mem [OF l(2)] by blast+
  with assms have c: "vmag_le (10 ^ 30) (centers ! 0)" "vmag_le (10 ^ 30) (centers ! 1)"
    by blast+
  have hm: "mag_le (2 * (10 ^ 30 + 10 ^ 30)) (distanceTo_js (centers ! 0) (centers ! 1))"
    using c by (rule mag_le_distanceTo_js) (simp add: MAX_VALUE_def)
  have k: "mag_le 6 (Num 6)" "mag_le 0.25 (Num 0.25)" "mag_le 0.33 (Num 0.33)" by simp_all
  have "mag_le (6 + 2 * (10 ^ 30 + 10 ^ 30) * 0.25)
          (plus_js (Num 6) (times_js (distanceTo_js (centers ! 0) (centers ! 1)) (Num 0.25)))"
    by (rule mag_le_plus [OF k(1) mag_le_times [OF hm k(2)]]) (simp_all add: MAX_VALUE_def)
  then obtain a where
    a: "plus_js (Num 6) (times_js (distanceTo_js (centers ! 0) (centers ! 1)) (Num 0.25)) = Num a"
    and ab: "\<bar>a\<bar> \<le> 6 + 2 * (10 ^ 30 + 10 ^ 30) * 0.25"
    by (rule mag_leE)
  have "mag_le (2 * (10 ^ 30 + 10 ^ 30) * 0.33)
          (times_js (distanceTo_js (centers ! 0) (centers ! 1)) (Num 0.33))"
    by (rule mag_le_times [OF hm k(3)]) (simp add: MAX_VALUE_def)
  then obtain b where b: "times_js (distanceTo_js (centers ! 0) (centers ! 1)) (Num 0.33) = Num b"
    and bb: "\<bar>b\<bar> \<le> 2 * (10 ^ 30 + 10 ^ 30) * 0.33"
    by (rule mag_leE)
  have "swarmSphereRadius_js centers = Num (max 6 (min a b))"
    using True a b
    by (simp add: swarmSphereRadius_js_def Let_def max_js_Num min_js_Num
          del: plus_js.simps times_js.simps)
  moreover have "max 6 (min a b) \<le> 10 ^ 31" using ab bb by simp
  ultimately show ?thesis by simp
qed

lemma range_js_shell:
  assumes "range_js 6 (10 ^ 31) sphereRadius"
  shows "range_js 6 (10 ^ 32) (times_js sphereRadius (if g then Num 1 else Num 1.8))"
proof -
  from assms obtain r where x: "sphereRadius = Num r" and r: "6 \<le> r" "r \<le> 10 ^ 31"
    by (rule range_jsE)
  have "MIN_VALUE \<le> \<bar>r\<bar>" "\<bar>r\<bar> \<le> MAX_VALUE"
    using r MIN_VALUE_le_1 by (simp_all add: MAX_VALUE_def)
  then have one: "number r = Num r" by (rule number_id)
  have "MIN_VALUE \<le> \<bar>r * 1.8\<bar>" "\<bar>r * 1.8\<bar> \<le> MAX_VALUE"
    using r MIN_VALUE_le_1 by (simp_all add: MAX_VALUE_def)
  then have two: "number (r * 1.8) = Num (r * 1.8)" by (rule number_id)
  show ?thesis
  proof (cases g)
    case True
    with one r show ?thesis by (simp add: x)
  next
    case False
    have "times_js (Num r) (Num 1.8) = Num (r * 1.8)"
      unfolding times_js.simps by (rule two)
    with False r show ?thesis by (simp add: x del: times_js.simps)
  qed
qed

lemma vmag_le_gravitationalForce_js:
  assumes n: "vmag_le (2 * 10 ^ 30) toCenter" and d: "mag_le (4 * 10 ^ 30) dst"
    and t: "range_js 6 (10 ^ 32) targetRadius"
  shows "vmag_le (10 ^ 34) (gravitationalForce_js toCenter dst targetRadius)"
proof -
  from t obtain r where R: "targetRadius = Num r" and r: "6 \<le> r" "r \<le> 10 ^ 32"
    by (rule range_jsE)
  from d obtain e where D: "dst = Num e" and e: "\<bar>e\<bar> \<le> 4 * 10 ^ 30"
    by (rule mag_leE)
  have tm: "mag_le (10 ^ 32) targetRadius" using r by (simp add: R)
  have "MIN_VALUE \<le> \<bar>r * 0.3\<bar>" "\<bar>r * 0.3\<bar> \<le> MAX_VALUE"
    using r MIN_VALUE_le_1 by (simp_all add: MAX_VALUE_def)
  then have "number (r * 0.3) = Num (r * 0.3)" by (rule number_id)
  then have core: "times_js targetRadius (Num 0.3) = Num (r * 0.3)"
    unfolding R times_js.simps .
  have cr: "range_js 1.8 (10 ^ 32) (times_js targetRadius (Num 0.3))"
    using r by (simp add: core)
  have cm: "mag_le (10 ^ 32) (times_js targetRadius (Num 0.3))"
    using r by (simp add: core)
  have "MIN_VALUE \<le> \<bar>r + - (r * 0.3)\<bar>" "\<bar>r + - (r * 0.3)\<bar> \<le> MAX_VALUE"
    using r MIN_VALUE_le_1 by (simp_all add: MAX_VALUE_def)
  then have "number (r + - (r * 0.3)) = Num (r + - (r * 0.3))" by (rule number_id)
  then have "minus_js targetRadius (times_js targetRadius (Num 0.3)) = Num (r + - (r * 0.3))"
    unfolding core unfolding R minus_js_def uminus_js.simps plus_js.simps .
  then have den: "range_js 4.2 (10 ^ 32)
                    (minus_js targetRadius (times_js targetRadius (Num 0.3)))"
    using r by simp
  have "e \<le> 10 ^ 32" using e by simp
  with r have "6 \<le> max e r" "max e r \<le> 10 ^ 32" by (simp_all add: max_def)
  then have mx: "range_js 6 (10 ^ 32) (max_js dst targetRadius)"
    by (simp add: R D max_js_Num del: max.bounded_iff)
  have k: "mag_le 1 (Num 1)" "mag_le 25 (Num 25)" "mag_le 1.5 (Num 1.5)" "mag_le 0.5 (Num 0.5)"
    "mag_le 0.3 (Num 0.3)"
    by simp_all
  have nn: "vmag_le 1 (normalize_js toCenter)"
    using n by (rule vmag_le_normalize_js) (simp add: MAX_VALUE_def)
  have q1: "mag_le (10 ^ 32 / 6) (divide_js targetRadius (max_js dst targetRadius))"
    using tm mx by (rule mag_le_divide) (simp_all add: MAX_VALUE_def)
  have s1: "mag_le (25 * (1 + 10 ^ 32 / 6) * 1.5)
              (times_js (times_js (Num 25)
                 (minus_js (Num 1) (divide_js targetRadius (max_js dst targetRadius))))
                 (Num 1.5))"
    by (rule mag_le_times [OF mag_le_times [OF k(2) mag_le_minus [OF k(1) q1]] k(3)])
       (simp_all add: MAX_VALUE_def)
  have f1: "vmag_le (1 * (25 * (1 + 10 ^ 32 / 6) * 1.5))
              (multiplyScalar_js (normalize_js toCenter)
                 (times_js (times_js (Num 25)
                    (minus_js (Num 1) (divide_js targetRadius (max_js dst targetRadius))))
                    (Num 1.5)))"
    using nn s1 by (rule vmag_le_scale) (simp add: MAX_VALUE_def)
  have q2: "mag_le (4 * 10 ^ 30 / 1.8) (divide_js dst (times_js targetRadius (Num 0.3)))"
    using d cr by (rule mag_le_divide) (simp_all add: MAX_VALUE_def)
  have s2: "mag_le (25 * 0.5 * (1 + 4 * 10 ^ 30 / 1.8))
              (uminus_js (times_js (times_js (Num 25) (Num 0.5))
                 (minus_js (Num 1) (divide_js dst (times_js targetRadius (Num 0.3))))))"
    by (rule mag_le_uminus
          [OF mag_le_times [OF mag_le_times [OF k(2) k(4)] mag_le_minus [OF k(1) q2]]])
       (simp_all add: MAX_VALUE_def)
  have f2: "vmag_le (1 * (25 * 0.5 * (1 + 4 * 10 ^ 30 / 1.8)))
              (multiplyScalar_js (normalize_js toCenter)
                 (uminus_js (times_js (times_js (Num 25) (Num 0.5))
                    (minus_js (Num 1) (divide_js dst (times_js targetRadius (Num 0.3)))))))"
    using nn s2 by (rule vmag_le_scale) (simp add: MAX_VALUE_def)
  have q3: "mag_le ((4 * 10 ^ 30 + 10 ^ 32) / 4.2)
              (divide_js (minus_js dst (times_js targetRadius (Num 0.3)))
                 (minus_js targetRadius (times_js targetRadius (Num 0.3))))"
    by (rule mag_le_divide [OF mag_le_minus [OF d cm] den]) (simp_all add: MAX_VALUE_def)
  have s3: "mag_le (25 * 0.3 * (1 + (4 * 10 ^ 30 + 10 ^ 32) / 4.2))
              (times_js (times_js (Num 25) (Num 0.3))
                 (minus_js (Num 1)
                    (divide_js (minus_js dst (times_js targetRadius (Num 0.3)))
                       (minus_js targetRadius (times_js targetRadius (Num 0.3))))))"
    by (rule mag_le_times [OF mag_le_times [OF k(2) k(5)] mag_le_minus [OF k(1) q3]])
       (simp_all add: MAX_VALUE_def)
  have f3: "vmag_le (1 * (25 * 0.3 * (1 + (4 * 10 ^ 30 + 10 ^ 32) / 4.2)))
              (multiplyScalar_js (normalize_js toCenter)
                 (times_js (times_js (Num 25) (Num 0.3))
                    (minus_js (Num 1)
                       (divide_js (minus_js dst (times_js targetRadius (Num 0.3)))
                          (minus_js targetRadius (times_js targetRadius (Num 0.3)))))))"
    using nn s3 by (rule vmag_le_scale) (simp add: MAX_VALUE_def)
  have z: "vmag_le (10 ^ 34) (Vector3_js (Num 0) (Num 0) (Num 0))"
    by (simp add: vmag_le_def)
  note g = vmag_le_mono [OF f1, of "10 ^ 34"] vmag_le_mono [OF f2, of "10 ^ 34"]
    vmag_le_mono [OF f3, of "10 ^ 34"]
  have g1: "vmag_le (10 ^ 34)
              (multiplyScalar_js (normalize_js toCenter)
                 (times_js (times_js (Num 25)
                    (minus_js (Num 1) (divide_js targetRadius (max_js dst targetRadius))))
                    (Num 1.5)))"
    by (rule g(1)) simp
  have g2: "vmag_le (10 ^ 34)
              (multiplyScalar_js (normalize_js toCenter)
                 (uminus_js (times_js (times_js (Num 25) (Num 0.5))
                    (minus_js (Num 1) (divide_js dst (times_js targetRadius (Num 0.3)))))))"
    by (rule g(2)) simp
  have g3: "vmag_le (10 ^ 34)
              (multiplyScalar_js (normalize_js toCenter)
                 (times_js (times_js (Num 25) (Num 0.3))
                    (minus_js (Num 1)
                       (divide_js (minus_js dst (times_js targetRadius (Num 0.3)))
                          (minus_js targetRadius (times_js targetRadius (Num 0.3)))))))"
    by (rule g(3)) simp
  show ?thesis
    unfolding gravitationalForce_js_def Let_def
    using g1 g2 g3 z by (simp del: times_js.simps)
qed

lemma swarmMotion_js_finite:
  assumes c: "vmag_le (10 ^ 30) center" and r: "mag_le (10 ^ 32) targetRadius"
    and f: "vmag_le (10 ^ 34) force" and ph: "mag_le b phase"
    and dt: "mag_le (10 ^ 30) deltaTime" and p: "moderateParticle p"
  shows "case swarmMotion_js center targetRadius force phase deltaTime p of
           (pos, vel, target) \<Rightarrow> finiteVector pos \<and> finiteVector vel \<and> finiteVector target"
proof -
  from p have pp: "vmag_le (10 ^ 30) (position_js p)" and pv: "vmag_le (10 ^ 30) (velocity_js p)"
    and pd: "vmag_le (10 ^ 30) (direction_js p)"
    and pt: "case targetPosition_js p of None \<Rightarrow> True | Some t \<Rightarrow> vmag_le (10 ^ 30) t"
    by (simp_all add: moderateParticle_def)
  define vel1 where "vel1 = add_js (velocity_js p) (multiplyScalar_js force deltaTime)"
  have "vmag_le (10 ^ 30 + 10 ^ 34 * 10 ^ 30) vel1"
    unfolding vel1_def
    by (rule vmag_le_add [OF pv vmag_le_scale [OF f dt]]) (simp_all add: MAX_VALUE_def)
  then have vel1: "vmag_le (10 ^ 65) vel1" by (rule vmag_le_mono) simp
  define sd where "sd = toSurface_js center p"
  have sd: "vmag_le 1 sd"
    unfolding sd_def
    by (rule vmag_le_toSurface_js [OF vmag_le_mono [OF pp] c pd]) simp
  define targetPos where "targetPos = add_js (multiplyScalar_js sd targetRadius) center"
  have "vmag_le (1 * 10 ^ 32 + 10 ^ 30) targetPos"
    unfolding targetPos_def
    by (rule vmag_le_add [OF vmag_le_scale [OF sd r] c]) (simp_all add: MAX_VALUE_def)
  then have targetPos: "vmag_le (10 ^ 33) targetPos" by (rule vmag_le_mono) simp
  define target where
    "target = (case targetPosition_js p of None \<Rightarrow> targetPos
               | Some t \<Rightarrow> lerp_js t targetPos (Num 0.3))"
  have target: "vmag_le (10 ^ 33) target"
  proof (cases "targetPosition_js p")
    case None
    with targetPos show ?thesis by (simp add: target_def)
  next
    case (Some t)
    with pt have t: "vmag_le (10 ^ 30) t" by simp
    have k: "mag_le 0.3 (Num 0.3)" by simp
    have "vmag_le (10 ^ 30 + (10 ^ 33 + 10 ^ 30) * 0.3) (lerp_js t targetPos (Num 0.3))"
      using t targetPos k by (rule vmag_le_lerp) (simp_all add: MAX_VALUE_def)
    then have "vmag_le (10 ^ 33) (lerp_js t targetPos (Num 0.3))"
      by (rule vmag_le_mono) simp
    with Some show ?thesis by (simp add: target_def)
  qed
  define pos1 where "pos1 = add_js (position_js p) (multiplyScalar_js vel1 deltaTime)"
  have "vmag_le (10 ^ 30 + 10 ^ 65 * 10 ^ 30) pos1"
    unfolding pos1_def
    by (rule vmag_le_add [OF pp vmag_le_scale [OF vel1 dt]]) (simp_all add: MAX_VALUE_def)
  then have pos1: "vmag_le (10 ^ 96) pos1" by (rule vmag_le_mono) simp
  have k45: "mag_le (0.3 * 1.5) (times_js (Num 0.3) (Num 1.5))"
    by (rule mag_le_times) (simp_all add: MAX_VALUE_def)
  define pos2 where "pos2 = lerp_js pos1 target (times_js (Num 0.3) (Num 1.5))"
  have "vmag_le (10 ^ 96 + (10 ^ 33 + 10 ^ 96) * (0.3 * 1.5)) pos2"
    unfolding pos2_def using pos1 target k45
    by (rule vmag_le_lerp) (simp_all add: MAX_VALUE_def)
  then have pos2: "vmag_le (10 ^ 97) pos2" by (rule vmag_le_mono) simp
  define toCurrent where "toCurrent = sub_js pos2 center"
  have toCurrent: "vmag_le (10 ^ 97 + 10 ^ 30) toCurrent"
    unfolding toCurrent_def using pos2 c by (rule vmag_le_sub) (simp add: MAX_VALUE_def)
  have n1: "vmag_le 1 (normalize_js toCurrent)"
    using toCurrent by (rule vmag_le_normalize_js) (simp add: MAX_VALUE_def)
  define proj1 where
    "proj1 = add_js (multiplyScalar_js (normalize_js toCurrent) targetRadius) center"
  have "vmag_le (1 * 10 ^ 32 + 10 ^ 30) proj1"
    unfolding proj1_def
    by (rule vmag_le_add [OF vmag_le_scale [OF n1 r] c]) (simp_all add: MAX_VALUE_def)
  then have proj1: "vmag_le (10 ^ 33) proj1" by (rule vmag_le_mono) simp
  define pos3 where
    "pos3 = (if less_js (Num 0.01) (lengthSq_js toCurrent)
                \<and> less_js (Num 2.0) (abs_js (minus_js (length_js toCurrent) targetRadius))
             then lerp_js pos2 proj1 (Num 0.1) else pos2)"
  have k01: "mag_le 0.1 (Num 0.1)" by simp
  have "vmag_le (10 ^ 97 + (10 ^ 33 + 10 ^ 97) * 0.1) (lerp_js pos2 proj1 (Num 0.1))"
    using pos2 proj1 k01 by (rule vmag_le_lerp) (simp_all add: MAX_VALUE_def)
  then have "vmag_le (10 ^ 98) (lerp_js pos2 proj1 (Num 0.1))" by (rule vmag_le_mono) simp
  moreover have "vmag_le (10 ^ 98) pos2" using pos2 by (rule vmag_le_mono) simp
  ultimately have pos3: "vmag_le (10 ^ 98) pos3" by (simp add: pos3_def)
  define radial where "radial = normalize_js (sub_js pos3 center)"
  have "vmag_le (10 ^ 98 + 10 ^ 30) (sub_js pos3 center)"
    using pos3 c by (rule vmag_le_sub) (simp add: MAX_VALUE_def)
  then have radial: "vmag_le 1 radial"
    unfolding radial_def by (rule vmag_le_normalize_js) (simp add: MAX_VALUE_def)
  define swim where "swim = swimDirection_js radial phase (Num 8.0)"
  have k8: "mag_le 8 (Num 8.0)" by simp
  have swim: "vmag_le 16 swim"
    unfolding swim_def using radial ph k8 by (rule vmag_le_swimDirection_js)
  have a4: "mag_le (10 ^ 30 * 4) (times_js deltaTime (Num 4.0))"
    using dt by (rule mag_le_times) (simp_all add: MAX_VALUE_def)
  have k96: "mag_le 0.96 (Num 0.96)" by simp
  define vel2 where
    "vel2 = multiplyScalar_js (lerp_js vel1 swim (times_js deltaTime (Num 4.0))) (Num 0.96)"
  have "vmag_le ((10 ^ 65 + (16 + 10 ^ 65) * (10 ^ 30 * 4)) * 0.96) vel2"
    unfolding vel2_def
    by (rule vmag_le_scale [OF vmag_le_lerp [OF vel1 swim a4] k96])
       (simp_all add: MAX_VALUE_def)
  then have vel2: "vmag_le (10 ^ 97) vel2" by (rule vmag_le_mono) simp
  have k25: "mag_le 25 (Num 25.0)" by simp
  have "vmag_le 1 (normalize_js vel2)"
    using vel2 by (rule vmag_le_normalize_js) (simp add: MAX_VALUE_def)
  then have "vmag_le (1 * 25) (multiplyScalar_js (normalize_js vel2) (Num 25.0))"
    using k25 by (rule vmag_le_scale) (simp add: MAX_VALUE_def)
  then have clamp: "vmag_le (10 ^ 97) (multiplyScalar_js (normalize_js vel2) (Num 25.0))"
    by (rule vmag_le_mono) simp
  define vel3 where
    "vel3 = (if less_js (Num 25.0) (length_js vel2)
             then multiplyScalar_js (normalize_js vel2) (Num 25.0) else vel2)"
  have vel3: "vmag_le (10 ^ 97) vel3"
    using clamp vel2 by (simp add: vel3_def)
  define pos4 where "pos4 = add_js pos3 (multiplyScalar_js vel3 deltaTime)"
  have "vmag_le (10 ^ 98 + 10 ^ 97 * 10 ^ 30) pos4"
    unfolding pos4_def
    by (rule vmag_le_add [OF pos3 vmag_le_scale [OF vel3 dt]]) (simp_all add: MAX_VALUE_def)
  then have pos4: "vmag_le (10 ^ 128) pos4" by (rule vmag_le_mono) simp
  define newToSurface where "newToSurface = sub_js pos4 center"
  have newToSurface: "vmag_le (10 ^ 128 + 10 ^ 30) newToSurface"
    unfolding newToSurface_def using pos4 c by (rule vmag_le_sub) (simp add: MAX_VALUE_def)
  have n2: "vmag_le 1 (normalize_js newToSurface)"
    using newToSurface by (rule vmag_le_normalize_js) (simp add: MAX_VALUE_def)
  define proj2 where
    "proj2 = add_js (multiplyScalar_js (normalize_js newToSurface) targetRadius) center"
  have "vmag_le (1 * 10 ^ 32 + 10 ^ 30) proj2"
    unfolding proj2_def
    by (rule vmag_le_add [OF vmag_le_scale [OF n2 r] c]) (simp_all add: MAX_VALUE_def)
  then have proj2: "vmag_le (10 ^ 33) proj2" by (rule vmag_le_mono) simp
  define far where
    "far = (less_js (Num 0.01) (lengthSq_js newToSurface)
            \<and> less_js (Num 0.5) (abs_js (minus_js (length_js newToSurface) targetRadius)))"
  have k02: "mag_le 0.2 (Num 0.2)" by simp
  define pos5 where "pos5 = (if far then lerp_js pos4 proj2 (Num 0.2) else pos4)"
  have "vmag_le (10 ^ 128 + (10 ^ 33 + 10 ^ 128) * 0.2) (lerp_js pos4 proj2 (Num 0.2))"
    using pos4 proj2 k02 by (rule vmag_le_lerp) (simp_all add: MAX_VALUE_def)
  then have "vmag_le (10 ^ 129) (lerp_js pos4 proj2 (Num 0.2))" by (rule vmag_le_mono) simp
  moreover have "vmag_le (10 ^ 129) pos4" using pos4 by (rule vmag_le_mono) simp
  ultimately have pos5: "vmag_le (10 ^ 129) pos5" by (simp add: pos5_def)
  have eq: "swarmMotion_js center targetRadius force phase deltaTime p
            = (pos5, vel3, if far then pos5 else target)"
    unfolding swarmMotion_js_def Let_def pos5_def far_def proj2_def newToSurface_def
      pos4_def vel3_def vel2_def swim_def radial_def pos3_def proj1_def toCurrent_def
      pos2_def pos1_def target_def targetPos_def sd_def vel1_def
    by (rule refl)
  show ?thesis
    unfolding eq using pos5 vel3 target by (auto intro: vmag_le_finite)
qed

lemma swarmStep_js_finite:
  assumes cs: "\<forall>c\<in>set centers. vmag_le (10 ^ 30) c"
    and k: "assignedCenterIndex_js p = Some k" "k < length centers"
    and sr: "range_js 6 (10 ^ 31) sphereRadius"
    and i: "real i \<le> 10 ^ 30" and now: "\<bar>now\<bar> \<le> 10 ^ 30"
    and dt: "mag_le (10 ^ 30) deltaTime" and p: "moderateParticle p"
  shows "\<exists>q. swarmStep_js centers sphereRadius now deltaTime i p = Inr q \<and> finiteParticle q"
proof -
  define center where "center = centers ! k"
  from k(2) cs have c: "vmag_le (10 ^ 30) center"
    unfolding center_def using nth_mem by blast
  define targetRadius where
    "targetRadius = times_js sphereRadius (if groupIndex_js p = 0 then Num 1 else Num 1.8)"
  have tr: "range_js 6 (10 ^ 32) targetRadius"
    unfolding targetRadius_def using sr by (rule range_js_shell)
  then have tm: "mag_le (10 ^ 32) targetRadius"
    by (rule range_js_mag_le) simp
  from p have pp: "vmag_le (10 ^ 30) (position_js p)"
    and pd: "vmag_le (10 ^ 30) (direction_js p)"
    by (simp_all add: moderateParticle_def)
  have "vmag_le (10 ^ 30 + 10 ^ 30) (sub_js center (position_js p))"
    using c pp by (rule vmag_le_sub) (simp add: MAX_VALUE_def)
  then have tc: "vmag_le (2 * 10 ^ 30) (sub_js center (position_js p))"
    by (rule vmag_le_mono) simp
  have "mag_le (2 * (2 * 10 ^ 30)) (length_js (sub_js center (position_js p)))"
    using tc by (rule mag_le_length_js) (simp add: MAX_VALUE_def)
  then have d: "mag_le (4 * 10 ^ 30) (length_js (sub_js center (position_js p)))"
    by (rule mag_le_mono) simp
  define force where
    "force = gravitationalForce_js (sub_js center (position_js p))
               (length_js (sub_js center (position_js p))) targetRadius"
  have force: "vmag_le (10 ^ 34) force"
    unfolding force_def using tc d tr by (rule vmag_le_gravitationalForce_js)
  have ph: "mag_le (10 ^ 30 * 0.01 + 10 ^ 30 * 0.001 * 1) (phase_js i now 0.5)"
    using i now by (rule mag_le_phase_js) simp
  note m = swarmMotion_js_finite [OF c tm force ph dt p]
  obtain pos vel target where
    s: "swarmMotion_js center targetRadius force (phase_js i now 0.5) deltaTime p
        = (pos, vel, target)"
    by (cases "swarmMotion_js center targetRadius force (phase_js i now 0.5) deltaTime p")
  with m have fin: "finiteVector pos" "finiteVector vel" "finiteVector target" by simp_all
  have "swarmStep_js centers sphereRadius now deltaTime i p
        = Inr (p \<lparr> position_js := pos, velocity_js := vel, targetPosition_js := Some target \<rparr>)"
    unfolding swarmStep_js_def centerAt_js_def bindE_def
    using k s
    by (simp add: center_def [symmetric] targetRadius_def [symmetric] force_def [symmetric]
          del: times_js.simps)
  moreover have "finiteParticle
      (p \<lparr> position_js := pos, velocity_js := vel, targetPosition_js := Some target \<rparr>)"
    using fin pd by (simp add: finiteParticle_def vmag_le_finite)
  ultimately show ?thesis by blast
qed

lemma strictSwarmStep_js_finite:
  assumes c: "vmag_le (10 ^ 30) center" and r: "mag_le (10 ^ 92) radius"
    and sp: "mag_le 8 swimSpeed" and ph: "mag_le b phase" and dt: "mag_le (10 ^ 30) deltaTime"
    and p: "moderateParticle p"
  shows "finiteParticle (strictSwarmStep_js center radius swimSpeed phase deltaTime p)"
proof -
  from p have pp: "vmag_le (10 ^ 30) (position_js p)" and pv: "vmag_le (10 ^ 30) (velocity_js p)"
    and pd: "vmag_le (10 ^ 30) (direction_js p)"
    and pt: "case targetPosition_js p of None \<Rightarrow> True | Some t \<Rightarrow> finiteVector t"
    by (auto simp: moderateParticle_def intro: vmag_le_finite split: option.splits)
  define currentDist where "currentDist = length_js (sub_js (position_js p) center)"
  define sd where "sd = toSurface_js center p"
  have sd: "vmag_le 1 sd"
    unfolding sd_def by (rule vmag_le_toSurface_js [OF vmag_le_mono [OF pp] c pd]) simp
  define surfacePos where "surfacePos = add_js (multiplyScalar_js sd radius) center"
  have "vmag_le (1 * 10 ^ 92 + 10 ^ 30) surfacePos"
    unfolding surfacePos_def
    by (rule vmag_le_add [OF vmag_le_scale [OF sd r] c]) (simp_all add: MAX_VALUE_def)
  then have surfacePos: "vmag_le (10 ^ 93) surfacePos"
    by (rule vmag_le_mono) simp
  have k04: "mag_le 0.4 (Num 0.4)" by simp
  define pos0 where
    "pos0 = (if less_js (Num 0.5) (abs_js (minus_js currentDist radius))
             then lerp_js (position_js p) surfacePos (Num 0.4) else surfacePos)"
  have "vmag_le (10 ^ 30 + (10 ^ 93 + 10 ^ 30) * 0.4) (lerp_js (position_js p) surfacePos (Num 0.4))"
    using pp surfacePos k04 by (rule vmag_le_lerp) (simp_all add: MAX_VALUE_def)
  then have "vmag_le (10 ^ 93) (lerp_js (position_js p) surfacePos (Num 0.4))"
    by (rule vmag_le_mono) simp
  with surfacePos have pos0: "vmag_le (10 ^ 93) pos0" by (simp add: pos0_def)
  define updatedToSurface where "updatedToSurface = sub_js pos0 center"
  have "vmag_le (10 ^ 93 + 10 ^ 30) updatedToSurface"
    unfolding updatedToSurface_def using pos0 c by (rule vmag_le_sub) (simp add: MAX_VALUE_def)
  then have nu: "vmag_le 1 (normalize_js updatedToSurface)"
    by (rule vmag_le_normalize_js) (simp add: MAX_VALUE_def)
  define dir where
    "dir = (if less_js (Num 0.0001) (lengthSq_js updatedToSurface)
            then normalize_js updatedToSurface else direction_js p)"
  have dir: "vmag_le (10 ^ 30) dir"
    using vmag_le_mono [OF nu, of "10 ^ 30"] pd by (simp add: dir_def)
  define currentRadial where
    "currentRadial = multiplyScalar_js sd (dot_js (velocity_js p) sd)"
  have currentRadial: "vmag_le (1 * (3 * (10 ^ 30 * 1))) currentRadial"
    unfolding currentRadial_def
    by (rule vmag_le_scale [OF sd mag_le_dot [OF pv sd]]) (simp_all add: MAX_VALUE_def)
  define tangentialVelocity where "tangentialVelocity = sub_js (velocity_js p) currentRadial"
  have "vmag_le (10 ^ 30 + 1 * (3 * (10 ^ 30 * 1))) tangentialVelocity"
    unfolding tangentialVelocity_def using pv currentRadial
    by (rule vmag_le_sub) (simp add: MAX_VALUE_def)
  then have tangentialVelocity: "vmag_le (10 ^ 31) tangentialVelocity"
    by (rule vmag_le_mono) simp
  define swim where "swim = swimDirection_js sd phase swimSpeed"
  have swim: "vmag_le 16 swim"
    unfolding swim_def using sd ph sp by (rule vmag_le_swimDirection_js)
  have alpha: "mag_le (10 ^ 30 * 3) (times_js deltaTime (Num 3.0))"
    using dt by (rule mag_le_times) (simp_all add: MAX_VALUE_def)
  define vel where "vel = lerp_js tangentialVelocity swim (times_js deltaTime (Num 3.0))"
  have "vmag_le (10 ^ 31 + (16 + 10 ^ 31) * (10 ^ 30 * 3)) vel"
    unfolding vel_def using tangentialVelocity swim alpha
    by (rule vmag_le_lerp) (simp_all add: MAX_VALUE_def)
  then have vel: "vmag_le (10 ^ 62) vel"
    by (rule vmag_le_mono) simp
  define pos1 where "pos1 = add_js pos0 (multiplyScalar_js vel deltaTime)"
  have "vmag_le (10 ^ 93 + 10 ^ 62 * 10 ^ 30) pos1"
    unfolding pos1_def
    by (rule vmag_le_add [OF pos0 vmag_le_scale [OF vel dt]]) (simp_all add: MAX_VALUE_def)
  then have pos1: "vmag_le (10 ^ 94) pos1"
    by (rule vmag_le_mono) simp
  define ntp where "ntp = sub_js pos1 center"
  have ntp: "vmag_le (10 ^ 94 + 10 ^ 30) ntp"
    unfolding ntp_def using pos1 c by (rule vmag_le_sub) (simp add: MAX_VALUE_def)
  have n: "vmag_le 1 (normalize_js ntp)"
    using ntp by (rule vmag_le_normalize_js) (simp add: MAX_VALUE_def)
  have nd: "vmag_le 1 (normalize_js dir)"
    using dir by (rule vmag_le_normalize_js) (simp add: MAX_VALUE_def)
  define pos' where
    "pos' = (if less_js (Num 0.0001) (lengthSq_js ntp)
             then add_js (multiplyScalar_js (normalize_js ntp) radius) center
             else add_js (multiplyScalar_js (normalize_js dir) radius) center)"
  have "vmag_le (1 * 10 ^ 92 + 10 ^ 30)
          (add_js (multiplyScalar_js (normalize_js ntp) radius) center)"
    by (rule vmag_le_add [OF vmag_le_scale [OF n r] c]) (simp_all add: MAX_VALUE_def)
  moreover have "vmag_le (1 * 10 ^ 92 + 10 ^ 30)
          (add_js (multiplyScalar_js (normalize_js dir) radius) center)"
    by (rule vmag_le_add [OF vmag_le_scale [OF nd r] c]) (simp_all add: MAX_VALUE_def)
  ultimately have pos': "vmag_le (1 * 10 ^ 92 + 10 ^ 30) pos'"
    by (simp add: pos'_def)
  have eq: "strictSwarmStep_js center radius swimSpeed phase deltaTime p
            = p \<lparr> position_js := pos', velocity_js := vel, direction_js := dir \<rparr>"
    unfolding strictSwarmStep_js_def Let_def pos'_def ntp_def pos1_def vel_def swim_def
      tangentialVelocity_def currentRadial_def dir_def updatedToSurface_def pos0_def
      surfacePos_def sd_def currentDist_def
    by (rule refl)
  show ?thesis
    unfolding eq using pos' vel dir pt
    by (auto simp: finiteParticle_def intro: vmag_le_finite)
qed

lemma forEachIndexed_all:
  assumes "\<forall>j<length xs. \<exists>y. f j (xs ! j) = Inr y \<and> P y"
  shows "\<exists>ys. forEachIndexed f 0 xs = Inr ys \<and> (\<forall>y\<in>set ys. P y)"
proof -
  from assms have "\<forall>j<length xs. \<exists>y. f (0 + j) (xs ! j) = Inr y" by auto
  then obtain ys where ys: "forEachIndexed f 0 xs = Inr ys"
    using forEachIndexed_total [of xs f 0] by blast
  from forEachIndexed_nth [OF ys] have len: "length ys = length xs"
    and nth: "\<forall>j<length xs. f (0 + j) (xs ! j) = Inr (ys ! j)" by simp_all
  have "P y" if "y \<in> set ys" for y
  proof -
    from that len obtain j where j: "j < length xs" "y = ys ! j"
      by (auto simp: in_set_conv_nth)
    with nth have "f j (xs ! j) = Inr y" by simp
    moreover from assms j(1) obtain y' where "f j (xs ! j) = Inr y'" "P y'" by blast
    ultimately show ?thesis by simp
  qed
  with ys show ?thesis by blast
qed

lemma moderateInputsD:
  assumes "moderateInputs cfg hands now deltaTime ps"
  shows "moderateConfig cfg" "\<forall>h\<in>set hands. moderateVector (palm h)"
    "\<bar>now\<bar> \<le> 10 ^ 30" "mag_le (10 ^ 30) (number deltaTime)"
    "i < length ps \<Longrightarrow> real i \<le> 10 ^ 30" "i < length ps \<Longrightarrow> moderateParticle (ps ! i)"
proof -
  from assms have n: "real (length ps) \<le> 10 ^ 30" and dt: "\<bar>deltaTime\<bar> \<le> 10 ^ 30"
    by (simp_all add: moderateInputs_def)
  show "moderateConfig cfg" "\<forall>h\<in>set hands. moderateVector (palm h)" "\<bar>now\<bar> \<le> 10 ^ 30"
    using assms by (simp_all add: moderateInputs_def)
  show "mag_le (10 ^ 30) (number deltaTime)"
    using dt by (simp add: mag_le_number MAX_VALUE_def)
  show "real i \<le> 10 ^ 30" if "i < length ps"
    using that n by simp
  show "moderateParticle (ps ! i)" if "i < length ps"
    using that assms by (simp add: moderateInputs_def)
qed

lemma updateNeedleSphere_strict_js_finite:
  assumes "moderateInputs cfg hands now deltaTime ps"
    and "q \<in> set (updateNeedleSphere_strict_js cfg hands now deltaTime ps)"
  shows "finiteParticle q"
proof -
  from assms(2) obtain i where i: "i < length ps"
    and q: "q = strictSphereStep_js (needleCenter_js hands)
              (targetRadiusForParticle_js cfg (needleHandDistance_js hands) (ps ! i))
              (Num 4.0) (phase_js i now 0.4) (number deltaTime) (ps ! i)"
    unfolding updateNeedleSphere_strict_js_def by (blast dest: in_set_enumerate_map)
  note m = moderateInputsD [OF assms(1)]
  show ?thesis
    unfolding q
  proof (rule strictSphereStep_js_finite)
    show "vmag_le (10 ^ 30) (needleCenter_js hands)"
      using m(2) by (rule vmag_le_needleCenter_js)
    show "mag_le (10 ^ 92)
            (targetRadiusForParticle_js cfg (needleHandDistance_js hands) (ps ! i))"
      using m(1) mag_le_needleHandDistance_js [OF m(2)]
      by (rule mag_le_targetRadiusForParticle_js)
    show "mag_le 8 (Num 4.0)" by simp
    show "mag_le (10 ^ 30 * 0.01 + 10 ^ 30 * 0.001 * 1) (phase_js i now 0.4)"
      using m(5) [OF i] m(3) by (rule mag_le_phase_js) simp
    show "mag_le (10 ^ 30) (number deltaTime)" by (rule m(4))
    show "moderateParticle (ps ! i)" using i by (rule m(6))
  qed
qed

lemma mag_le_fixed_shell:
  "mag_le (10 ^ 92) (times_js (Num 12) (if g then Num 1 else Num 1.8))"
proof -
  have "mag_le 12 (Num 12)" "mag_le 1.8 (if g then Num 1 else Num 1.8)" by simp_all
  then have "mag_le (12 * 1.8) (times_js (Num 12) (if g then Num 1 else Num 1.8))"
    by (rule mag_le_times) (simp add: MAX_VALUE_def)
  then show ?thesis by (rule mag_le_mono) simp
qed

lemma zero_center: "vmag_le (10 ^ 30) (Vector3_js (Num 0) (Num 0) (Num 0))"
  by (simp add: vmag_le_def)

lemma palm_centers:
  assumes "\<forall>h\<in>set hands. moderateVector (palm h)"
  shows "\<forall>c\<in>set (map (\<lambda>c. vector_js (palmVector c)) hands). vmag_le (10 ^ 30) c"
proof
  fix c assume "c \<in> set (map (\<lambda>c. vector_js (palmVector c)) hands)"
  then obtain h where h: "h \<in> set hands" and c: "c = vector_js (palmVector h)" by auto
  from assms h have "moderateVector (palm h)" by blast
  then show "vmag_le (10 ^ 30) c" unfolding c by (rule vmag_le_palm)
qed

lemma updateNeedleSwarm_js_finite:
  assumes "moderateInputs cfg hands now deltaTime ps"
  shows "\<exists>qs. updateNeedleSwarm_js hands now deltaTime ps = Inr qs
              \<and> (\<forall>q\<in>set qs. finiteParticle q)"
proof (cases "length hands = 0")
  case True
  note m = moderateInputsD [OF assms]
  have "finiteParticle q"
    if "q \<in> set (map (\<lambda>(i, particle).
                       sphereStep_js (Vector3_js (Num 0) (Num 0) (Num 0))
                         (times_js (Num 12)
                            (if groupIndex_js particle = 0 then Num 1 else Num 1.8))
                         (Num 5.0) (phase_js i now 0.5) (number deltaTime) particle)
                    (enumerate 0 ps))" for q
  proof -
    from that obtain i where i: "i < length ps"
      and q: "q = sphereStep_js (Vector3_js (Num 0) (Num 0) (Num 0))
                    (times_js (Num 12)
                       (if groupIndex_js (ps ! i) = 0 then Num 1 else Num 1.8))
                    (Num 5.0) (phase_js i now 0.5) (number deltaTime) (ps ! i)"
      by (blast dest: in_set_enumerate_map)
    show ?thesis
      unfolding q
    proof (rule sphereStep_js_finite)
      show "mag_le 8 (Num 5.0)" by simp
      show "mag_le (10 ^ 30 * 0.01 + 10 ^ 30 * 0.001 * 1) (phase_js i now 0.5)"
        using m(5) [OF i] m(3) by (rule mag_le_phase_js) simp
      show "moderateParticle (ps ! i)" using i by (rule m(6))
    qed (rule zero_center mag_le_fixed_shell m(4))+
  qed
  with True show ?thesis by (simp add: updateNeedleSwarm_js_def)
next
  case False
  note m = moderateInputsD [OF assms]
  define centers where "centers = map (\<lambda>c. vector_js (palmVector c)) hands"
  have cs: "\<forall>c\<in>set centers. vmag_le (10 ^ 30) c"
    unfolding centers_def using m(2) by (rule palm_centers)
  from False have ne: "centers \<noteq> []" by (simp add: centers_def)
  have sr: "range_js 6 (10 ^ 31) (swarmSphereRadius_js centers)"
    using cs by (rule range_js_swarmSphereRadius_js)
  have "\<forall>j<length (map (assignCenter_js centers) ps).
          \<exists>y. swarmStep_js centers (swarmSphereRadius_js centers) now (number deltaTime) j
                 (map (assignCenter_js centers) ps ! j) = Inr y \<and> finiteParticle y"
  proof (intro allI impI)
    fix j assume "j < length (map (assignCenter_js centers) ps)"
    then have j: "j < length ps" by simp
    from assignCenter_js_valid [OF ne, of "ps ! j"] obtain k where
      k: "k < length centers" "assignedCenterIndex_js (assignCenter_js centers (ps ! j)) = Some k"
      by blast
    have "\<exists>y. swarmStep_js centers (swarmSphereRadius_js centers) now (number deltaTime) j
                 (assignCenter_js centers (ps ! j)) = Inr y \<and> finiteParticle y"
      using cs k(2) k(1) sr m(5) [OF j] m(3) m(4) moderate_assignCenter_js [OF m(6) [OF j]]
      by (rule swarmStep_js_finite)
    with j show "\<exists>y. swarmStep_js centers (swarmSphereRadius_js centers) now (number deltaTime) j
                 (map (assignCenter_js centers) ps ! j) = Inr y \<and> finiteParticle y"
      by simp
  qed
  from forEachIndexed_all
         [where xs = "map (assignCenter_js centers) ps" and P = finiteParticle
            and f = "swarmStep_js centers (swarmSphereRadius_js centers) now (number deltaTime)",
          OF this] False
  show ?thesis
    by (simp add: updateNeedleSwarm_js_def Let_def centers_def)
qed

lemma updateNeedleSwarm_strict_js_finite:
  assumes "moderateInputs cfg hands now deltaTime ps"
  shows "\<exists>qs. updateNeedleSwarm_strict_js hands now deltaTime ps = Inr qs
              \<and> (\<forall>q\<in>set qs. finiteParticle q)"
proof (cases "length hands = 0")
  case True
  note m = moderateInputsD [OF assms]
  have "finiteParticle q"
    if "q \<in> set (map (\<lambda>(i, particle).
                       strictSwarmStep_js (Vector3_js (Num 0) (Num 0) (Num 0))
                         (times_js (Num 12)
                            (if groupIndex_js particle = 0 then Num 1 else Num 1.8))
                         (Num 5.0) (phase_js i now 0.5) (number deltaTime) particle)
                    (enumerate 0 ps))" for q
  proof -
    from that obtain i where i: "i < length ps"
      and q: "q = strictSwarmStep_js (Vector3_js (Num 0) (Num 0) (Num 0))
                    (times_js (Num 12)
                       (if groupIndex_js (ps ! i) = 0 then Num 1 else Num 1.8))
                    (Num 5.0) (phase_js i now 0.5) (number deltaTime) (ps ! i)"
      by (blast dest: in_set_enumerate_map)
    show ?thesis
      unfolding q
    proof (rule strictSwarmStep_js_finite)
      show "mag_le 8 (Num 5.0)" by simp
      show "mag_le (10 ^ 30 * 0.01 + 10 ^ 30 * 0.001 * 1) (phase_js i now 0.5)"
        using m(5) [OF i] m(3) by (rule mag_le_phase_js) simp
      show "moderateParticle (ps ! i)" using i by (rule m(6))
    qed (rule zero_center mag_le_fixed_shell m(4))+
  qed
  with True show ?thesis by (simp add: updateNeedleSwarm_strict_js_def)
next
  case False
  note m = moderateInputsD [OF assms]
  define centers where "centers = map (\<lambda>c. vector_js (palmVector c)) hands"
  have cs: "\<forall>c\<in>set centers. vmag_le (10 ^ 30) c"
    unfolding centers_def using m(2) by (rule palm_centers)
  from False have ne: "centers \<noteq> []" by (simp add: centers_def)
  define f where
    "f = (\<lambda>i particle.
            bindE (centerAt_js centers (nullish (assignedCenterIndex_js particle) 0))
              (\<lambda>center.
                 Inr (strictSwarmStep_js center
                        (times_js (Num 12)
                           (if groupIndex_js particle = 0 then Num 1 else Num 1.8))
                        (Num 5.0) (phase_js i now 0.5) (number deltaTime) particle)))"
  have "\<forall>j<length (map (assignCenter_js centers) ps).
          \<exists>y. f j (map (assignCenter_js centers) ps ! j) = Inr y \<and> finiteParticle y"
  proof (intro allI impI)
    fix j assume "j < length (map (assignCenter_js centers) ps)"
    then have j: "j < length ps" by simp
    define p where "p = assignCenter_js centers (ps ! j)"
    from assignCenter_js_valid [OF ne, of "ps ! j"] obtain k where
      k: "k < length centers" "assignedCenterIndex_js p = Some k"
      unfolding p_def by blast
    from k(1) cs have c: "vmag_le (10 ^ 30) (centers ! k)"
      using nth_mem by blast
    have mp: "moderateParticle p"
      unfolding p_def by (rule moderate_assignCenter_js [OF m(6) [OF j]])
    have "finiteParticle
            (strictSwarmStep_js (centers ! k)
               (times_js (Num 12) (if groupIndex_js p = 0 then Num 1 else Num 1.8))
               (Num 5.0) (phase_js j now 0.5) (number deltaTime) p)"
    proof (rule strictSwarmStep_js_finite)
      show "mag_le 8 (Num 5.0)" by simp
      show "mag_le (10 ^ 30 * 0.01 + 10 ^ 30 * 0.001 * 1) (phase_js j now 0.5)"
        using m(5) [OF j] m(3) by (rule mag_le_phase_js) simp
    qed (rule c mag_le_fixed_shell m(4) mp)+
    moreover have "f j p = Inr (strictSwarmStep_js (centers ! k)
               (times_js (Num 12) (if groupIndex_js p = 0 then Num 1 else Num 1.8))
               (Num 5.0) (phase_js j now 0.5) (number deltaTime) p)"
      using k by (simp add: f_def centerAt_js_def bindE_def del: times_js.simps)
    ultimately show "\<exists>y. f j (map (assignCenter_js centers) ps ! j) = Inr y \<and> finiteParticle y"
      using j by (simp add: p_def)
  qed
  from forEachIndexed_all
         [where xs = "map (assignCenter_js centers) ps" and P = finiteParticle and f = f,
          OF this] False
  show ?thesis
    by (simp add: updateNeedleSwarm_strict_js_def Let_def centers_def f_def)
qed

lemma plus_js_NaN [simp]: "plus_js x NaN = NaN"
  by (cases x) simp_all

lemma times_js_NaN [simp]: "times_js x NaN = NaN"
  by (cases x) simp_all

lemma minus_js_NaN [simp]: "minus_js NaN y = NaN" "minus_js x NaN = NaN"
  by (simp_all add: minus_js_def)

lemma less_js_NaN [simp]: "less_js x NaN = False"
  by (cases x) simp_all

lemma far_distance: "needleHandDistance_js farHands = PInf"
  by (simp add: needleHandDistance_js_def farHands_def handAt_def palmVector_def vector_js_def
        distanceTo_js_def sub_js_def minus_js_def length_js_def lengthSq_js_def number_def MAX_VALUE_def MIN_VALUE_def)

lemma far_radius:
  "targetRadiusForParticle_js needleConfig (needleHandDistance_js farHands) (particleAt_js p v)
   = PInf"
  by (simp add: far_distance targetRadiusForParticle_js_def effectiveRadius_js_def
        needleConfig_def particleAt_js_def number_def MAX_VALUE_def MIN_VALUE_def)

lemma far_center: "needleCenter_js farHands = Vector3_js (Num 0) (Num 0) (Num 0)"
  by (simp add: needleCenter_js_def farHands_def handAt_def palmVector_def vector_js_def
        add_js_def multiplyScalar_js_def number_def MAX_VALUE_def MIN_VALUE_def)

lemma toSurface_js_x:
  "toSurface_js (Vector3_js (Num 0) (Num 0) (Num 0)) (particleAt_js (Vector3 1 0 0) v)
   = Vector3_js (Num 1) (Num 0) (Num 0)"
  by (simp add: toSurface_js_def particleAt_js_def vector_js_def sub_js_def minus_js_def
        length_js_def lengthSq_js_def normalize_js_def divideScalar_js_def multiplyScalar_js_def
        orElse_js_def number_def MAX_VALUE_def MIN_VALUE_def Let_def)

lemma normalize_js_x:
  "normalize_js (Vector3_js (Num 1) (Num 0) (Num 0)) = Vector3_js (Num 1) (Num 0) (Num 0)"
  by (simp add: length_js_def lengthSq_js_def normalize_js_def divideScalar_js_def
        multiplyScalar_js_def orElse_js_def number_def MAX_VALUE_def MIN_VALUE_def)

lemma jy_simps [simp]:
  "jy (add_js a b) = plus_js (jy a) (jy b)"
  "jy (sub_js a b) = minus_js (jy a) (jy b)"
  "jy (multiplyScalar_js a s) = times_js (jy a) s"
  by (simp_all add: add_js_def sub_js_def multiplyScalar_js_def)

lemma lengthSq_js_NaN: "jy a = NaN \<Longrightarrow> lengthSq_js a = NaN"
  by (simp add: lengthSq_js_def)

lemma sphereStep_js_NaN:
  "jy (position_js (sphereStep_js (Vector3_js (Num 0) (Num 0) (Num 0)) PInf s ph dt
         (particleAt_js (Vector3 1 0 0) v))) = NaN"
proof -
  have "jy (position_js (sphereMove_js (Vector3_js (Num 0) (Num 0) (Num 0)) PInf s ph dt
         (particleAt_js (Vector3 1 0 0) v))) = NaN"
    by (simp add: sphereMove_js_def Let_def toSurface_js_x)
  then show ?thesis
    by (simp add: sphereStep_js_def Let_def lengthSq_js_NaN)
qed

lemma strictSphereStep_js_NaN:
  "jy (position_js (strictSphereStep_js (Vector3_js (Num 0) (Num 0) (Num 0)) PInf s ph dt
         (particleAt_js (Vector3 1 0 0) v))) = NaN"
proof -
  have d: "direction_js (particleAt_js (Vector3 1 0 0) v) = Vector3_js (Num 1) (Num 0) (Num 0)"
    by (simp add: particleAt_js_def)
  show ?thesis
    by (simp add: strictSphereStep_js_def Let_def toSurface_js_x lengthSq_js_NaN d
          normalize_js_x)
qed

text \<open>
  The fallback in exact arithmetic.  A needle-sphere step reads the position
  of a particle only to find its radial direction.  For a particle within
  \<open>0.01\<close> of the centre the step therefore gives what it gives for the same
  particle put at the centre plus its normalised stored direction.
\<close>

lemma normalize_v_unit: "length_v a = 1 \<Longrightarrow> normalize_v a = a"
  by (simp add: normalize_v_def divideScalar_def multiplyScalar_def)

lemma toSurface_fallback:
  "length_v (sub_v (position p) center) \<le> 0.01 \<Longrightarrow> toSurface center p = normalize_v (direction p)"
  by (simp add: toSurface_def Let_def)

lemma toSurface_recentred:
  assumes "length_v (sub_v (position p) center) \<le> 0.01"
  shows "toSurface center (p \<lparr> position := add_v center (normalize_v (direction p)) \<rparr>)
         = toSurface center p"
proof -
  have sub: "sub_v (add_v center a) center = a" for a
    by (simp add: sub_v_def add_v_def)
  show ?thesis
  proof (cases "length_v (direction p) = 0")
    case True
    then have "normalize_v (direction p) = direction p" by (rule normalize_v_zero)
    with True assms show ?thesis
      by (simp add: toSurface_def Let_def sub)
  next
    case False
    then have one: "length_v (normalize_v (direction p)) = 1" by (rule length_v_normalize)
    then have "normalize_v (normalize_v (direction p)) = normalize_v (direction p)"
      by (rule normalize_v_unit)
    with one assms show ?thesis
      by (simp add: toSurface_def Let_def sub)
  qed
qed

lemma sphereStep_recentred:
  assumes "length_v (sub_v (position p) center) \<le> 0.01"
  shows "sphereStep center radius swimSpeed phase deltaTime
           (p \<lparr> position := add_v center (normalize_v (direction p)) \<rparr>)
         = sphereStep center radius swimSpeed phase deltaTime p"
  by (simp add: sphereStep_def sphereMove_def Let_def toSurface_recentred [OF assms])

lemma strictSphereStep_recentred:
  assumes "length_v (sub_v (position p) center) \<le> 0.01"
  shows "strictSphereStep center radius swimSpeed phase deltaTime
           (p \<lparr> position := add_v center (normalize_v (direction p)) \<rparr>)
         = strictSphereStep center radius swimSpeed phase deltaTime p"
  by (simp add: strictSphereStep_def Let_def toSurface_recentred [OF assms])

text \<open>
  Claim C8, amended.  In the sphere-constrained updates, whenever a particle
  is within \<open>0.01\<close> of the centre, the radial direction used for the
  projection is the normalised stored direction of the particle, and the
  needle-sphere step of either version gives the result it gives for that
  particle put at the centre plus this direction (in exact arithmetic; in the
  arithmetic of JavaScript numbers the same branch is taken).  In the
  arithmetic of JavaScript numbers, with overflow, every update of either
  version, needle sphere or needle swarm, runs to its end without reading a
  centre that is not there, and leaves every component of every particle's
  position, velocity, direction and target position finite, so neither \<open>NaN\<close>
  nor an infinity, provided the inputs are moderate: every number of the
  particles, the palms and the configuration, \<open>performance.now()\<close>,
  \<open>deltaTime\<close> and the number of particles are at most \<open>10\<^sup>3\<^sup>0\<close> in magnitude.
\<close>

theorem sphere_updates_finite:
  assumes "moderateInputs cfg hands now deltaTime ps"
  shows "(\<forall>q\<in>set (updateNeedleSphere_js cfg hands now deltaTime ps). finiteParticle q)
       \<and> (\<forall>q\<in>set (updateNeedleSphere_strict_js cfg hands now deltaTime ps). finiteParticle q)
       \<and> (\<exists>qs. updateNeedleSwarm_js hands now deltaTime ps = Inr qs
                \<and> (\<forall>q\<in>set qs. finiteParticle q))
       \<and> (\<exists>qs. updateNeedleSwarm_strict_js hands now deltaTime ps = Inr qs
                \<and> (\<forall>q\<in>set qs. finiteParticle q))
       \<and> (length_v (sub_v (position p) center) \<le> 0.01 \<longrightarrow>
            toSurface center p = normalize_v (direction p)
            \<and> sphereStep center radius swimSpeed phase deltaTime p
              = sphereStep center radius swimSpeed phase deltaTime
                  (p \<lparr> position := add_v center (normalize_v (direction p)) \<rparr>)
            \<and> strictSphereStep center radius swimSpeed phase deltaTime p
              = strictSphereStep center radius swimSpeed phase deltaTime
                  (p \<lparr> position := add_v center (normalize_v (direction p)) \<rparr>))
       \<and> (\<not> less_js (Num 0.01) (length_js (sub_js (position_js q') center'))
            \<longrightarrow> toSurface_js center' q' = normalize_js (direction_js q'))"
proof (intro conjI ballI impI)
  fix q assume "q \<in> set (updateNeedleSphere_js cfg hands now deltaTime ps)"
  with assms show "finiteParticle q" by (rule updateNeedleSphere_js_finite)
next
  fix q assume "q \<in> set (updateNeedleSphere_strict_js cfg hands now deltaTime ps)"
  with assms show "finiteParticle q" by (rule updateNeedleSphere_strict_js_finite)
next
  show "\<exists>qs. updateNeedleSwarm_js hands now deltaTime ps = Inr qs
             \<and> (\<forall>q\<in>set qs. finiteParticle q)"
    using assms by (rule updateNeedleSwarm_js_finite)
next
  show "\<exists>qs. updateNeedleSwarm_strict_js hands now deltaTime ps = Inr qs
             \<and> (\<forall>q\<in>set qs. finiteParticle q)"
    using assms by (rule updateNeedleSwarm_strict_js_finite)
next
  assume a: "length_v (sub_v (position p) center) \<le> 0.01"
  then show "toSurface center p = normalize_v (direction p)" by (rule toSurface_fallback)
  show "sphereStep center radius swimSpeed phase deltaTime p
        = sphereStep center radius swimSpeed phase deltaTime
            (p \<lparr> position := add_v center (normalize_v (direction p)) \<rparr>)"
    by (rule sphereStep_recentred [OF a, symmetric])
  show "strictSphereStep center radius swimSpeed phase deltaTime p
        = strictSphereStep center radius swimSpeed phase deltaTime
            (p \<lparr> position := add_v center (normalize_v (direction p)) \<rparr>)"
    by (rule strictSphereStep_recentred [OF a, symmetric])
next
  assume "\<not> less_js (Num 0.01) (length_js (sub_js (position_js q') center'))"
  then show "toSurface_js center' q' = normalize_js (direction_js q')"
    by (simp add: toSurface_js_def Let_def)
qed

lemma moderate_example:
  "moderateInputs needleConfig twoHands 0 (1 / 60)
     [particleAt_js (Vector3 0 0 0) (Vector3 0 0 4)]"
  by (simp add: moderateInputs_def moderateConfig_def needleConfig_def twoHands_def handAt_def
        moderateVector_def moderateParticle_def particleAt_js_def vector_js_def vmag_le_def
        number_def MAX_VALUE_def MIN_VALUE_def)

theorem sphere_updates_finite_witness:
  "moderateInputs needleConfig twoHands 0 (1 / 60)
     [particleAt_js (Vector3 0 0 0) (Vector3 0 0 4)]
   \<and> length_v (sub_v (position (particleAt (Vector3 0 0 0) (Vector3 0 0 4))) (Vector3 0 0 0))
       \<le> 0.01
   \<and> \<not> less_js (Num 0.01)
          (length_js (sub_js (position_js (particleAt_js (Vector3 0 0 0) (Vector3 0 0 4)))
             (Vector3_js (Num 0) (Num 0) (Num 0))))
   \<and> finiteParticle (updateNeedleSphere_js needleConfig twoHands 0 (1 / 60)
                       [particleAt_js (Vector3 0 0 0) (Vector3 0 0 4)] ! 0)
   \<and> finiteParticle (updateNeedleSphere_strict_js needleConfig twoHands 0 (1 / 60)
                       [particleAt_js (Vector3 0 0 0) (Vector3 0 0 4)] ! 0)
   \<and> (\<exists>qs. updateNeedleSwarm_js twoHands 0 (1 / 60)
               [particleAt_js (Vector3 0 0 0) (Vector3 0 0 4)] = Inr qs
            \<and> (\<forall>q\<in>set qs. finiteParticle q))
   \<and> (\<exists>qs. updateNeedleSwarm_strict_js twoHands 0 (1 / 60)
               [particleAt_js (Vector3 0 0 0) (Vector3 0 0 4)] = Inr qs
            \<and> (\<forall>q\<in>set qs. finiteParticle q))
   \<and> toSurface (Vector3 0 0 0) (particleAt (Vector3 0 0 0) (Vector3 0 0 4)) = Vector3 1 0 0
   \<and> toSurface_js (Vector3_js (Num 0) (Num 0) (Num 0))
        (particleAt_js (Vector3 0 0 0) (Vector3 0 0 4)) = Vector3_js (Num 1) (Num 0) (Num 0)"
proof -
  have a: "length_v (sub_v (position (particleAt (Vector3 0 0 0) (Vector3 0 0 4)))
             (Vector3 0 0 0)) \<le> 0.01"
    by (simp add: particleAt_def sub_v_def length_v_def)
  have b: "\<not> less_js (Num 0.01)
          (length_js (sub_js (position_js (particleAt_js (Vector3 0 0 0) (Vector3 0 0 4)))
             (Vector3_js (Num 0) (Num 0) (Num 0))))"
    by (simp add: particleAt_js_def vector_js_def sub_js_def minus_js_def length_js_def
          lengthSq_js_def number_def MAX_VALUE_def MIN_VALUE_def)
  have n: "normalize_v (direction (particleAt (Vector3 0 0 0) (Vector3 0 0 4))) = Vector3 1 0 0"
    by (simp add: particleAt_def normalize_v_def divideScalar_def multiplyScalar_def
          length_v_def)
  have m: "normalize_js (direction_js (particleAt_js (Vector3 0 0 0) (Vector3 0 0 4)))
           = Vector3_js (Num 1) (Num 0) (Num 0)"
    by (simp add: particleAt_js_def normalize_js_x)
  have i: "updateNeedleSphere_js needleConfig twoHands 0 (1 / 60)
             [particleAt_js (Vector3 0 0 0) (Vector3 0 0 4)] ! 0
           \<in> set (updateNeedleSphere_js needleConfig twoHands 0 (1 / 60)
                    [particleAt_js (Vector3 0 0 0) (Vector3 0 0 4)])"
    "updateNeedleSphere_strict_js needleConfig twoHands 0 (1 / 60)
             [particleAt_js (Vector3 0 0 0) (Vector3 0 0 4)] ! 0
           \<in> set (updateNeedleSphere_strict_js needleConfig twoHands 0 (1 / 60)
                    [particleAt_js (Vector3 0 0 0) (Vector3 0 0 4)])"
    by (simp_all add: updateNeedleSphere_js_def updateNeedleSphere_strict_js_def)
  from sphere_updates_finite
         [OF moderate_example,
          of "particleAt (Vector3 0 0 0) (Vector3 0 0 4)" "Vector3 0 0 0" 20 4 0
             "particleAt_js (Vector3 0 0 0) (Vector3 0 0 4)" "Vector3_js (Num 0) (Num 0) (Num 0)"]
    a b n m i moderate_example
  show ?thesis by simp
qed

text \<open>
  The claim as stated fails when an intermediate result overflows.  With the
  reference configuration and two hands whose palms are at \<open>(10\<^sup>2\<^sup>0\<^sup>0, 0, 0)\<close>
  and \<open>(-10\<^sup>2\<^sup>0\<^sup>0, 0, 0)\<close>, finite numbers both, the squared distance of the
  palms overflows, the hand distance and the radius of the shell are
  \<open>Infinity\<close>, and for a particle at \<open>(1, 0, 0)\<close> the surface position has the
  \<open>y\<close> component \<open>0 * Infinity\<close>: the tick of either version leaves \<open>NaN\<close> in
  the position of the particle.
\<close>

theorem sphere_updates_counterexample:
  "jy (position_js (updateNeedleSphere_js needleConfig farHands 0 (1 / 60)
         [particleAt_js (Vector3 1 0 0) (Vector3 0 0 0)] ! 0)) = NaN
   \<and> jy (position_js (updateNeedleSphere_strict_js needleConfig farHands 0 (1 / 60)
         [particleAt_js (Vector3 1 0 0) (Vector3 0 0 0)] ! 0)) = NaN"
  by (simp add: updateNeedleSphere_js_def updateNeedleSphere_strict_js_def far_radius
        far_center sphereStep_js_NaN strictSphereStep_js_NaN)

section \<open>Responsive forces\<close>

lemma add_v_assoc: "add_v (add_v a b) c = add_v a (add_v b c)"
  by (simp add: add_v_def)

lemma add_v_zero [simp]: "add_v a (Vector3 0 0 0) = a" "add_v (Vector3 0 0 0) a = a"
  by (simp_all add: add_v_def)

lemma multiplyScalar_twice: "multiplyScalar (multiplyScalar a s) t = multiplyScalar a (s * t)"
  by (simp add: multiplyScalar_def)

lemma normalize_v_scale: "length_v a \<noteq> 0 \<Longrightarrow> normalize_v a = multiplyScalar a (1 / length_v a)"
  by (simp add: normalize_v_def divideScalar_def)

lemma responsiveStep_palmForce:
  "responsiveStep cfg p h F = add_v F (palmForce cfg p h)"
proof -
  define toPalm where "toPalm = sub_v (palm h) (position p)"
  define d where "d = length_v toPalm"
  have d0: "0 \<le> d" by (simp add: d_def length_v_nonneg)
  have pv: "Vector3 (vx (palm h)) (vy (palm h)) (vz (palm h)) = palm h" by simp
  show ?thesis
  proof (cases "d < nullish (interactionRadius cfg) 0")
    case False
    then show ?thesis
      by (simp add: responsiveStep_def palmForce_def Let_def toPalm_def d_def)
  next
    case True
    with d0 obtain r where r: "interactionRadius cfg = Some r" "d < r"
      by (cases "interactionRadius cfg") auto
    show ?thesis
    proof (cases "d = 0")
      case True
      then have "normalize_v toPalm = toPalm" "toPalm = Vector3 0 0 0"
        by (simp_all add: d_def normalize_v_zero length_v_zero_vec)
      with True r show ?thesis
        by (simp add: responsiveStep_def palmForce_def Let_def toPalm_def [symmetric]
              d_def [symmetric] multiplyScalar_def)
    next
      case False
      then have "normalize_v toPalm = multiplyScalar toPalm (1 / d)"
        by (simp add: d_def normalize_v_scale)
      with False d0 r show ?thesis
        by (simp add: responsiveStep_def palmForce_def Let_def toPalm_def [symmetric]
              d_def [symmetric] multiplyScalar_twice)
    qed
  qed
qed

lemma fold_responsiveStep:
  "fold (responsiveStep cfg p) hands F = add_v F (sumForces (map (palmForce cfg p) hands))"
proof (induction hands arbitrary: F)
  case Nil
  then show ?case by simp
next
  case (Cons h hands)
  then show ?case by (simp add: responsiveStep_palmForce add_v_assoc)
qed

lemma handleResponsiveBehavior_sum:
  "handleResponsiveBehavior cfg hands rnd k p (Vector3 0 0 0)
   = add_v (sumForces (map (palmForce cfg p) hands)) (jitter rnd k)"
  by (simp add: handleResponsiveBehavior_def fold_responsiveStep jitter_def)

lemma jitter_bounds:
  assumes "draws_ok rnd"
  shows "\<bar>vx (jitter rnd k)\<bar> \<le> 0.025" "\<bar>vy (jitter rnd k)\<bar> \<le> 0.025" "\<bar>vz (jitter rnd k)\<bar> \<le> 0.025"
proof -
  have b: "\<bar>(x - 0.5) * 0.05\<bar> \<le> 0.025" if "0 \<le> x" "x < 1" for x :: real
  proof -
    from that have "\<bar>x - 0.5\<bar> \<le> 0.5" by linarith
    then have "\<bar>x - 0.5\<bar> * 0.05 \<le> 0.5 * 0.05" by (intro mult_right_mono) simp_all
    then show ?thesis by (simp add: abs_mult)
  qed
  from assms have "0 \<le> rnd k \<and> rnd k < 1" "0 \<le> rnd (k + 1) \<and> rnd (k + 1) < 1"
    "0 \<le> rnd (k + 2) \<and> rnd (k + 2) < 1"
    by (simp_all add: draws_ok_def)
  then show "\<bar>vx (jitter rnd k)\<bar> \<le> 0.025" "\<bar>vy (jitter rnd k)\<bar> \<le> 0.025"
    "\<bar>vz (jitter rnd k)\<bar> \<le> 0.025"
    using b by (simp_all add: jitter_def)
qed

lemma palmForce_near:
  assumes "0 < length_v (sub_v (palm h) (position p))"
    and "length_v (sub_v (palm h) (position p)) < nullish (interactionRadius cfg) 0"
  shows "palmForce cfg p h
         = multiplyScalar (sub_v (palm h) (position p))
             (nullish (attractionStrength cfg) 0
              * (1 - length_v (sub_v (palm h) (position p)) / nullish (interactionRadius cfg) 0)
              / length_v (sub_v (palm h) (position p)))"
    and "length_v (palmForce cfg p h)
         = \<bar>nullish (attractionStrength cfg) 0
              * (1 - length_v (sub_v (palm h) (position p)) / nullish (interactionRadius cfg) 0)\<bar>"
proof -
  show eq: "palmForce cfg p h
         = multiplyScalar (sub_v (palm h) (position p))
             (nullish (attractionStrength cfg) 0
              * (1 - length_v (sub_v (palm h) (position p)) / nullish (interactionRadius cfg) 0)
              / length_v (sub_v (palm h) (position p)))"
    using assms by (simp add: palmForce_def Let_def)
  show "length_v (palmForce cfg p h)
         = \<bar>nullish (attractionStrength cfg) 0
              * (1 - length_v (sub_v (palm h) (position p)) / nullish (interactionRadius cfg) 0)\<bar>"
    unfolding eq length_v_multiplyScalar using assms(1) by (simp add: abs_mult)
qed

lemma palmForce_far:
  "\<not> (0 < length_v (sub_v (palm h) (position p))
      \<and> length_v (sub_v (palm h) (position p)) < nullish (interactionRadius cfg) 0)
   \<Longrightarrow> palmForce cfg p h = Vector3 0 0 0"
  by (auto simp add: palmForce_def Let_def)

lemma integrate_fields:
  "velocity (integrate cfg F p) = multiplyScalar (add_v (velocity p) F) (viscosity cfg)"
  "position (integrate cfg F p)
   = add_v (position p) (multiplyScalar (add_v (velocity p) F) (viscosity cfg))"
  by (simp_all add: integrate_def Let_def)

lemma responsive_nth:
  assumes "behavior cfg = Responsive" and "i < length ps"
  shows "updateForces cfg hands rnd ps ! i
         = applyBoundaries cfg
             (integrate cfg
                (add_v (sumForces (map (palmForce cfg (ps ! i)) hands)) (jitter rnd (3 * i)))
                (ps ! i))"
proof -
  have "storeBefore cfg hands rnd ps i ! i = ps ! i"
    by (simp add: storeBefore_untouched)
  then show ?thesis
    using assms
    by (simp add: updateForces_nth totalForceOf_def handleResponsiveBehavior_sum)
qed

declare cohesiveLoop.simps [simp del] strideFrom.simps [simp del]

text \<open>
  Claim C6, amended.  In a responsive tick the total force on a particle is
  the sum, over the hands, of \<open>palmForce\<close> plus the jitter, each component of
  which lies in \<open>[-0.025, 0.025]\<close>.  A palm at a distance \<open>d\<close> with
  \<open>0 < d < interactionRadius\<close> pulls along the vector from the particle to the
  palm with a force of length \<open>attractionStrength * (1 - d / interactionRadius)\<close>
  (in absolute value); a palm at distance \<open>0\<close> or not strictly within the radius
  contributes nothing.  The particle is then integrated as
  \<open>velocity' = (velocity + totalForce) * viscosity\<close>,
  \<open>position' = position + velocity'\<close>, and the boundaries are applied.
\<close>

theorem responsive_force_and_integration:
  assumes "behavior cfg = Responsive" and "i < length ps" and "draws_ok rnd"
  shows "(\<exists>ps'. update cfg hands rnd now deltaTime ps = Inr ps'
            \<and> ps' ! i = applyBoundaries cfg
                 (integrate cfg
                    (add_v (sumForces (map (palmForce cfg (ps ! i)) hands)) (jitter rnd (3 * i)))
                    (ps ! i)))
         \<and> velocity (integrate cfg F p) = multiplyScalar (add_v (velocity p) F) (viscosity cfg)
         \<and> position (integrate cfg F p) = add_v (position p) (velocity (integrate cfg F p))
         \<and> \<bar>vx (jitter rnd (3 * i))\<bar> \<le> 0.025 \<and> \<bar>vy (jitter rnd (3 * i))\<bar> \<le> 0.025
         \<and> \<bar>vz (jitter rnd (3 * i))\<bar> \<le> 0.025
         \<and> (0 < length_v (sub_v (palm h) (position p))
              \<and> length_v (sub_v (palm h) (position p)) < nullish (interactionRadius cfg) 0
             \<longrightarrow> palmForce cfg p h
                 = multiplyScalar (sub_v (palm h) (position p))
                     (nullish (attractionStrength cfg) 0
                      * (1 - length_v (sub_v (palm h) (position p))
                             / nullish (interactionRadius cfg) 0)
                      / length_v (sub_v (palm h) (position p)))
               \<and> length_v (palmForce cfg p h)
                 = \<bar>nullish (attractionStrength cfg) 0
                    * (1 - length_v (sub_v (palm h) (position p))
                           / nullish (interactionRadius cfg) 0)\<bar>)
         \<and> (\<not> (0 < length_v (sub_v (palm h) (position p))
                 \<and> length_v (sub_v (palm h) (position p)) < nullish (interactionRadius cfg) 0)
             \<longrightarrow> palmForce cfg p h = Vector3 0 0 0)"
proof -
  have tick: "\<exists>ps'. update cfg hands rnd now deltaTime ps = Inr ps'
            \<and> ps' ! i = applyBoundaries cfg
                 (integrate cfg
                    (add_v (sumForces (map (palmForce cfg (ps ! i)) hands)) (jitter rnd (3 * i)))
                    (ps ! i))"
    using responsive_nth [OF assms(1,2), of hands rnd] assms(1) by (simp add: update_def)
  have integ: "velocity (integrate cfg F p) = multiplyScalar (add_v (velocity p) F) (viscosity cfg)
         \<and> position (integrate cfg F p) = add_v (position p) (velocity (integrate cfg F p))"
    by (simp add: integrate_fields)
  note jit = jitter_bounds [OF assms(3), of "3 * i"]
  have near: "0 < length_v (sub_v (palm h) (position p))
              \<and> length_v (sub_v (palm h) (position p)) < nullish (interactionRadius cfg) 0
             \<longrightarrow> palmForce cfg p h
                 = multiplyScalar (sub_v (palm h) (position p))
                     (nullish (attractionStrength cfg) 0
                      * (1 - length_v (sub_v (palm h) (position p))
                             / nullish (interactionRadius cfg) 0)
                      / length_v (sub_v (palm h) (position p)))
               \<and> length_v (palmForce cfg p h)
                 = \<bar>nullish (attractionStrength cfg) 0
                    * (1 - length_v (sub_v (palm h) (position p))
                           / nullish (interactionRadius cfg) 0)\<bar>"
    using palmForce_near [of h p cfg] by blast
  have far: "\<not> (0 < length_v (sub_v (palm h) (position p))
                 \<and> length_v (sub_v (palm h) (position p)) < nullish (interactionRadius cfg) 0)
             \<longrightarrow> palmForce cfg p h = Vector3 0 0 0"
    using palmForce_far [of h p cfg] by blast
  from tick integ jit near far show ?thesis by blast
qed

lemma applyBoundaries_id:
  "\<bar>vx (position p)\<bar> \<le> boundary cfg \<Longrightarrow> \<bar>vy (position p)\<bar> \<le> boundary cfg
   \<Longrightarrow> \<bar>vz (position p)\<bar> \<le> boundary cfg \<Longrightarrow> applyBoundaries cfg p = p"
  by (simp add: applyBoundaries_def boundaryAxis_def)

theorem responsive_force_and_integration_witness:
  "behavior (scenarioConfig (17 / 20)) = Responsive
   \<and> 0 < length [particleAt (Vector3 3 0 0) (Vector3 0 0 0)]
   \<and> draws_ok calmDraws
   \<and> 0 < length_v (sub_v (palm (handAt (Vector3 0 0 0)))
                       (position (particleAt (Vector3 3 0 0) (Vector3 0 0 0))))
   \<and> length_v (sub_v (palm (handAt (Vector3 0 0 0)))
                       (position (particleAt (Vector3 3 0 0) (Vector3 0 0 0))))
     < nullish (interactionRadius (scenarioConfig (17 / 20))) 0
   \<and> palmForce (scenarioConfig (17 / 20)) (particleAt (Vector3 3 0 0) (Vector3 0 0 0))
        (handAt (Vector3 0 0 0)) = Vector3 (- 0.8) 0 0
   \<and> length_v (palmForce (scenarioConfig (17 / 20)) (particleAt (Vector3 3 0 0) (Vector3 0 0 0))
                  (handAt (Vector3 0 0 0))) = 0.8
   \<and> (\<exists>ps'. update (scenarioConfig (17 / 20)) [handAt (Vector3 0 0 0)] calmDraws 0 (1 / 60)
               [particleAt (Vector3 3 0 0) (Vector3 0 0 0)] = Inr ps'
            \<and> velocity (ps' ! 0) = Vector3 (- 0.68) 0 0
            \<and> position (ps' ! 0) = Vector3 2.32 0 0)"
proof -
  let ?cfg = "scenarioConfig (17 / 20)"
  let ?p = "particleAt (Vector3 3 0 0) (Vector3 0 0 0)"
  let ?h = "handAt (Vector3 0 0 0)"
  have b: "behavior ?cfg = Responsive" by (simp add: scenarioConfig_def)
  have l: "0 < length [?p]" by simp
  have d: "length_v (sub_v (palm ?h) (position ?p)) = 3"
    by (simp add: handAt_def particleAt_def sub_v_def length_x)
  have r: "nullish (interactionRadius ?cfg) 0 = 5" "nullish (attractionStrength ?cfg) 0 = 2"
    "viscosity ?cfg = 17 / 20" "boundary ?cfg = 10"
    by (simp_all add: scenarioConfig_def)
  note inst = responsive_force_and_integration
               [OF b l calmDraws_ok, of "[?h]" 0 "1 / 60" "Vector3 0 0 0" ?p ?h]
  from inst have near: "0 < length_v (sub_v (palm ?h) (position ?p))
              \<and> length_v (sub_v (palm ?h) (position ?p)) < nullish (interactionRadius ?cfg) 0
             \<longrightarrow> palmForce ?cfg ?p ?h
                 = multiplyScalar (sub_v (palm ?h) (position ?p))
                     (nullish (attractionStrength ?cfg) 0
                      * (1 - length_v (sub_v (palm ?h) (position ?p))
                             / nullish (interactionRadius ?cfg) 0)
                      / length_v (sub_v (palm ?h) (position ?p)))
               \<and> length_v (palmForce ?cfg ?p ?h)
                 = \<bar>nullish (attractionStrength ?cfg) 0
                    * (1 - length_v (sub_v (palm ?h) (position ?p))
                           / nullish (interactionRadius ?cfg) 0)\<bar>"
    by blast
  have "palmForce ?cfg ?p ?h = multiplyScalar (sub_v (palm ?h) (position ?p)) (2 * (1 - 3 / 5) / 3)"
    and len: "length_v (palmForce ?cfg ?p ?h) = 4 / 5"
    using near by (simp_all add: d r length_v_multiplyScalar)
  then have force: "palmForce ?cfg ?p ?h = Vector3 (- (4 / 5)) 0 0"
    by (simp add: handAt_def particleAt_def sub_v_def multiplyScalar_def)
  from inst obtain ps' where run: "update ?cfg [?h] calmDraws 0 (1 / 60) [?p] = Inr ps'"
    and nth: "ps' ! 0 = applyBoundaries ?cfg
                 (integrate ?cfg
                    (add_v (sumForces (map (palmForce ?cfg ([?p] ! 0)) [?h]))
                       (jitter calmDraws (3 * 0)))
                    ([?p] ! 0))"
    by blast
  have moved: "integrate ?cfg (Vector3 (- (4 / 5)) 0 0) ?p
               = ?p \<lparr> velocity := Vector3 (- (17 / 25)) 0 0, position := Vector3 (58 / 25) 0 0 \<rparr>"
    by (simp add: integrate_def Let_def r particleAt_def add_v_def multiplyScalar_def)
  have "ps' ! 0 = ?p \<lparr> velocity := Vector3 (- (17 / 25)) 0 0, position := Vector3 (58 / 25) 0 0 \<rparr>"
    unfolding nth by (simp add: force jitter_calm moved applyBoundaries_id r)
  then have "velocity (ps' ! 0) = Vector3 (- (17 / 25)) 0 0 \<and> position (ps' ! 0) = Vector3 (58 / 25) 0 0"
    by simp
  with run have "\<exists>ps'. update ?cfg [?h] calmDraws 0 (1 / 60) [?p] = Inr ps'
            \<and> velocity (ps' ! 0) = Vector3 (- (17 / 25)) 0 0
            \<and> position (ps' ! 0) = Vector3 (58 / 25) 0 0"
    by blast
  with b l calmDraws_ok force len show ?thesis by (simp add: d r)
qed

text \<open>
  The claim as stated fails for a palm exactly at the particle's position: the
  distance \<open>0\<close> is strictly within the radius \<open>5\<close> and the claimed magnitude is
  the maximal \<open>2\<close>, but normalising the zero vector gives the zero vector and
  the total force (with no jitter) is zero.
\<close>

theorem responsive_force_counterexample:
  "length_v (sub_v (palm (handAt (Vector3 0 0 0)))
               (position (particleAt (Vector3 0 0 0) (Vector3 0 0 0))))
   < nullish (interactionRadius (scenarioConfig (17 / 20))) 0
   \<and> nullish (attractionStrength (scenarioConfig (17 / 20))) 0
       * (1 - length_v (sub_v (palm (handAt (Vector3 0 0 0)))
                          (position (particleAt (Vector3 0 0 0) (Vector3 0 0 0))))
              / nullish (interactionRadius (scenarioConfig (17 / 20))) 1) = 2
   \<and> length_v (handleResponsiveBehavior (scenarioConfig (17 / 20)) [handAt (Vector3 0 0 0)]
                  calmDraws 0 (particleAt (Vector3 0 0 0) (Vector3 0 0 0)) (Vector3 0 0 0)) = 0"
  by (simp add: handAt_def particleAt_def scenarioConfig_def sub_v_def
        handleResponsiveBehavior_def responsiveStep_def normalize_v_def divideScalar_def
        multiplyScalar_def add_v_def calmDraws_def length_v_def Let_def)

section \<open>Cohesive forces\<close>

lemma cohesive_body:
  "(let other = q;
        dir = sub_v (position other) (position p);
        dist = length_v dir
    in if dist < nullish (cohesionRadius cfg) 0
       then add_v F (multiplyScalar (normalize_v dir)
                       (nullish (cohesionStrength cfg) 0
                        * (1 - dist / nullish (cohesionRadius cfg) 1)))
       else F)
   = add_v F (neighbourForce cfg p q)"
proof -
  define dir where "dir = sub_v (position q) (position p)"
  define d where "d = length_v dir"
  have d0: "0 \<le> d" by (simp add: d_def length_v_nonneg)
  show ?thesis
  proof (cases "d < nullish (cohesionRadius cfg) 0")
    case False
    then show ?thesis
      by (simp add: neighbourForce_def Let_def dir_def d_def)
  next
    case True
    with d0 obtain r where r: "cohesionRadius cfg = Some r" "d < r"
      by (cases "cohesionRadius cfg") auto
    show ?thesis
    proof (cases "d = 0")
      case True
      then have "normalize_v dir = dir" "dir = Vector3 0 0 0"
        by (simp_all add: d_def normalize_v_zero length_v_zero_vec)
      with True r show ?thesis
        by (simp add: neighbourForce_def Let_def dir_def [symmetric] d_def [symmetric]
              multiplyScalar_def)
    next
      case False
      then have "normalize_v dir = multiplyScalar dir (1 / d)"
        by (simp add: d_def normalize_v_scale)
      with False d0 r show ?thesis
        by (simp add: neighbourForce_def Let_def dir_def [symmetric] d_def [symmetric]
              multiplyScalar_twice)
    qed
  qed
qed

lemma cohesiveLoop_sum:
  "cohesiveLoop cfg ps p index i F
   = add_v F (sumForces (map (\<lambda>j. neighbourForce cfg p (ps ! j))
                           (filter (\<lambda>j. j \<noteq> index) (strideFrom i (length ps)))))"
proof (induction cfg ps p index i F rule: cohesiveLoop.induct)
  case (1 cfg ps particle index i totalForce)
  have stride: "strideFrom i (length ps)
                = (if i < length ps then i # strideFrom (i + 10) (length ps) else [])"
    by (rule strideFrom.simps)
  show ?case
  proof (cases "i < length ps")
    case False
    then show ?thesis
      by (subst cohesiveLoop.simps) (simp add: stride)
  next
    case inside: True
    show ?thesis
    proof (cases "i = index")
      case True
      have eq: "cohesiveLoop cfg ps particle index i totalForce
            = cohesiveLoop cfg ps particle index (i + 10) totalForce"
        using inside True by (subst cohesiveLoop.simps) simp
      have fs: "filter (\<lambda>j. j \<noteq> index) (strideFrom i (length ps))
                = filter (\<lambda>j. j \<noteq> index) (strideFrom (i + 10) (length ps))"
        using inside True by (subst stride) simp
      show ?thesis
        by (simp only: eq fs 1(1) [OF inside True])
    next
      case ne: False
      define q where "q = ps ! i"
      define d where "d = length_v (sub_v (position q) (position particle))"
      show ?thesis
      proof (cases "d < nullish (cohesionRadius cfg) 0")
        case True
        have "cohesiveLoop cfg ps particle index i totalForce
              = cohesiveLoop cfg ps particle index (i + 10)
                  (add_v totalForce
                     (multiplyScalar (normalize_v (sub_v (position q) (position particle)))
                        (nullish (cohesionStrength cfg) 0
                         * (1 - d / nullish (cohesionRadius cfg) 1))))"
          using inside ne True
          by (subst cohesiveLoop.simps) (simp add: Let_def q_def d_def)
        also have "\<dots> = add_v (add_v totalForce
                     (multiplyScalar (normalize_v (sub_v (position q) (position particle)))
                        (nullish (cohesionStrength cfg) 0
                         * (1 - d / nullish (cohesionRadius cfg) 1))))
                   (sumForces (map (\<lambda>j. neighbourForce cfg particle (ps ! j))
                           (filter (\<lambda>j. j \<noteq> index) (strideFrom (i + 10) (length ps)))))"
          using True by (intro 1(2) [OF inside ne]) (simp_all add: q_def d_def)
        also have "add_v totalForce
                     (multiplyScalar (normalize_v (sub_v (position q) (position particle)))
                        (nullish (cohesionStrength cfg) 0
                         * (1 - d / nullish (cohesionRadius cfg) 1)))
                   = add_v totalForce (neighbourForce cfg particle q)"
          using cohesive_body [of q particle cfg totalForce] True
          by (simp add: Let_def d_def)
        finally have loop_eq: "cohesiveLoop cfg ps particle index i totalForce
            = add_v (add_v totalForce (neighbourForce cfg particle q))
                (sumForces (map (\<lambda>j. neighbourForce cfg particle (ps ! j))
                           (filter (\<lambda>j. j \<noteq> index) (strideFrom (i + 10) (length ps)))))" .
        have fs: "filter (\<lambda>j. j \<noteq> index) (strideFrom i (length ps))
                = i # filter (\<lambda>j. j \<noteq> index) (strideFrom (i + 10) (length ps))"
          using inside ne by (subst stride) simp
        show ?thesis
          by (simp add: loop_eq fs add_v_assoc q_def)
      next
        case False
        have "cohesiveLoop cfg ps particle index i totalForce
              = cohesiveLoop cfg ps particle index (i + 10) totalForce"
          using inside ne False
          by (subst cohesiveLoop.simps) (simp add: Let_def q_def d_def)
        also have "\<dots> = add_v totalForce
                   (sumForces (map (\<lambda>j. neighbourForce cfg particle (ps ! j))
                           (filter (\<lambda>j. j \<noteq> index) (strideFrom (i + 10) (length ps)))))"
          using False by (intro 1(3) [OF inside ne]) (simp_all add: q_def d_def)
        finally have eq: "cohesiveLoop cfg ps particle index i totalForce
              = add_v totalForce
                   (sumForces (map (\<lambda>j. neighbourForce cfg particle (ps ! j))
                           (filter (\<lambda>j. j \<noteq> index) (strideFrom (i + 10) (length ps)))))" .
        have zero: "neighbourForce cfg particle (ps ! i) = Vector3 0 0 0"
          using False by (auto simp: neighbourForce_def Let_def d_def q_def)
        have fs: "filter (\<lambda>j. j \<noteq> index) (strideFrom i (length ps))
                = i # filter (\<lambda>j. j \<noteq> index) (strideFrom (i + 10) (length ps))"
          using inside ne by (subst stride) simp
        show ?thesis
          by (simp add: eq fs zero)
      qed
    qed
  qed
qed

lemma strideFrom_closed:
  "strideFrom (10 * a) n = map (\<lambda>k. 10 * k) [a..<(n + 9) div 10]"
proof (induction "(n + 9) div 10 - a" arbitrary: a)
  case 0
  then have "\<not> 10 * a < n" by linarith
  moreover from 0 have "[a..<(n + 9) div 10] = []" by simp
  ultimately show ?case by (subst strideFrom.simps) simp
next
  case (Suc m)
  then have lt: "a < (n + 9) div 10" by linarith
  then have "10 * a < n" by linarith
  moreover have "strideFrom (10 * Suc a) n = map (\<lambda>k. 10 * k) [Suc a..<(n + 9) div 10]"
    using Suc by (intro Suc.hyps(1)) linarith
  then have "strideFrom (10 * a + 10) n = map (\<lambda>k. 10 * k) [Suc a..<(n + 9) div 10]"
    by (simp add: add.commute)
  moreover have "[a..<(n + 9) div 10] = a # [Suc a..<(n + 9) div 10]"
    using lt by (simp add: upt_conv_Cons)
  ultimately show ?case by (subst strideFrom.simps) simp
qed

lemma strideFrom_zero: "filter (\<lambda>j. j \<noteq> index) (strideFrom 0 n) = sampledIndices n index"
  using strideFrom_closed [of 0 n] by (simp add: sampledIndices_def)

lemma set_sampledIndices:
  "j \<in> set (sampledIndices n index) \<longleftrightarrow> j < n \<and> 10 dvd j \<and> j \<noteq> index"
proof -
  have "(\<exists>k<(n + 9) div 10. j = 10 * k) \<longleftrightarrow> j < n \<and> 10 dvd j"
  proof
    assume "\<exists>k<(n + 9) div 10. j = 10 * k"
    then obtain k where "k < (n + 9) div 10" "j = 10 * k" by blast
    then have "j < n" "10 dvd j" by (linarith, simp)
    then show "j < n \<and> 10 dvd j" by simp
  next
    assume "j < n \<and> 10 dvd j"
    then obtain k where "j = 10 * k" "j < n" by (auto elim: dvdE)
    then have "k < (n + 9) div 10" by linarith
    with \<open>j = 10 * k\<close> show "\<exists>k<(n + 9) div 10. j = 10 * k" by blast
  qed
  then show ?thesis by (auto simp: sampledIndices_def)
qed

lemma handleCohesiveBehavior_sum:
  "handleCohesiveBehavior cfg ps p index (Vector3 0 0 0)
   = add_v (multiplyScalar (position p) (- 0.01))
       (sumForces (map (\<lambda>j. neighbourForce cfg p (ps ! j)) (sampledIndices (length ps) index)))"
  by (simp add: handleCohesiveBehavior_def cohesiveLoop_sum strideFrom_zero)

lemma cohesive_nth:
  assumes "behavior cfg = Cohesive" and "i < length ps"
  shows "updateForces cfg hands rnd ps ! i
         = applyBoundaries cfg
             (integrate cfg
                (add_v (multiplyScalar (position (ps ! i)) (- 0.01))
                   (sumForces (map (\<lambda>j. neighbourForce cfg (ps ! i)
                                            (storeBefore cfg hands rnd ps i ! j))
                                 (sampledIndices (length ps) i))))
                (ps ! i))"
proof -
  have "storeBefore cfg hands rnd ps i ! i = ps ! i"
    by (simp add: storeBefore_untouched)
  then show ?thesis
    using assms
    by (simp add: updateForces_nth totalForceOf_def handleCohesiveBehavior_sum length_storeBefore)
qed

lemma storeBefore_final:
  assumes "j < i" and "i \<le> length ps"
  shows "storeBefore cfg hands rnd ps i ! j = updateForces cfg hands rnd ps ! j"
proof -
  from assms have "j < length ps" by simp
  then show ?thesis
    using assms storeBefore_done [of j i ps cfg hands rnd]
    by (simp add: updateForces_nth)
qed

lemma neighbourForce_near:
  assumes "0 < length_v (sub_v (position q) (position p))"
    and "length_v (sub_v (position q) (position p)) < nullish (cohesionRadius cfg) 0"
  shows "neighbourForce cfg p q
         = multiplyScalar (sub_v (position q) (position p))
             (nullish (cohesionStrength cfg) 0
              * (1 - length_v (sub_v (position q) (position p)) / nullish (cohesionRadius cfg) 0)
              / length_v (sub_v (position q) (position p)))
       \<and> length_v (neighbourForce cfg p q)
         = \<bar>nullish (cohesionStrength cfg) 0
              * (1 - length_v (sub_v (position q) (position p)) / nullish (cohesionRadius cfg) 0)\<bar>"
proof -
  have eq: "neighbourForce cfg p q
         = multiplyScalar (sub_v (position q) (position p))
             (nullish (cohesionStrength cfg) 0
              * (1 - length_v (sub_v (position q) (position p)) / nullish (cohesionRadius cfg) 0)
              / length_v (sub_v (position q) (position p)))"
    using assms by (simp add: neighbourForce_def Let_def)
  have "length_v (neighbourForce cfg p q)
         = \<bar>nullish (cohesionStrength cfg) 0
              * (1 - length_v (sub_v (position q) (position p)) / nullish (cohesionRadius cfg) 0)\<bar>"
    unfolding eq length_v_multiplyScalar using assms(1) by (simp add: abs_mult)
  with eq show ?thesis by simp
qed

lemma neighbourForce_far:
  "\<not> (0 < length_v (sub_v (position q) (position p))
      \<and> length_v (sub_v (position q) (position p)) < nullish (cohesionRadius cfg) 0)
   \<Longrightarrow> neighbourForce cfg p q = Vector3 0 0 0"
  by (auto simp add: neighbourForce_def Let_def)

text \<open>
  Claim C7, amended.  In a cohesive tick the total force on particle \<open>i\<close> is
  \<open>-0.01 * position\<close> plus the sum of \<open>neighbourForce\<close> over the sampled indices
  \<open>0, 10, 20, \<dots>\<close> other than \<open>i\<close>.  The sampled particle is read from the store
  as it is when the iteration for \<open>i\<close> starts: already moved in this tick when
  its index is below \<open>i\<close>, not yet moved otherwise.  A sampled particle at a
  distance \<open>d\<close> with \<open>0 < d < cohesionRadius\<close> pulls towards itself with a force
  of length \<open>cohesionStrength * (1 - d / cohesionRadius)\<close> (in absolute value);
  one at distance \<open>0\<close> or not strictly within the radius contributes nothing.
  Integration and boundaries are those of the responsive mode.
\<close>

theorem cohesive_force_and_integration:
  assumes "behavior cfg = Cohesive" and "i < length ps"
  shows "(\<exists>ps'. update cfg hands rnd now deltaTime ps = Inr ps'
            \<and> ps' ! i = applyBoundaries cfg
                 (integrate cfg
                    (add_v (multiplyScalar (position (ps ! i)) (- 0.01))
                       (sumForces (map (\<lambda>j. neighbourForce cfg (ps ! i)
                                                (storeBefore cfg hands rnd ps i ! j))
                                     (sampledIndices (length ps) i))))
                    (ps ! i))
            \<and> (\<forall>j<length ps. storeBefore cfg hands rnd ps i ! j
                               = (if j < i then ps' ! j else ps ! j)))
         \<and> (j \<in> set (sampledIndices (length ps) i) \<longleftrightarrow> j < length ps \<and> 10 dvd j \<and> j \<noteq> i)
         \<and> (0 < length_v (sub_v (position q) (position p))
              \<and> length_v (sub_v (position q) (position p)) < nullish (cohesionRadius cfg) 0
             \<longrightarrow> neighbourForce cfg p q
                 = multiplyScalar (sub_v (position q) (position p))
                     (nullish (cohesionStrength cfg) 0
                      * (1 - length_v (sub_v (position q) (position p))
                             / nullish (cohesionRadius cfg) 0)
                      / length_v (sub_v (position q) (position p)))
               \<and> length_v (neighbourForce cfg p q)
                 = \<bar>nullish (cohesionStrength cfg) 0
                    * (1 - length_v (sub_v (position q) (position p))
                           / nullish (cohesionRadius cfg) 0)\<bar>)
         \<and> (\<not> (0 < length_v (sub_v (position q) (position p))
                 \<and> length_v (sub_v (position q) (position p)) < nullish (cohesionRadius cfg) 0)
             \<longrightarrow> neighbourForce cfg p q = Vector3 0 0 0)"
proof -
  have run: "update cfg hands rnd now deltaTime ps = Inr (updateForces cfg hands rnd ps)"
    using assms(1) by (simp add: update_def)
  have store: "storeBefore cfg hands rnd ps i ! j
               = (if j < i then updateForces cfg hands rnd ps ! j else ps ! j)"
    if "j < length ps" for j
    using that assms(2) by (simp add: storeBefore_final storeBefore_untouched)
  have tick: "\<exists>ps'. update cfg hands rnd now deltaTime ps = Inr ps'
            \<and> ps' ! i = applyBoundaries cfg
                 (integrate cfg
                    (add_v (multiplyScalar (position (ps ! i)) (- 0.01))
                       (sumForces (map (\<lambda>j. neighbourForce cfg (ps ! i)
                                                (storeBefore cfg hands rnd ps i ! j))
                                     (sampledIndices (length ps) i))))
                    (ps ! i))
            \<and> (\<forall>j<length ps. storeBefore cfg hands rnd ps i ! j
                               = (if j < i then ps' ! j else ps ! j))"
    using run cohesive_nth [OF assms, of hands rnd] store by blast
  note idx = set_sampledIndices [of j "length ps" i]
  note near = neighbourForce_near [of q p cfg]
  note far = neighbourForce_far [of q p cfg]
  from tick idx near far show ?thesis by blast
qed

lemma sampled_two:
  "sampledIndices 2 0 = []" "sampledIndices 2 1 = [0]" "sampledIndices 2 (Suc 0) = [0]"
  "sampledIndices (Suc (Suc 0)) 0 = []" "sampledIndices (Suc (Suc 0)) (Suc 0) = [0]"
  by (simp_all add: sampledIndices_def)

lemma cohesive_values:
  "nullish (cohesionRadius cohesiveConfig) 0 = 5" "nullish (cohesionStrength cohesiveConfig) 0 = 3 / 10"
  "viscosity cohesiveConfig = 19 / 20" "boundary cohesiveConfig = 20"
  "behavior cohesiveConfig = Cohesive" "nullish (cohesionRadius cohesiveConfig) 1 = 5"
  by (simp_all add: cohesiveConfig_def)

lemma resting_first:
  "storeBefore cohesiveConfig [] calmDraws [particleAt (Vector3 0 0 0) (Vector3 0 0 0), q] 1
   = [particleAt (Vector3 0 0 0) (Vector3 0 0 0), q]"
proof -
  let ?o = "particleAt (Vector3 0 0 0) (Vector3 0 0 0)"
  have force: "totalForceOf cohesiveConfig [] calmDraws 0 [?o, q] = Vector3 0 0 0"
    by (simp add: totalForceOf_def cohesive_values handleCohesiveBehavior_sum sampled_two)
       (simp add: particleAt_def multiplyScalar_def)
  have "integrate cohesiveConfig (Vector3 0 0 0) ?o = ?o"
    by (simp add: integrate_def Let_def particleAt_def add_v_def multiplyScalar_def)
  moreover have "applyBoundaries cohesiveConfig ?o = ?o"
    by (rule applyBoundaries_id) (simp_all add: particleAt_def cohesive_values)
  ultimately have "updateParticle cohesiveConfig [] calmDraws 0 [?o, q] = [?o, q]"
    by (simp add: updateParticle_def force)
  moreover have "storeBefore cohesiveConfig [] calmDraws [?o, q] 1
        = updateParticle cohesiveConfig [] calmDraws 0 [?o, q]"
    by (simp add: storeBefore_def)
  ultimately show ?thesis by simp
qed

lemma resting_first_Suc:
  "storeBefore cohesiveConfig [] calmDraws [particleAt (Vector3 0 0 0) (Vector3 0 0 0), q] (Suc 0)
   = [particleAt (Vector3 0 0 0) (Vector3 0 0 0), q]"
  using resting_first [of q] by simp

theorem cohesive_force_and_integration_witness:
  "behavior cohesiveConfig = Cohesive
   \<and> 1 < length [particleAt (Vector3 0 0 0) (Vector3 0 0 0),
                 particleAt (Vector3 3 0 0) (Vector3 0 0 0)]
   \<and> 0 \<in> set (sampledIndices 2 1)
   \<and> neighbourForce cohesiveConfig (particleAt (Vector3 3 0 0) (Vector3 0 0 0))
        (particleAt (Vector3 0 0 0) (Vector3 0 0 0)) = Vector3 (- 0.12) 0 0
   \<and> (\<exists>ps'. update cohesiveConfig [] calmDraws 0 (1 / 60)
               [particleAt (Vector3 0 0 0) (Vector3 0 0 0),
                particleAt (Vector3 3 0 0) (Vector3 0 0 0)] = Inr ps'
            \<and> velocity (ps' ! 1) = Vector3 (- 0.1425) 0 0
            \<and> position (ps' ! 1) = Vector3 2.8575 0 0)"
proof -
  let ?o = "particleAt (Vector3 0 0 0) (Vector3 0 0 0)"
  let ?p = "particleAt (Vector3 3 0 0) (Vector3 0 0 0)"
  have l: "1 < length [?o, ?p]" by simp
  have d: "length_v (sub_v (position ?o) (position ?p)) = 3"
    by (simp add: particleAt_def sub_v_def length_x)
  note inst = cohesive_force_and_integration
                [OF cohesive_values(5) l, of "[]" calmDraws 0 "1 / 60" 0 ?o ?p]
  have idx: "0 \<in> set (sampledIndices 2 1)" by (simp add: sampled_two)
  from inst have near: "0 < length_v (sub_v (position ?o) (position ?p))
              \<and> length_v (sub_v (position ?o) (position ?p)) < nullish (cohesionRadius cohesiveConfig) 0
             \<longrightarrow> neighbourForce cohesiveConfig ?p ?o
                 = multiplyScalar (sub_v (position ?o) (position ?p))
                     (nullish (cohesionStrength cohesiveConfig) 0
                      * (1 - length_v (sub_v (position ?o) (position ?p))
                             / nullish (cohesionRadius cohesiveConfig) 0)
                      / length_v (sub_v (position ?o) (position ?p)))"
    by blast
  have "neighbourForce cohesiveConfig ?p ?o
        = multiplyScalar (sub_v (position ?o) (position ?p)) (3 / 10 * (1 - 3 / 5) / 3)"
    using near by (simp add: d cohesive_values)
  then have force: "neighbourForce cohesiveConfig ?p ?o = Vector3 (- (3 / 25)) 0 0"
    by (simp add: particleAt_def sub_v_def multiplyScalar_def)
  from inst obtain ps' where run: "update cohesiveConfig [] calmDraws 0 (1 / 60) [?o, ?p] = Inr ps'"
    and nth: "ps' ! 1 = applyBoundaries cohesiveConfig
                 (integrate cohesiveConfig
                    (add_v (multiplyScalar (position ([?o, ?p] ! 1)) (- 0.01))
                       (sumForces (map (\<lambda>j. neighbourForce cohesiveConfig ([?o, ?p] ! 1)
                                                (storeBefore cohesiveConfig [] calmDraws [?o, ?p] 1 ! j))
                                     (sampledIndices (length [?o, ?p]) 1))))
                    ([?o, ?p] ! 1))"
    by blast
  have total: "add_v (multiplyScalar (position ([?o, ?p] ! 1)) (- 0.01))
                 (sumForces (map (\<lambda>j. neighbourForce cohesiveConfig ([?o, ?p] ! 1)
                                          (storeBefore cohesiveConfig [] calmDraws [?o, ?p] 1 ! j))
                               (sampledIndices (length [?o, ?p]) 1)))
               = Vector3 (- (3 / 20)) 0 0"
    by (simp add: resting_first_Suc sampled_two force)
       (simp add: particleAt_def multiplyScalar_def add_v_def)
  have moved: "integrate cohesiveConfig (Vector3 (- (3 / 20)) 0 0) ?p
               = ?p \<lparr> velocity := Vector3 (- (57 / 400)) 0 0, position := Vector3 (1143 / 400) 0 0 \<rparr>"
    by (simp add: integrate_def Let_def cohesive_values particleAt_def add_v_def multiplyScalar_def)
  have "ps' ! 1 = ?p \<lparr> velocity := Vector3 (- (57 / 400)) 0 0, position := Vector3 (1143 / 400) 0 0 \<rparr>"
    unfolding nth total by (simp add: moved applyBoundaries_id cohesive_values)
  then have "velocity (ps' ! 1) = Vector3 (- (57 / 400)) 0 0
             \<and> position (ps' ! 1) = Vector3 (1143 / 400) 0 0"
    by simp
  with run have "\<exists>ps'. update cohesiveConfig [] calmDraws 0 (1 / 60) [?o, ?p] = Inr ps'
            \<and> velocity (ps' ! 1) = Vector3 (- (57 / 400)) 0 0
            \<and> position (ps' ! 1) = Vector3 (1143 / 400) 0 0"
    by blast
  with l idx force show ?thesis by (simp add: cohesive_values)
qed

text \<open>
  The claim as stated fails for a sampled particle at the very position of the
  particle: two particles at rest at the origin, the second samples the first
  at distance \<open>0\<close>, within the radius \<open>5\<close>; the claimed magnitude is \<open>0.3\<close>, the
  total force on the second particle is zero.
\<close>

theorem cohesive_force_counterexample:
  "distanceTo
     (position (storeBefore cohesiveConfig [] calmDraws
                  [particleAt (Vector3 0 0 0) (Vector3 0 0 0),
                   particleAt (Vector3 0 0 0) (Vector3 0 0 0)] 1 ! 0))
     (position ([particleAt (Vector3 0 0 0) (Vector3 0 0 0),
                 particleAt (Vector3 0 0 0) (Vector3 0 0 0)] ! 1)) = 0
   \<and> 0 < nullish (cohesionRadius cohesiveConfig) 0
   \<and> 0 \<in> set (sampledIndices 2 1)
   \<and> nullish (cohesionStrength cohesiveConfig) 0
       * (1 - 0 / nullish (cohesionRadius cohesiveConfig) 1) = 0.3
   \<and> totalForceOf cohesiveConfig [] calmDraws 1
        (storeBefore cohesiveConfig [] calmDraws
           [particleAt (Vector3 0 0 0) (Vector3 0 0 0),
            particleAt (Vector3 0 0 0) (Vector3 0 0 0)] 1) = Vector3 0 0 0"
proof -
  let ?o = "particleAt (Vector3 0 0 0) (Vector3 0 0 0)"
  have "cohesiveLoop cohesiveConfig [?o, ?o] ?o 1 0 (Vector3 0 0 0) = Vector3 0 0 0"
    apply (subst cohesiveLoop.simps)
    apply (simp add: Let_def cohesive_values)
    apply (subst cohesiveLoop.simps)
    apply (simp add: particleAt_def sub_v_def length_v_def normalize_v_def divideScalar_def
             multiplyScalar_def add_v_def)
    done
  then have "totalForceOf cohesiveConfig [] calmDraws 1 [?o, ?o] = Vector3 0 0 0"
    by (simp add: totalForceOf_def cohesive_values handleCohesiveBehavior_def)
       (simp add: particleAt_def multiplyScalar_def add_v_def)
  then show ?thesis
    by (simp add: resting_first_Suc sampled_two cohesive_values)
       (simp add: particleAt_def distanceTo_def)
qed

section \<open>The responsive scenario\<close>

lemma abs_component_le:
  "\<bar>vx a\<bar> \<le> length_v a" "\<bar>vy a\<bar> \<le> length_v a" "\<bar>vz a\<bar> \<le> length_v a"
proof -
  have "\<bar>x\<bar> \<le> sqrt (s)" if "x * x \<le> s" for x s :: real
  proof -
    have "\<bar>x\<bar> = sqrt (x * x)" by simp
    also have "\<dots> \<le> sqrt s" using that by (rule real_sqrt_le_mono)
    finally show ?thesis .
  qed
  then show "\<bar>vx a\<bar> \<le> length_v a" "\<bar>vy a\<bar> \<le> length_v a" "\<bar>vz a\<bar> \<le> length_v a"
    by (simp_all add: length_v_def add_nonneg_nonneg)
qed

lemma dot_self: "dot_v a a = (length_v a)\<^sup>2"
  using lengthSq_nonneg [of a] by (simp add: length_v_sqrt lengthSq_def dot_v_def)

lemma palmForce_toward:
  "dot_v (palmForce cfg p h) (sub_v (palm h) (position p))
   = (if 0 < length_v (sub_v (palm h) (position p))
         \<and> length_v (sub_v (palm h) (position p)) < nullish (interactionRadius cfg) 0
      then nullish (attractionStrength cfg) 0
           * (1 - length_v (sub_v (palm h) (position p)) / nullish (interactionRadius cfg) 0)
           * length_v (sub_v (palm h) (position p))
      else 0)"
proof -
  have "dot_v (multiplyScalar a s) a = s * (length_v a)\<^sup>2" for a s
  proof -
    have "dot_v (multiplyScalar a s) a = s * dot_v a a"
      by (simp add: dot_v_def multiplyScalar_def algebra_simps)
    then show ?thesis by (simp only: dot_self)
  qed
  then show ?thesis
    by (simp add: palmForce_def Let_def power2_eq_square) (simp add: dot_v_def)
qed

lemma palmForce_length_le:
  assumes "interactionRadius cfg = Some r" "attractionStrength cfg = Some s" "0 \<le> s"
  shows "length_v (palmForce cfg p h) \<le> s"
proof (cases "0 < length_v (sub_v (palm h) (position p))
              \<and> length_v (sub_v (palm h) (position p)) < nullish (interactionRadius cfg) 0")
  case False
  then have "palmForce cfg p h = Vector3 0 0 0" by (rule palmForce_far)
  with assms show ?thesis by (simp add: length_v_def)
next
  case True
  define d where "d = length_v (sub_v (palm h) (position p))"
  from True assms have d: "0 < d" "d < r" by (simp_all add: d_def)
  then have "0 \<le> 1 - d / r" "1 - d / r \<le> 1" by simp_all
  then have "\<bar>s * (1 - d / r)\<bar> \<le> s"
    using assms(3) by (simp add: abs_mult mult_left_le)
  with palmForce_near(2) [of h p cfg] True assms show ?thesis
    by (simp add: d_def)
qed

lemma initParticle_velocity:
  assumes "draws_ok rnd"
  shows "\<bar>vx (velocity (initParticle cfg rnd i))\<bar> \<le> 0.4"
    "\<bar>vy (velocity (initParticle cfg rnd i))\<bar> \<le> 0.4"
    "\<bar>vz (velocity (initParticle cfg rnd i))\<bar> \<le> 0.4"
proof -
  have b: "\<bar>(x - 0.5) * 0.8\<bar> \<le> 0.4" if "0 \<le> x \<and> x < 1" for x :: real
  proof -
    from that show ?thesis by (simp add: abs_le_iff algebra_simps)
  qed
  from assms have "\<And>k. 0 \<le> rnd k \<and> rnd k < 1" by (simp add: draws_ok_def)
  then show "\<bar>vx (velocity (initParticle cfg rnd i))\<bar> \<le> 0.4"
    "\<bar>vy (velocity (initParticle cfg rnd i))\<bar> \<le> 0.4"
    "\<bar>vz (velocity (initParticle cfg rnd i))\<bar> \<le> 0.4"
    using b by (simp_all add: initParticle_def)
qed

lemma length_v_from_origin: "length_v (sub_v (Vector3 0 0 0) a) = length_v a"
  by (simp add: length_v_def sub_v_def)

lemma scenario_values:
  "interactionRadius (scenarioConfig visc) = Some 5" "attractionStrength (scenarioConfig visc) = Some 2"
  "viscosity (scenarioConfig visc) = visc" "boundary (scenarioConfig visc) = 10"
  "behavior (scenarioConfig visc) = Responsive" "count (scenarioConfig visc) = 4"
  by (simp_all add: scenarioConfig_def)

text \<open>
  Claim C9, amended.  In the scenario (four particles as the constructor makes
  them, boundary \<open>10\<close>, interaction radius \<open>5\<close>, attraction strength \<open>2\<close>, one
  hand with its palm at the origin, a viscosity in \<open>(0, 1]\<close>, one tick with
  \<open>deltaTime = 1/60\<close>), every particle at a distance \<open>d < 5\<close> from the origin
  before the tick gets the velocity
  \<open>viscosity * (velocity + attraction + jitter)\<close>, no boundary being hit.  The
  attraction points to the origin: its dot product with the vector from the
  particle to the origin is \<open>2 * (1 - d / 5) * d\<close>, positive unless \<open>d = 0\<close>.
  The dot product of the new velocity with that vector is
  \<open>viscosity * ((velocity + jitter) \<bullet> toOrigin + 2 * (1 - d / 5) * d)\<close>: it is
  positive exactly when the attraction outweighs what the old velocity and the
  jitter carry away from the origin.
\<close>

theorem scenario_attraction:
  fixes visc :: real and rnd0 rnd :: "nat \<Rightarrow> real" and i :: nat and now :: real
  defines "cfg \<equiv> scenarioConfig visc"
    and "h \<equiv> handAt (Vector3 0 0 0)"
  defines "p \<equiv> initParticles cfg rnd0 ! i"
  defines "d \<equiv> length_v (position p)"
  assumes "0 < visc" and "visc \<le> 1" and "draws_ok rnd0" and "draws_ok rnd"
    and "i < 4" and "d < 5"
  shows "\<exists>ps'. update cfg [h] rnd now (1 / 60) (initParticles cfg rnd0) = Inr ps'
           \<and> velocity (ps' ! i)
             = multiplyScalar (add_v (velocity p) (add_v (palmForce cfg p h) (jitter rnd (3 * i))))
                 visc
           \<and> dot_v (palmForce cfg p h) (sub_v (Vector3 0 0 0) (position p))
             = 2 * (1 - d / 5) * d
           \<and> dot_v (velocity (ps' ! i)) (sub_v (Vector3 0 0 0) (position p))
             = visc * (dot_v (add_v (velocity p) (jitter rnd (3 * i)))
                         (sub_v (Vector3 0 0 0) (position p))
                       + 2 * (1 - d / 5) * d)
           \<and> (0 < d \<longrightarrow> 0 < 2 * (1 - d / 5) * d)"
proof -
  define F where "F = palmForce cfg p h"
  define J where "J = jitter rnd (3 * i)"
  define v' where "v' = multiplyScalar (add_v (velocity p) (add_v F J)) visc"
  have ph: "palm h = Vector3 0 0 0" by (simp add: h_def handAt_def)
  have len: "length (initParticles cfg rnd0) = 4" and i': "i < length (initParticles cfg rnd0)"
    using assms(9) by (simp_all add: length_initParticles cfg_def scenario_values)
  have p_init: "p = initParticle cfg rnd0 i"
    using assms(9) by (simp add: p_def initParticles_nth cfg_def scenario_values)
  have d0: "0 \<le> d" by (simp add: d_def length_v_nonneg)
  have dist: "length_v (sub_v (palm h) (position p)) = d"
    by (simp add: ph length_v_from_origin d_def)
  \<comment> \<open>the attraction points to the origin\<close>
  have toward: "dot_v F (sub_v (Vector3 0 0 0) (position p)) = 2 * (1 - d / 5) * d"
    using palmForce_toward [of cfg p h] d0 assms(10)
    by (simp add: F_def ph [symmetric] dist cfg_def scenario_values)
  \<comment> \<open>no component leaves the cube\<close>
  have Fle: "length_v F \<le> 2"
    unfolding F_def
    by (rule palmForce_length_le [of cfg 5 2]) (simp_all add: cfg_def scenario_values)
  have Fc: "\<bar>vx F\<bar> \<le> 2" "\<bar>vy F\<bar> \<le> 2" "\<bar>vz F\<bar> \<le> 2"
    using abs_component_le [of F] Fle by simp_all
  have Jc: "\<bar>vx J\<bar> \<le> 1 / 40" "\<bar>vy J\<bar> \<le> 1 / 40" "\<bar>vz J\<bar> \<le> 1 / 40"
    unfolding J_def using jitter_bounds [OF assms(8), of "3 * i"] by simp_all
  have vc: "\<bar>vx (velocity p)\<bar> \<le> 2 / 5" "\<bar>vy (velocity p)\<bar> \<le> 2 / 5"
    "\<bar>vz (velocity p)\<bar> \<le> 2 / 5"
    unfolding p_init using initParticle_velocity [OF assms(7), of cfg i] by simp_all
  have pc: "\<bar>vx (position p)\<bar> < 5" "\<bar>vy (position p)\<bar> < 5" "\<bar>vz (position p)\<bar> < 5"
    using abs_component_le [of "position p"] assms(10) unfolding d_def by simp_all
  have scale: "\<bar>x * visc\<bar> \<le> \<bar>x\<bar>" for x
    using assms(5,6) by (simp add: abs_mult mult_left_le)
  have v'c: "\<bar>vx v'\<bar> \<le> 97 / 40" "\<bar>vy v'\<bar> \<le> 97 / 40" "\<bar>vz v'\<bar> \<le> 97 / 40"
  proof -
    have "\<bar>vx v'\<bar> \<le> \<bar>vx (velocity p) + (vx F + vx J)\<bar>"
      using scale by (simp add: v'_def multiplyScalar_def add_v_def)
    with Fc(1) Jc(1) vc(1) show "\<bar>vx v'\<bar> \<le> 97 / 40" by linarith
    have "\<bar>vy v'\<bar> \<le> \<bar>vy (velocity p) + (vy F + vy J)\<bar>"
      using scale by (simp add: v'_def multiplyScalar_def add_v_def)
    with Fc(2) Jc(2) vc(2) show "\<bar>vy v'\<bar> \<le> 97 / 40" by linarith
    have "\<bar>vz v'\<bar> \<le> \<bar>vz (velocity p) + (vz F + vz J)\<bar>"
      using scale by (simp add: v'_def multiplyScalar_def add_v_def)
    with Fc(3) Jc(3) vc(3) show "\<bar>vz v'\<bar> \<le> 97 / 40" by linarith
  qed
  have integ: "integrate cfg (add_v F J) p = p \<lparr> velocity := v', position := add_v (position p) v' \<rparr>"
    by (simp add: integrate_def Let_def v'_def cfg_def scenario_values)
  have inside: "applyBoundaries cfg (integrate cfg (add_v F J) p) = integrate cfg (add_v F J) p"
  proof (rule applyBoundaries_id)
    show "\<bar>vx (position (integrate cfg (add_v F J) p))\<bar> \<le> boundary cfg"
      unfolding integ using pc(1) v'c(1) by (simp add: add_v_def cfg_def scenario_values)
    show "\<bar>vy (position (integrate cfg (add_v F J) p))\<bar> \<le> boundary cfg"
      unfolding integ using pc(2) v'c(2) by (simp add: add_v_def cfg_def scenario_values)
    show "\<bar>vz (position (integrate cfg (add_v F J) p))\<bar> \<le> boundary cfg"
      unfolding integ using pc(3) v'c(3) by (simp add: add_v_def cfg_def scenario_values)
  qed
  have run: "update cfg [h] rnd now (1 / 60) (initParticles cfg rnd0)
             = Inr (updateForces cfg [h] rnd (initParticles cfg rnd0))"
    by (simp add: update_def cfg_def scenario_values)
  have nth: "updateForces cfg [h] rnd (initParticles cfg rnd0) ! i
             = applyBoundaries cfg (integrate cfg (add_v F J) p)"
    using responsive_nth [of cfg i "initParticles cfg rnd0" "[h]" rnd] i'
    by (simp add: cfg_def scenario_values F_def J_def p_def)
  have vel: "velocity (updateForces cfg [h] rnd (initParticles cfg rnd0) ! i) = v'"
    unfolding nth inside by (simp add: integ)
  have split: "dot_v v' u = visc * (dot_v (add_v (velocity p) J) u + dot_v F u)" for u
    by (simp add: v'_def dot_v_def add_v_def multiplyScalar_def algebra_simps)
  have pos: "0 < 2 * (1 - d / 5) * d" if "0 < d"
    using that assms(10) by simp
  show ?thesis
    using run vel toward split [of "sub_v (Vector3 0 0 0) (position p)"] pos
    by (simp add: v'_def F_def J_def)
qed

lemma outwardDraws_ok: "draws_ok outwardDraws"
  by (simp add: draws_ok_def outwardDraws_def)

lemma outward_particle:
  "initParticles (scenarioConfig visc) outwardDraws ! 0
   = \<lparr> position = Vector3 (9 / 2) 0 0, velocity = Vector3 (3 / 10) 0 0,
       direction = Vector3 1 0 0, groupIndex = 0,
       assignedCenterIndex = None, targetPosition = None \<rparr>"
  by (simp add: initParticles_nth scenario_values)
     (simp add: initParticle_def outwardDraws_def scenario_values normalize_v_def
        divideScalar_def multiplyScalar_def length_x)

lemma outward_distance:
  "length_v (position (initParticles (scenarioConfig visc) outwardDraws ! 0)) = 9 / 2"
  by (simp add: outward_particle length_x)

theorem scenario_attraction_witness:
  "0 < (17 / 20 :: real) \<and> (17 / 20 :: real) \<le> 1
   \<and> draws_ok outwardDraws \<and> draws_ok calmDraws \<and> (0 :: nat) < 4
   \<and> length_v (position (initParticles (scenarioConfig (17 / 20)) outwardDraws ! 0)) < 5
   \<and> dot_v (palmForce (scenarioConfig (17 / 20))
              (initParticles (scenarioConfig (17 / 20)) outwardDraws ! 0)
              (handAt (Vector3 0 0 0)))
        (sub_v (Vector3 0 0 0)
           (position (initParticles (scenarioConfig (17 / 20)) outwardDraws ! 0))) = 9 / 10"
proof -
  have v: "0 < (17 / 20 :: real)" "(17 / 20 :: real) \<le> 1" by simp_all
  have i: "(0 :: nat) < 4" by simp
  have d: "length_v (position (initParticles (scenarioConfig (17 / 20)) outwardDraws ! 0)) < 5"
    by (simp add: outward_distance)
  from scenario_attraction [OF v outwardDraws_ok calmDraws_ok i d, of 0]
  have "dot_v (palmForce (scenarioConfig (17 / 20))
              (initParticles (scenarioConfig (17 / 20)) outwardDraws ! 0)
              (handAt (Vector3 0 0 0)))
        (sub_v (Vector3 0 0 0)
           (position (initParticles (scenarioConfig (17 / 20)) outwardDraws ! 0)))
        = 2 * (1 - length_v (position (initParticles (scenarioConfig (17 / 20)) outwardDraws ! 0)) / 5)
          * length_v (position (initParticles (scenarioConfig (17 / 20)) outwardDraws ! 0))"
    by blast
  then have "dot_v (palmForce (scenarioConfig (17 / 20))
              (initParticles (scenarioConfig (17 / 20)) outwardDraws ! 0)
              (handAt (Vector3 0 0 0)))
        (sub_v (Vector3 0 0 0)
           (position (initParticles (scenarioConfig (17 / 20)) outwardDraws ! 0))) = 9 / 10"
    by (simp add: outward_distance)
  with v i d outwardDraws_ok calmDraws_ok show ?thesis by simp
qed

text \<open>
  The claim as stated fails: with the constructor's draws that put particle
  \<open>0\<close> at \<open>(4.5, 0, 0)\<close> with velocity \<open>(0.3, 0, 0)\<close>, viscosity \<open>0.85\<close> and no
  jitter, the attraction is \<open>(-0.2, 0, 0)\<close>, the new velocity is
  \<open>(0.085, 0, 0)\<close>, away from the origin; its dot product with the vector from
  the particle to the origin is negative, from the old position as from the new.
\<close>

lemma outward_tick:
  "updateForces (scenarioConfig (17 / 20)) [handAt (Vector3 0 0 0)] calmDraws
     (initParticles (scenarioConfig (17 / 20)) outwardDraws) ! 0
   = \<lparr> position = Vector3 (917 / 200) 0 0, velocity = Vector3 (17 / 200) 0 0,
       direction = Vector3 1 0 0, groupIndex = 0,
       assignedCenterIndex = None, targetPosition = None \<rparr>"
proof -
  let ?cfg = "scenarioConfig (17 / 20)"
  let ?p = "\<lparr> position = Vector3 (9 / 2) 0 0, velocity = Vector3 (3 / 10) 0 0,
       direction = Vector3 1 0 0, groupIndex = 0,
       assignedCenterIndex = None, targetPosition = None \<rparr>"
  have force: "palmForce ?cfg ?p (handAt (Vector3 0 0 0)) = Vector3 (- (1 / 5)) 0 0"
    by (simp add: palmForce_def Let_def handAt_def sub_v_def length_x scenario_values
          multiplyScalar_def)
  have moved: "integrate ?cfg (Vector3 (- (1 / 5)) 0 0) ?p
        = ?p \<lparr> velocity := Vector3 (17 / 200) 0 0, position := Vector3 (917 / 200) 0 0 \<rparr>"
    by (simp add: integrate_def Let_def scenario_values add_v_def multiplyScalar_def)
  have "updateForces ?cfg [handAt (Vector3 0 0 0)] calmDraws (initParticles ?cfg outwardDraws) ! 0
        = applyBoundaries ?cfg
             (integrate ?cfg
                (add_v (sumForces (map (palmForce ?cfg (initParticles ?cfg outwardDraws ! 0))
                                     [handAt (Vector3 0 0 0)]))
                   (jitter calmDraws (3 * 0)))
                (initParticles ?cfg outwardDraws ! 0))"
    by (rule responsive_nth) (simp_all add: scenario_values length_initParticles)
  also have "\<dots> = applyBoundaries ?cfg (integrate ?cfg (Vector3 (- (1 / 5)) 0 0) ?p)"
    by (simp add: outward_particle force jitter_calm)
  also have "\<dots> = ?p \<lparr> velocity := Vector3 (17 / 200) 0 0, position := Vector3 (917 / 200) 0 0 \<rparr>"
    unfolding moved by (rule applyBoundaries_id) (simp_all add: scenario_values)
  finally show ?thesis by simp
qed

theorem scenario_attraction_counterexample:
  "length_v (position (initParticles (scenarioConfig (17 / 20)) outwardDraws ! 0)) = 9 / 2
   \<and> update (scenarioConfig (17 / 20)) [handAt (Vector3 0 0 0)] calmDraws 0 (1 / 60)
        (initParticles (scenarioConfig (17 / 20)) outwardDraws)
     = Inr (updateForces (scenarioConfig (17 / 20)) [handAt (Vector3 0 0 0)] calmDraws
              (initParticles (scenarioConfig (17 / 20)) outwardDraws))
   \<and> dot_v (velocity (updateForces (scenarioConfig (17 / 20)) [handAt (Vector3 0 0 0)] calmDraws
                         (initParticles (scenarioConfig (17 / 20)) outwardDraws) ! 0))
        (sub_v (Vector3 0 0 0)
           (position (initParticles (scenarioConfig (17 / 20)) outwardDraws ! 0)))
     = - (153 / 400)
   \<and> dot_v (velocity (updateForces (scenarioConfig (17 / 20)) [handAt (Vector3 0 0 0)] calmDraws
                         (initParticles (scenarioConfig (17 / 20)) outwardDraws) ! 0))
        (sub_v (Vector3 0 0 0)
           (position (updateForces (scenarioConfig (17 / 20)) [handAt (Vector3 0 0 0)] calmDraws
                        (initParticles (scenarioConfig (17 / 20)) outwardDraws) ! 0)))
     = - (15589 / 40000)"
  by (simp add: outward_distance outward_tick update_def scenario_values)
     (simp add: outward_particle dot_v_def sub_v_def)

end
